theory Spec2Isabelle
  imports Main "HOL-Library.Word"
begin

unbundle bit_operations_syntax

section \<open>Data model of the multimaster core\<close>

text \<open>
  The embedding follows \<^verbatim>\<open>multimaster.c\<close> and \<^verbatim>\<open>pglogical_proto.c\<close>. The header
  \<^verbatim>\<open>multimaster.h\<close> that declares the shared structures and the bit macros is not among
  the sources, so the records below list the fields as the functions use them, and the
  macros are reconstructed from their use.

  Conventions.
  \<^item> \<^verbatim>\<open>csn_t\<close>, \<^verbatim>\<open>timestamp_t\<close>, \<^verbatim>\<open>nodemask_t\<close> and \<^verbatim>\<open>XLogRecPtr\<close> are unsigned 64-bit
    words, \<^verbatim>\<open>TransactionId\<close> is an unsigned 32-bit word; arithmetic on them wraps.
  \<^item> C \<^verbatim>\<open>int\<close> counters and node numbers are \<open>int\<close>.
  \<^item> A structure reached through a pointer (\<^verbatim>\<open>Mtm->f\<close>, \<^verbatim>\<open>ts->f\<close>, \<^verbatim>\<open>x->f\<close>) is a record
    whose fields carry the pointer's customary name as a prefix.
  \<^item> The hash table \<^verbatim>\<open>MtmXid2State\<close> is a map from XIDs to transaction states; the
    intrusive list threaded through \<^verbatim>\<open>ts->next\<close> from \<^verbatim>\<open>Mtm->transListHead\<close> is the list
    of the XIDs of its members in link order.
  \<^item> \<^verbatim>\<open>elog(ERROR, ...)\<close> is an error value; messages of lower severity, \<^verbatim>\<open>MTM_LOG\<close>
    tracing and the diagnostic output to \<^verbatim>\<open>stderr\<close> are left out, except where a
    statement below is about them.
  \<^item> What the program reads from outside (the system clock, the shared configuration
    store, the clique search of \<^verbatim>\<open>bkb.c\<close>) is an oracle indexed by the number of
    external calls made so far, which the state counts in \<open>Mtm_ext_calls\<close>.
\<close>

type_synonym csn_t = "64 word"
type_synonym timestamp_t = "64 word"
type_synonym nodemask_t = "64 word"
type_synonym XLogRecPtr = "64 word"
type_synonym TransactionId = "32 word"

datatype XidStatus =
    TRANSACTION_STATUS_IN_PROGRESS
  | TRANSACTION_STATUS_COMMITTED
  | TRANSACTION_STATUS_ABORTED
  | TRANSACTION_STATUS_UNKNOWN

datatype MtmNodeStatus =
    MTM_INITIALIZATION
  | MTM_OFFLINE
  | MTM_CONNECTED
  | MTM_ONLINE
  | MTM_RECOVERY
  | MTM_IN_MINORITY
  | MTM_OUT_OF_SERVICE

datatype MtmMessageCode = MSG_INVALID | MSG_READY | MSG_ABORTED

record GlobalTransactionId =
  gtid_node :: int
  gtid_xid :: TransactionId

record MtmNodeInfo =
  lastHeartbeat :: timestamp_t
  lastStatusChangeTime :: timestamp_t
  oldestSnapshot :: csn_t

record MtmTransState =
  ts_xid :: TransactionId
  ts_gtid :: GlobalTransactionId
  ts_gid :: string
  ts_status :: XidStatus
  ts_snapshot :: csn_t
  ts_csn :: csn_t
  ts_isLocal :: bool
  ts_isEnqueued :: bool
  ts_votingCompleted :: bool
  ts_nSubxids :: int
  ts_cmd :: MtmMessageCode

record MtmCurrentTrans =
  x_xid :: TransactionId
  x_gtid :: GlobalTransactionId
  x_isReplicated :: bool
  x_isDistributed :: bool
  x_isPrepared :: bool
  x_isTransactionBlock :: bool
  x_containsDML :: bool
  x_status :: XidStatus
  x_snapshot :: csn_t
  x_csn :: csn_t
  x_gid :: string

record MtmState =
  Mtm_status :: MtmNodeStatus
  Mtm_disabledNodeMask :: nodemask_t
  Mtm_connectivityMask :: nodemask_t
  Mtm_reconnectMask :: nodemask_t
  Mtm_nodeLockerMask :: nodemask_t
  Mtm_walSenderLockerMask :: nodemask_t
  Mtm_nLockers :: int
  Mtm_nLiveNodes :: int
  Mtm_nAllNodes :: int
  Mtm_nActiveTransactions :: int
  Mtm_nConfigChanges :: int
  Mtm_csn :: csn_t
  Mtm_lastCsn :: csn_t
  Mtm_timeShift :: timestamp_t
  Mtm_gcCount :: int
  Mtm_oldestXid :: TransactionId
  Mtm_inject2PCError :: int
  Mtm_nodes :: "MtmNodeInfo list"
  MtmXid2State :: "TransactionId \<rightharpoonup> MtmTransState"
  MtmGid2State :: "string \<rightharpoonup> TransactionId"
  Mtm_transList :: "TransactionId list"
  Mtm_votingTransactions :: "TransactionId list"
  Mtm_ext_calls :: nat

text \<open>
  The configuration variables the functions read, the node's own number, and two
  constants of the absent header, \<^verbatim>\<open>INVALID_CSN\<close> and \<^verbatim>\<open>MULTIMASTER_ADMIN\<close>, which are
  parameters here.
\<close>

record MtmConfig =
  INVALID_CSN :: csn_t
  MULTIMASTER_ADMIN :: string
  MtmNodeId :: int
  MtmUseDtm :: bool
  MtmUseRaftable :: bool
  MtmHeartbeatSendTimeout :: int
  MtmHeartbeatRecvTimeout :: int
  MtmNodeDisableDelay :: int
  MtmMinRecoveryLag :: int
  Mtm2PCMinTimeout :: int
  Mtm2PCPrepareRatio :: int
  MtmGcPeriod :: int
  MtmVacuumDelay :: int

text \<open>
  The outside world: \<open>gettimeofday k\<close> is what the system clock shows at external call
  number \<open>k\<close>, \<open>RaftableGet k i nowait\<close> the mask stored under \<^verbatim>\<open>node-mask-i\<close> (or
  nothing),
  \<open>RaftableSet k\<close> whether a store succeeds, and \<open>MtmFindMaxClique\<close> the clique search
  of \<^verbatim>\<open>bkb.c\<close>, which returns the clique and its size.
\<close>

record env =
  gettimeofday :: "nat \<Rightarrow> timestamp_t"
  RaftableGet :: "nat \<Rightarrow> int \<Rightarrow> bool \<Rightarrow> nodemask_t option"
  RaftableSet :: "nat \<Rightarrow> bool"
  MtmFindMaxClique :: "nodemask_t list \<Rightarrow> int \<Rightarrow> nodemask_t \<times> int"

section \<open>System time and the CSN allocator\<close>

definition MtmGetSystemTime :: "env \<Rightarrow> MtmState \<Rightarrow> timestamp_t \<times> MtmState" where
  "MtmGetSystemTime e s =
     (gettimeofday e (Mtm_ext_calls s), s\<lparr>Mtm_ext_calls := Suc (Mtm_ext_calls s)\<rparr>)"

definition MtmGetCurrentTime :: "env \<Rightarrow> MtmState \<Rightarrow> timestamp_t \<times> MtmState" where
  "MtmGetCurrentTime e s =
     (case MtmGetSystemTime e s of (t, s1) \<Rightarrow> (t + Mtm_timeShift s1, s1))"

text \<open>\<^verbatim>\<open>csn = MtmGetCurrentTime(); if (csn <= Mtm->csn) csn = ++Mtm->csn; else Mtm->csn = csn;\<close>\<close>

definition MtmAssignCSN :: "env \<Rightarrow> MtmState \<Rightarrow> csn_t \<times> MtmState" where
  "MtmAssignCSN e s =
     (case MtmGetCurrentTime e s of (c, s1) \<Rightarrow>
        if c \<le> Mtm_csn s1 then (Mtm_csn s1 + 1, s1\<lparr>Mtm_csn := Mtm_csn s1 + 1\<rparr>)
        else (c, s1\<lparr>Mtm_csn := c\<rparr>))"

text \<open>
  \<^verbatim>\<open>while ((local_csn = MtmAssignCSN()) < global_csn) Mtm->timeShift += global_csn - local_csn;\<close>
\<close>

function MtmSyncClock :: "env \<Rightarrow> csn_t \<Rightarrow> MtmState \<Rightarrow> csn_t \<times> MtmState" where
  "MtmSyncClock e global_csn s =
     (case MtmAssignCSN e s of (local_csn, s1) \<Rightarrow>
        if local_csn < global_csn
        then MtmSyncClock e global_csn
               (s1\<lparr>Mtm_timeShift := Mtm_timeShift s1 + (global_csn - local_csn)\<rparr>)
        else (local_csn, s1))"
  by pat_completeness auto

lemma word64_less_succ: "(w::64 word) \<noteq> - 1 \<Longrightarrow> w < w + 1"
  using inc_less_eq_self_iff_eq [of w] by auto

lemma word64_less_not_max: "(w::64 word) < g \<Longrightarrow> w \<noteq> - 1"
  using max_word_max [of g] by auto

lemma MtmAssignCSN_csn: "MtmAssignCSN e s = (c, s1) \<Longrightarrow> Mtm_csn s1 = c"
  by (auto simp: MtmAssignCSN_def MtmGetCurrentTime_def MtmGetSystemTime_def split: if_splits)

lemma MtmAssignCSN_gt:
  "MtmAssignCSN e s = (c, s1) \<Longrightarrow> Mtm_csn s \<noteq> - 1 \<Longrightarrow> Mtm_csn s < c"
  by (auto simp: MtmAssignCSN_def MtmGetCurrentTime_def MtmGetSystemTime_def word64_less_succ
      split: if_splits)

text \<open>
  The loop ends: once \<^verbatim>\<open>Mtm->csn\<close> is below \<open>global_csn\<close> every further round raises
  it, and it is below \<open>global_csn\<close> after the first round that does not leave the loop.
\<close>

termination MtmSyncClock
proof (relation "measure (\<lambda>(e, g, s). if Mtm_csn s < g then unat g - unat (Mtm_csn s) else unat g + 1)")
  show "wf (measure (\<lambda>(e, g, s). if Mtm_csn s < g then unat g - unat (Mtm_csn s) else unat g + 1))"
    by simp
next
  fix e :: env and g :: csn_t and s :: MtmState and l s1
  assume a: "(l, s1) = MtmAssignCSN e s" and lg: "l < g"
  have c1: "Mtm_csn s1 = l" using a MtmAssignCSN_csn [of e s l s1] by simp
  show "((e, g, s1\<lparr>Mtm_timeShift := Mtm_timeShift s1 + (g - l)\<rparr>), e, g, s)
        \<in> measure (\<lambda>(e, g, s). if Mtm_csn s < g then unat g - unat (Mtm_csn s) else unat g + 1)"
  proof (cases "Mtm_csn s < g")
    case True
    then have "Mtm_csn s \<noteq> - 1" by (rule word64_less_not_max)
    then have "Mtm_csn s < l" using a MtmAssignCSN_gt [of e s l s1] by simp
    then show ?thesis using True lg c1
      by (simp add: word_less_nat_alt)
  next
    case False
    then show ?thesis using lg c1
      by (simp add: word_less_nat_alt)
  qed
qed


section \<open>Errors, locks and sleeps\<close>

text \<open>
  \<open>ERROR fmt\<close> is \<^verbatim>\<open>elog(ERROR, fmt, ...)\<close> with the format string of the source;
  \<open>ASSERTION c\<close> is a failed \<^verbatim>\<open>Assert(c)\<close> on a pointer the code dereferences next. Where
  a statement is about the state lock, a function returns the list of its calls of
  \<^verbatim>\<open>MtmLock\<close>, \<^verbatim>\<open>MtmUnlock\<close> and \<^verbatim>\<open>MtmSleep\<close> in program order.
\<close>

datatype error = ERROR string | ASSERTION string

datatype LWLockMode = LW_EXCLUSIVE | LW_SHARED

datatype effect = MtmLock LWLockMode | MtmUnlock | MtmSleep timestamp_t

definition MIN_WAIT_TIMEOUT :: timestamp_t where
  "MIN_WAIT_TIMEOUT = 1000"

definition MAX_WAIT_TIMEOUT :: timestamp_t where
  "MAX_WAIT_TIMEOUT = 100000"

definition MAX_WAIT_LOOPS :: nat where
  "MAX_WAIT_LOOPS = 100"

section \<open>Visibility\<close>

text \<open>
  \<^verbatim>\<open>MtmXidInMVCCSnapshot\<close> returns true when the tuple is \<^emph>\<open>invisible\<close>. While the backend
  sleeps without the lock other backends change the table, so the function is given the
  table as it is at each round: \<open>tbl i\<close> is \<^verbatim>\<open>MtmXid2State\<close> at round \<open>i\<close> of the loop.
  \<open>pg\<close> is the answer of PostgreSQL's own \<^verbatim>\<open>PgXidInMVCCSnapshot\<close>. The first argument
  of the loop counts the rounds that are left.
\<close>

text \<open>\<^verbatim>\<open>if (delay*2 <= MAX_WAIT_TIMEOUT) delay *= 2;\<close>\<close>

definition next_delay :: "timestamp_t \<Rightarrow> timestamp_t" where
  "next_delay delay = (if delay * 2 \<le> MAX_WAIT_TIMEOUT then delay * 2 else delay)"

fun MtmXidInMVCCSnapshot_loop ::
  "(nat \<Rightarrow> TransactionId \<rightharpoonup> MtmTransState) \<Rightarrow> bool \<Rightarrow> TransactionId \<Rightarrow> csn_t \<Rightarrow>
   nat \<Rightarrow> nat \<Rightarrow> timestamp_t \<Rightarrow> effect list \<times> (error + bool)" where
  "MtmXidInMVCCSnapshot_loop tbl pg x snap 0 i delay =
     ([MtmUnlock], Inl (ERROR ''Failed to get status of XID %d''))"
| "MtmXidInMVCCSnapshot_loop tbl pg x snap (Suc n) i delay =
     (case tbl i x of
        Some ts \<Rightarrow>
          if ts_csn ts > snap then ([MtmUnlock], Inr True)
          else if ts_status ts = TRANSACTION_STATUS_UNKNOWN then
            (case MtmXidInMVCCSnapshot_loop tbl pg x snap n (Suc i) (next_delay delay) of
               (effs, r) \<Rightarrow> ([MtmUnlock, MtmSleep delay, MtmLock LW_SHARED] @ effs, r))
          else ([MtmUnlock], Inr (ts_status ts \<noteq> TRANSACTION_STATUS_COMMITTED))
      | None \<Rightarrow> ([MtmUnlock], Inr pg))"

definition MtmXidInMVCCSnapshot ::
  "MtmConfig \<Rightarrow> (nat \<Rightarrow> TransactionId \<rightharpoonup> MtmTransState) \<Rightarrow> bool \<Rightarrow> MtmCurrentTrans \<Rightarrow>
   TransactionId \<Rightarrow> effect list \<times> (error + bool)" where
  "MtmXidInMVCCSnapshot cfg tbl pg MtmTx x =
     (if \<not> MtmUseDtm cfg then ([], Inr pg)
      else (case MtmXidInMVCCSnapshot_loop tbl pg x (x_snapshot MtmTx) MAX_WAIT_LOOPS 0
                   MIN_WAIT_TIMEOUT of
              (effs, r) \<Rightarrow> (MtmLock LW_SHARED # effs, r)))"


section \<open>Node masks\<close>

text \<open>
  Modelled from the spec: the bit macros and \<^verbatim>\<open>MSEC_TO_USEC\<close> of \<^verbatim>\<open>multimaster.h\<close>, which
  is not among the sources. The spec has \<open>disabled-mask\<close> as a bitset with one bit per
  node and all timeouts of the configuration in milliseconds, and the source applies
  the macros to a mask and the node number less one. A bit number is in \<open>0..63\<close> in
  every call the code makes; outside that range a C shift is undefined.
\<close>

definition BIT_CHECK :: "nodemask_t \<Rightarrow> int \<Rightarrow> bool" where
  "BIT_CHECK bits b = (bits AND push_bit (nat b) 1 \<noteq> 0)"

definition BIT_SET :: "nodemask_t \<Rightarrow> int \<Rightarrow> nodemask_t" where
  "BIT_SET bits b = bits OR push_bit (nat b) 1"

definition BIT_CLEAR :: "nodemask_t \<Rightarrow> int \<Rightarrow> nodemask_t" where
  "BIT_CLEAR bits b = bits AND NOT (push_bit (nat b) 1)"

definition MSEC_TO_USEC :: "int \<Rightarrow> timestamp_t" where
  "MSEC_TO_USEC msec = word_of_int msec * 1000"

text \<open>
  Modelled from the spec: \<^verbatim>\<open>MtmIsCoordinator\<close> of the absent \<^verbatim>\<open>multimaster.h\<close>; the
  coordinator of a transaction is the node that originated it, the node of its GTID.
\<close>

definition MtmIsCoordinator :: "MtmConfig \<Rightarrow> MtmTransState \<Rightarrow> bool" where
  "MtmIsCoordinator cfg ts = (gtid_node (ts_gtid ts) = MtmNodeId cfg)"

section \<open>Transactions in the state table\<close>

text \<open>
  A pointer to a transaction state is the XID under which the table holds it.
  \<^verbatim>\<open>MtmAdjustSubtransactions\<close> follows \<^verbatim>\<open>next\<close> from the state \<^verbatim>\<open>nSubxids\<close> times: these
  are the entries after it in the list.
\<close>

definition list_successors :: "'a list \<Rightarrow> 'a \<Rightarrow> nat \<Rightarrow> 'a list" where
  "list_successors xs a n = take n (tl (dropWhile (\<lambda>b. b \<noteq> a) xs))"

definition MtmAdjustSubtransactions :: "TransactionId \<Rightarrow> MtmState \<Rightarrow> MtmState" where
  "MtmAdjustSubtransactions x s =
     (case MtmXid2State s x of
        None \<Rightarrow> s
      | Some ts \<Rightarrow>
          s\<lparr>MtmXid2State :=
              fold (\<lambda>y h. case h y of
                             None \<Rightarrow> h
                           | Some sts \<Rightarrow> h(y \<mapsto> sts\<lparr>ts_status := ts_status ts, ts_csn := ts_csn ts\<rparr>))
                (list_successors (Mtm_transList s) x (nat (ts_nSubxids ts))) (MtmXid2State s)\<rparr>)"

definition MtmAbortTransaction :: "TransactionId \<Rightarrow> MtmState \<Rightarrow> MtmState" where
  "MtmAbortTransaction x s =
     (case MtmXid2State s x of
        None \<Rightarrow> s
      | Some ts \<Rightarrow>
          if ts_status ts \<noteq> TRANSACTION_STATUS_ABORTED then
            (let s1 = s\<lparr>MtmXid2State :=
                         (MtmXid2State s)(x \<mapsto> ts\<lparr>ts_status := TRANSACTION_STATUS_ABORTED\<rparr>)\<rparr>;
                 s2 = MtmAdjustSubtransactions x s1
             in s2\<lparr>Mtm_nActiveTransactions := Mtm_nActiveTransactions s2 - 1\<rparr>)
          else s)"

definition MtmWakeUpBackend :: "TransactionId \<Rightarrow> MtmState \<Rightarrow> MtmState" where
  "MtmWakeUpBackend x s =
     (case MtmXid2State s x of
        None \<Rightarrow> s
      | Some ts \<Rightarrow>
          if \<not> ts_votingCompleted ts then
            s\<lparr>MtmXid2State := (MtmXid2State s)(x \<mapsto> ts\<lparr>ts_votingCompleted := True\<rparr>)\<rparr>
          else s)"

section \<open>Enabling and disabling nodes\<close>

text \<open>
  \<^verbatim>\<open>Mtm->nodes[i].f = v\<close> for a node index \<open>i\<close>. The array has an entry for every node
  number the code passes; an index outside the list changes nothing here.
\<close>

definition update_node :: "int \<Rightarrow> (MtmNodeInfo \<Rightarrow> MtmNodeInfo) \<Rightarrow> MtmState \<Rightarrow> MtmState" where
  "update_node i f s =
     (if 0 \<le> i \<and> nat i < length (Mtm_nodes s)
      then s\<lparr>Mtm_nodes := (Mtm_nodes s)[nat i := f (Mtm_nodes s ! nat i)]\<rparr>
      else s)"

definition MtmSwitchClusterMode :: "MtmNodeStatus \<Rightarrow> MtmState \<Rightarrow> MtmState" where
  "MtmSwitchClusterMode mode s = s\<lparr>Mtm_status := mode\<rparr>"

definition MtmDisableNode :: "MtmConfig \<Rightarrow> env \<Rightarrow> int \<Rightarrow> MtmState \<Rightarrow> MtmState" where
  "MtmDisableNode cfg e nodeId s =
     (let s1 = s\<lparr>Mtm_disabledNodeMask := BIT_SET (Mtm_disabledNodeMask s) (nodeId - 1)\<rparr> in
      case MtmGetSystemTime e s1 of (t, s2) \<Rightarrow>
        (let s3 = update_node (nodeId - 1) (\<lambda>n. n\<lparr>lastStatusChangeTime := t\<rparr>) s2;
             s4 = update_node (nodeId - 1) (\<lambda>n. n\<lparr>lastHeartbeat := 0\<rparr>) s3
         in if nodeId \<noteq> MtmNodeId cfg
            then s4\<lparr>Mtm_nLiveNodes := Mtm_nLiveNodes s4 - 1\<rparr> else s4))"

definition MtmEnableNode :: "MtmConfig \<Rightarrow> env \<Rightarrow> int \<Rightarrow> MtmState \<Rightarrow> MtmState" where
  "MtmEnableNode cfg e nodeId s =
     (let s0 = s\<lparr>Mtm_disabledNodeMask := BIT_CLEAR (Mtm_disabledNodeMask s) (nodeId - 1)\<rparr>;
          s1 = s0\<lparr>Mtm_reconnectMask := BIT_CLEAR (Mtm_reconnectMask s0) (nodeId - 1)\<rparr> in
      case MtmGetSystemTime e s1 of (t, s2) \<Rightarrow>
        (let s3 = update_node (nodeId - 1) (\<lambda>n. n\<lparr>lastStatusChangeTime := t\<rparr>) s2;
             s4 = update_node (nodeId - 1) (\<lambda>n. n\<lparr>lastHeartbeat := 0\<rparr>) s3
         in if nodeId \<noteq> MtmNodeId cfg
            then s4\<lparr>Mtm_nLiveNodes := Mtm_nLiveNodes s4 + 1\<rparr> else s4))"

text \<open>
  \<^verbatim>\<open>Mtm->nAllNodes/2+1\<close>: the number of nodes is not negative, so C's division is \<open>div\<close>.
\<close>

definition MtmCheckQuorum :: "MtmState \<Rightarrow> MtmState" where
  "MtmCheckQuorum s =
     (let s1 = s\<lparr>Mtm_nConfigChanges := Mtm_nConfigChanges s + 1\<rparr> in
      if Mtm_nLiveNodes s1 < Mtm_nAllNodes s1 div 2 + 1 then
        (if Mtm_status s1 = MTM_ONLINE then MtmSwitchClusterMode MTM_IN_MINORITY s1 else s1)
      else
        (if Mtm_status s1 = MTM_IN_MINORITY then MtmSwitchClusterMode MTM_ONLINE s1 else s1))"

definition MtmStartRecovery :: "MtmConfig \<Rightarrow> MtmState \<Rightarrow> MtmState" where
  "MtmStartRecovery cfg s =
     MtmSwitchClusterMode MTM_RECOVERY
       (s\<lparr>Mtm_disabledNodeMask := BIT_SET (Mtm_disabledNodeMask s) (MtmNodeId cfg - 1)\<rparr>)"

section \<open>The connectivity matrix and the cluster status\<close>

text \<open>
  The first loop of \<^verbatim>\<open>MtmBuildConnectivityMatrix\<close>: row \<open>i\<close> is the node's own
  connectivity mask for the node itself and what the configuration store holds under
  \<^verbatim>\<open>node-mask-(i+1)\<close> for the others; the function gives up at the first missing mask.
\<close>

fun MtmBuildConnectivityMatrix_read ::
  "MtmConfig \<Rightarrow> env \<Rightarrow> bool \<Rightarrow> nat list \<Rightarrow> MtmState \<Rightarrow> nodemask_t list option \<times> MtmState" where
  "MtmBuildConnectivityMatrix_read cfg e nowait [] s = (Some [], s)"
| "MtmBuildConnectivityMatrix_read cfg e nowait (i # rest) s =
     (if int i + 1 \<noteq> MtmNodeId cfg then
        (case RaftableGet e (Mtm_ext_calls s) (int i + 1) nowait of
           None \<Rightarrow> (None, s\<lparr>Mtm_ext_calls := Suc (Mtm_ext_calls s)\<rparr>)
         | Some m \<Rightarrow>
             (case MtmBuildConnectivityMatrix_read cfg e nowait rest
                     (s\<lparr>Mtm_ext_calls := Suc (Mtm_ext_calls s)\<rparr>) of
                (None, s1) \<Rightarrow> (None, s1)
              | (Some ms, s1) \<Rightarrow> (Some (m # ms), s1)))
      else
        (case MtmBuildConnectivityMatrix_read cfg e nowait rest s of
           (None, s1) \<Rightarrow> (None, s1)
         | (Some ms, s1) \<Rightarrow> (Some (Mtm_connectivityMask s # ms), s1)))"

text \<open>
  The second loop makes the matrix symmetric:
  \<^verbatim>\<open>matrix[i] |= ((matrix[j] >> i) & 1) << j; matrix[j] |= ((matrix[i] >> j) & 1) << i;\<close>
  for \<open>j < i\<close>, and then \<^verbatim>\<open>matrix[i] &= ~((nodemask_t)1 << i)\<close>.
\<close>

definition MtmBuildConnectivityMatrix_pair :: "nat \<Rightarrow> nat \<Rightarrow> nodemask_t list \<Rightarrow> nodemask_t list" where
  "MtmBuildConnectivityMatrix_pair i j matrix =
     (let m1 = matrix[i := (matrix ! i) OR push_bit j (drop_bit i (matrix ! j) AND 1)]
      in m1[j := (m1 ! j) OR push_bit i (drop_bit j (m1 ! i) AND 1)])"

definition MtmBuildConnectivityMatrix_row :: "nat \<Rightarrow> nodemask_t list \<Rightarrow> nodemask_t list" where
  "MtmBuildConnectivityMatrix_row i matrix =
     (let m1 = fold (MtmBuildConnectivityMatrix_pair i) [0..<i] matrix
      in m1[i := (m1 ! i) AND NOT (push_bit i 1)])"

definition MtmBuildConnectivityMatrix ::
  "MtmConfig \<Rightarrow> env \<Rightarrow> bool \<Rightarrow> MtmState \<Rightarrow> nodemask_t list option \<times> MtmState" where
  "MtmBuildConnectivityMatrix cfg e nowait s =
     (case MtmBuildConnectivityMatrix_read cfg e nowait [0..<nat (Mtm_nAllNodes s)] s of
        (None, s1) \<Rightarrow> (None, s1)
      | (Some matrix, s1) \<Rightarrow>
          (Some (fold MtmBuildConnectivityMatrix_row [0..<nat (Mtm_nAllNodes s)] matrix), s1))"

text \<open>
  \<^verbatim>\<open>for (i = 0, mask = disabled; mask != 0; i++, mask >>= 1) if (mask & 1) MtmDisableNode(i+1);\<close>
\<close>

function MtmRefreshClusterStatus_disable ::
  "MtmConfig \<Rightarrow> env \<Rightarrow> int \<Rightarrow> nodemask_t \<Rightarrow> MtmState \<Rightarrow> MtmState" where
  "MtmRefreshClusterStatus_disable cfg e i bits s =
     (if bits \<noteq> 0 then
        MtmRefreshClusterStatus_disable cfg e (i + 1) (drop_bit 1 bits)
          (if bits AND 1 \<noteq> 0 then MtmDisableNode cfg e (i + 1) s else s)
      else s)"
  by pat_completeness auto

lemma drop_bit_1_less: "(bits::64 word) \<noteq> 0 \<Longrightarrow> unat (drop_bit (Suc 0) bits) < unat bits"
proof -
  assume "bits \<noteq> 0"
  then have "0 < unat bits" by (simp add: unat_gt_0)
  moreover have "unat (drop_bit (Suc 0) bits) = unat bits div 2"
    by (simp add: drop_bit_eq_div unat_div)
  ultimately show ?thesis by simp
qed

termination MtmRefreshClusterStatus_disable
  by (relation "measure (\<lambda>(cfg, e, i, bits, s). unat bits)") (simp_all add: drop_bit_1_less)

text \<open>
  The loop over the transaction list that interrupts the voting of the transactions
  this node coordinates; \<open>disabled_any\<close> is \<^verbatim>\<open>disabled != 0\<close>.
\<close>

definition MtmRefreshClusterStatus_abort :: "MtmConfig \<Rightarrow> bool \<Rightarrow> MtmState \<Rightarrow> MtmState" where
  "MtmRefreshClusterStatus_abort cfg disabled_any s =
     fold (\<lambda>x s1. case MtmXid2State s1 x of
                     None \<Rightarrow> s1
                   | Some ts \<Rightarrow>
                       if MtmIsCoordinator cfg ts \<and> \<not> ts_votingCompleted ts \<and> disabled_any \<and>
                          ts_status ts \<noteq> TRANSACTION_STATUS_ABORTED
                       then MtmWakeUpBackend x (MtmAbortTransaction x s1) else s1)
       (Mtm_transList s) s"

text \<open>
  \<^verbatim>\<open>disabled = ~clique & (((nodemask_t)1 << Mtm->nAllNodes)-1) & ~Mtm->disabledNodeMask\<close>.
  A cluster may have 64 nodes, and a shift of a 64-bit value by 64 is undefined in C. The
  shift here is the one the processors the code is built for perform, which take the
  count modulo 64: with 64 nodes \<^verbatim>\<open>1 << 64\<close> is 1 and the mask of all nodes is 0.
\<close>

definition MtmRefreshClusterStatus :: "MtmConfig \<Rightarrow> env \<Rightarrow> bool \<Rightarrow> MtmState \<Rightarrow> bool \<times> MtmState" where
  "MtmRefreshClusterStatus cfg e nowait s =
     (case MtmBuildConnectivityMatrix cfg e nowait s of
        (None, s1) \<Rightarrow> (False, s1)
      | (Some matrix, s1) \<Rightarrow>
          (case MtmFindMaxClique e matrix (Mtm_nAllNodes s1) of (clique, clique_size) \<Rightarrow>
             if clique_size \<ge> Mtm_nAllNodes s1 div 2 + 1 then
               (let disabled = NOT clique AND (push_bit (nat (Mtm_nAllNodes s1 mod 64)) 1 - 1)
                                 AND NOT (Mtm_disabledNodeMask s1);
                    s2 = MtmRefreshClusterStatus_disable cfg e 0 disabled s1;
                    s3 = (if disabled \<noteq> 0 then MtmCheckQuorum s2 else s2);
                    s4 = MtmRefreshClusterStatus_abort cfg (disabled \<noteq> 0) s3
                in (True,
                    if BIT_CHECK (Mtm_disabledNodeMask s4) (MtmNodeId cfg - 1) then
                      (if Mtm_status s4 = MTM_ONLINE then MtmSwitchClusterMode MTM_OFFLINE s4
                       else s4)
                    else if Mtm_status s4 = MTM_OFFLINE then MtmStartRecovery cfg s4
                    else s4))
             else (True, MtmSwitchClusterMode MTM_IN_MINORITY s1)))"

section \<open>Disconnects and the watchdog\<close>

definition MtmOnNodeDisconnect_abort :: "MtmConfig \<Rightarrow> MtmState \<Rightarrow> MtmState" where
  "MtmOnNodeDisconnect_abort cfg s =
     fold (\<lambda>x s1. case MtmXid2State s1 x of
                     None \<Rightarrow> s1
                   | Some ts \<Rightarrow>
                       if MtmIsCoordinator cfg ts \<and> \<not> ts_votingCompleted ts \<and>
                          ts_status ts \<noteq> TRANSACTION_STATUS_ABORTED
                       then MtmWakeUpBackend x (MtmAbortTransaction x s1) else s1)
       (Mtm_transList s) s"

definition MtmOnNodeDisconnect :: "MtmConfig \<Rightarrow> env \<Rightarrow> int \<Rightarrow> MtmState \<Rightarrow> MtmState" where
  "MtmOnNodeDisconnect cfg e nodeId s =
     (if BIT_CHECK (Mtm_disabledNodeMask s) (nodeId - 1) then s
      else
        (case MtmGetSystemTime e s of (now, s1) \<Rightarrow>
           if lastStatusChangeTime (Mtm_nodes s1 ! nat (nodeId - 1))
                + MSEC_TO_USEC (MtmNodeDisableDelay cfg) > now
           then s1
           else
             (let s2 = s1\<lparr>Mtm_connectivityMask := BIT_SET (Mtm_connectivityMask s1) (nodeId - 1)\<rparr>;
                  s3 = s2\<lparr>Mtm_reconnectMask := BIT_SET (Mtm_reconnectMask s2) (nodeId - 1)\<rparr>;
                  stored = RaftableSet e (Mtm_ext_calls s3);
                  s4 = s3\<lparr>Mtm_ext_calls := Suc (Mtm_ext_calls s3)\<rparr>
              in if \<not> stored then
                   (if Mtm_status s4 = MTM_ONLINE then MtmSwitchClusterMode MTM_IN_MINORITY s4
                    else s4)
                 else if \<not> MtmUseRaftable cfg then
                   (if \<not> BIT_CHECK (Mtm_disabledNodeMask s4) (nodeId - 1) then
                      MtmOnNodeDisconnect_abort cfg
                        (MtmCheckQuorum (MtmDisableNode cfg e nodeId s4))
                    else s4)
                 else snd (MtmRefreshClusterStatus cfg e False s4))))"

text \<open>
  \<^verbatim>\<open>MtmWatchdog\<close> returns whether all nodes are alive. The third component lists, in
  order, the nodes for which it has called \<^verbatim>\<open>MtmOnNodeDisconnect\<close>.
\<close>

definition MtmWatchdog_node ::
  "MtmConfig \<Rightarrow> env \<Rightarrow> timestamp_t \<Rightarrow> nat \<Rightarrow> bool \<times> MtmState \<times> int list \<Rightarrow>
   bool \<times> MtmState \<times> int list" where
  "MtmWatchdog_node cfg e now i r =
     (case r of (allAlive, s, calls) \<Rightarrow>
        if int i + 1 \<noteq> MtmNodeId cfg \<and> \<not> BIT_CHECK (Mtm_disabledNodeMask s) (int i) then
          (if lastHeartbeat (Mtm_nodes s ! i) \<noteq> 0 \<and>
              now > lastHeartbeat (Mtm_nodes s ! i) + MSEC_TO_USEC (MtmHeartbeatRecvTimeout cfg)
           then (False, MtmOnNodeDisconnect cfg e (int i + 1) s, calls @ [int i + 1])
           else (allAlive, s, calls))
        else (allAlive, s, calls))"

definition MtmWatchdog ::
  "MtmConfig \<Rightarrow> env \<Rightarrow> timestamp_t \<Rightarrow> MtmState \<Rightarrow> bool \<times> MtmState \<times> int list" where
  "MtmWatchdog cfg e now s =
     fold (MtmWatchdog_node cfg e now) [0..<nat (Mtm_nAllNodes s)] (True, s, [])"

section \<open>Recovery as the donor's wal-sender sees it\<close>

text \<open>
  What a backend keeps for itself: whether its replication session is a recovery
  session, whether the transaction it is sending is filtered, the node it replicates
  to, and the index of its slot among the wal-senders
  (\<^verbatim>\<open>MyWalSnd - WalSndCtl->walsnds\<close>).
\<close>

record backend =
  MtmIsRecoverySession :: bool
  MtmIsFilteredTxn :: bool
  MtmReplicationNodeId :: int
  MyWalSnd :: int

definition MtmIsRecoveredNode :: "int \<Rightarrow> backend \<Rightarrow> MtmState \<Rightarrow> error + bool \<times> backend" where
  "MtmIsRecoveredNode nodeId b s =
     (if BIT_CHECK (Mtm_disabledNodeMask s) (nodeId - 1) then
        (if \<not> MtmIsRecoverySession b
         then Inl (ERROR ''Node %d is marked as disabled but is not in recovery mode'')
         else Inr (True, b))
      else Inr (False, b\<lparr>MtmIsRecoverySession := False\<rparr>))"

text \<open>\<open>walLSN\<close> is what \<^verbatim>\<open>GetXLogInsertRecPtr()\<close> returns.\<close>

definition MtmRecoveryCaughtUp ::
  "MtmConfig \<Rightarrow> env \<Rightarrow> XLogRecPtr \<Rightarrow> int \<Rightarrow> XLogRecPtr \<Rightarrow> backend \<Rightarrow> MtmState \<Rightarrow>
   error + bool \<times> backend \<times> MtmState" where
  "MtmRecoveryCaughtUp cfg e walLSN nodeId slotLSN b s =
     (case MtmIsRecoveredNode nodeId b s of
        Inl err \<Rightarrow> Inl err
      | Inr (False, b1) \<Rightarrow> Inr (False, b1, s)
      | Inr (True, b1) \<Rightarrow>
          if slotLSN = walLSN \<and> Mtm_nActiveTransactions s = 0 then
            (let s1 = (if BIT_CHECK (Mtm_nodeLockerMask s) (nodeId - 1) then
                         s\<lparr>Mtm_walSenderLockerMask :=
                               BIT_CLEAR (Mtm_walSenderLockerMask s) (MyWalSnd b1),
                           Mtm_nodeLockerMask := BIT_CLEAR (Mtm_nodeLockerMask s) (nodeId - 1),
                           Mtm_nLockers := Mtm_nLockers s - 1\<rparr>
                       else s);
                 s2 = MtmEnableNode cfg e nodeId s1
             in Inr (True, b1, s2\<lparr>Mtm_nConfigChanges := Mtm_nConfigChanges s2 + 1\<rparr>))
          else if \<not> BIT_CHECK (Mtm_nodeLockerMask s) (nodeId - 1) \<and>
                  slotLSN + word_of_int (MtmMinRecoveryLag cfg) > walLSN then
            Inr (False, b1,
                 s\<lparr>Mtm_nodeLockerMask := BIT_SET (Mtm_nodeLockerMask s) (nodeId - 1),
                   Mtm_walSenderLockerMask := BIT_SET (Mtm_walSenderLockerMask s) (MyWalSnd b1),
                   Mtm_nLockers := Mtm_nLockers s + 1\<rparr>)
          else Inr (False, b1, s))"


text \<open>
  A round of the loop waits exactly when the state is found, its CSN is not above the
  snapshot and its status is unknown: the transaction is in doubt.
\<close>

definition in_doubt :: "(TransactionId \<rightharpoonup> MtmTransState) \<Rightarrow> TransactionId \<Rightarrow> csn_t \<Rightarrow> bool" where
  "in_doubt h x snap =
     (case h x of None \<Rightarrow> False
      | Some ts \<Rightarrow> \<not> ts_csn ts > snap \<and> ts_status ts = TRANSACTION_STATUS_UNKNOWN)"


section \<open>The replication stream\<close>

text \<open>
  \<^verbatim>\<open>pglogical_proto.c\<close> writes into a \<^verbatim>\<open>StringInfo\<close>, a growing buffer of bytes. The
  \<^verbatim>\<open>pq_send*\<close> functions of PostgreSQL append to it: a byte, an integer of 2 or 4
  bytes or of 8 bytes in network byte order, or a run of bytes.
\<close>

type_synonym StringInfo = "8 word list"

definition be_bytes :: "nat \<Rightarrow> int \<Rightarrow> 8 word list" where
  "be_bytes n v = map (\<lambda>k. word_of_int (v div 2 ^ (8 * k))) (rev [0..<n])"

definition pq_sendbyte :: "StringInfo \<Rightarrow> 8 word \<Rightarrow> StringInfo" where
  "pq_sendbyte out c = out @ [c]"

definition pq_sendint :: "StringInfo \<Rightarrow> int \<Rightarrow> nat \<Rightarrow> StringInfo" where
  "pq_sendint out v n = out @ be_bytes n v"

definition pq_sendint64 :: "StringInfo \<Rightarrow> int \<Rightarrow> StringInfo" where
  "pq_sendint64 out v = out @ be_bytes 8 v"

definition pq_sendbytes :: "StringInfo \<Rightarrow> 8 word list \<Rightarrow> StringInfo" where
  "pq_sendbytes out bs = out @ bs"

text \<open>A C string with its terminating zero byte.\<close>

definition cstring :: "string \<Rightarrow> 8 word list" where
  "cstring str = map of_char str @ [0]"

text \<open>
  \<^verbatim>\<open>MtmTransactionSnapshot\<close>: the snapshot of a transaction that is to be replicated, and
  \<^verbatim>\<open>INVALID_CSN\<close> when the node is not online, the XID is unknown or the transaction is
  local.
\<close>

definition MtmTransactionSnapshot :: "MtmConfig \<Rightarrow> MtmState \<Rightarrow> TransactionId \<Rightarrow> csn_t" where
  "MtmTransactionSnapshot cfg s x =
     (if Mtm_status s = MTM_ONLINE then
        (case MtmXid2State s x of
           Some ts \<Rightarrow> if \<not> ts_isLocal ts then ts_snapshot ts else INVALID_CSN cfg
         | None \<Rightarrow> INVALID_CSN cfg)
      else INVALID_CSN cfg)"

text \<open>\<^verbatim>\<open>InvalidTransactionId\<close> of PostgreSQL.\<close>

definition InvalidTransactionId :: TransactionId where
  "InvalidTransactionId = 0"

definition pglogical_write_begin ::
  "MtmConfig \<Rightarrow> TransactionId \<Rightarrow> backend \<Rightarrow> MtmState \<Rightarrow> StringInfo \<Rightarrow>
   error + StringInfo \<times> backend" where
  "pglogical_write_begin cfg txn_xid b s out =
     (case MtmIsRecoveredNode (MtmReplicationNodeId b) b s of
        Inl err \<Rightarrow> Inl err
      | Inr (isRecovery, b1) \<Rightarrow>
          (let csn = MtmTransactionSnapshot cfg s txn_xid in
           if csn = INVALID_CSN cfg \<and> \<not> isRecovery then
             Inr (out, b1\<lparr>MtmIsFilteredTxn := True\<rparr>)
           else
             (let o1 = pq_sendbyte out (of_char CHR ''B'');
                  o2 = pq_sendint o1 (MtmNodeId cfg) 4;
                  o3 = pq_sendint o2
                         (uint (if isRecovery then InvalidTransactionId else txn_xid)) 4;
                  o4 = pq_sendint64 o3 (uint csn)
              in Inr (o4, b1\<lparr>MtmIsFilteredTxn := False\<rparr>))))"

text \<open>
  A relation as \<^verbatim>\<open>pglogical_write_rel\<close> needs it: the name of its schema, if the cache
  finds it, and its own name. The lengths are \<^verbatim>\<open>uint8\<close>.
\<close>

record Relation =
  nspname :: "string option"
  relname :: string

definition pglogical_write_rel :: "StringInfo \<Rightarrow> Relation \<Rightarrow> backend \<Rightarrow> error + StringInfo" where
  "pglogical_write_rel out rel b =
     (if MtmIsFilteredTxn b then Inr out
      else
        (let o1 = pq_sendbyte out (of_char CHR ''R'') in
         case nspname rel of
           None \<Rightarrow> Inl (ERROR ''cache lookup failed for namespace %u'')
         | Some nsp \<Rightarrow>
             (let nspnamelen = (of_nat (length nsp + 1) :: 8 word);
                  relnamelen = (of_nat (length (relname rel) + 1) :: 8 word);
                  o2 = pq_sendbyte o1 nspnamelen;
                  o3 = pq_sendbytes o2 (take (unat nspnamelen) (cstring nsp));
                  o4 = pq_sendbyte o3 relnamelen;
                  o5 = pq_sendbytes o4 (take (unat relnamelen) (cstring (relname rel)))
              in Inr o5)))"

text \<open>
  A column of a tuple as \<^verbatim>\<open>pglogical_write_tuple\<close> treats it, with the catalogue lookups
  done: dropped; null; an unchanged TOAST pointer; of a type the cache does not find;
  sent in internal binary format with its length and bytes, or of a length the code
  does not support; sent through the type's send function; or sent as text.
\<close>

datatype column =
    Dropped
  | Null
  | UnchangedToast
  | TypeNotFound
  | Internal int "8 word list"
  | InternalUnsupported
  | SendRecv "8 word list"
  | Text string

fun pglogical_write_columns :: "StringInfo \<Rightarrow> column list \<Rightarrow> error + StringInfo" where
  "pglogical_write_columns out [] = Inr out"
| "pglogical_write_columns out (Dropped # cs) = pglogical_write_columns out cs"
| "pglogical_write_columns out (Null # cs) =
     pglogical_write_columns (pq_sendbyte out (of_char CHR ''n'')) cs"
| "pglogical_write_columns out (UnchangedToast # cs) =
     pglogical_write_columns (pq_sendbyte out (of_char CHR ''u'')) cs"
| "pglogical_write_columns out (TypeNotFound # cs) =
     Inl (ERROR ''cache lookup failed for type %u'')"
| "pglogical_write_columns out (Internal len bs # cs) =
     pglogical_write_columns (pq_sendbytes (pq_sendint (pq_sendbyte out (of_char CHR ''b'')) len 4) bs) cs"
| "pglogical_write_columns out (InternalUnsupported # cs) =
     Inl (ERROR ''unsupported tuple type'')"
| "pglogical_write_columns out (SendRecv bs # cs) =
     pglogical_write_columns
       (pq_sendbytes (pq_sendint (pq_sendbyte out (of_char CHR ''s'')) (int (length bs)) 4) bs) cs"
| "pglogical_write_columns out (Text str # cs) =
     pglogical_write_columns
       (pq_sendbytes (pq_sendint (pq_sendbyte out (of_char CHR ''t'')) (int (length str) + 1) 4)
          (cstring str)) cs"

definition pglogical_write_tuple :: "StringInfo \<Rightarrow> column list \<Rightarrow> error + StringInfo" where
  "pglogical_write_tuple out tuple =
     (let o1 = pq_sendbyte out (of_char CHR ''T'');
          nliveatts = length (filter (\<lambda>c. c \<noteq> Dropped) tuple);
          o2 = pq_sendint o1 (int nliveatts) 2
      in pglogical_write_columns o2 tuple)"

definition pglogical_write_insert :: "StringInfo \<Rightarrow> column list \<Rightarrow> backend \<Rightarrow> error + StringInfo" where
  "pglogical_write_insert out newtuple b =
     (if \<not> MtmIsFilteredTxn b then pglogical_write_tuple (pq_sendbyte out (of_char CHR ''I'')) newtuple
      else Inr out)"

definition pglogical_write_update ::
  "StringInfo \<Rightarrow> column list option \<Rightarrow> column list \<Rightarrow> backend \<Rightarrow> error + StringInfo" where
  "pglogical_write_update out oldtuple newtuple b =
     (if \<not> MtmIsFilteredTxn b then
        (let o1 = pq_sendbyte out (of_char CHR ''U'') in
         case (case oldtuple of
                 None \<Rightarrow> Inr o1
               | Some old \<Rightarrow> pglogical_write_tuple (pq_sendbyte o1 (of_char CHR ''K'')) old) of
           Inl err \<Rightarrow> Inl err
         | Inr o2 \<Rightarrow> pglogical_write_tuple (pq_sendbyte o2 (of_char CHR ''N'')) newtuple)
      else Inr out)"

definition pglogical_write_delete :: "StringInfo \<Rightarrow> column list \<Rightarrow> backend \<Rightarrow> error + StringInfo" where
  "pglogical_write_delete out oldtuple b =
     (if \<not> MtmIsFilteredTxn b then pglogical_write_tuple (pq_sendbyte out (of_char CHR ''D'')) oldtuple
      else Inr out)"

text \<open>
  The output plugin calls these functions through the table that
  \<^verbatim>\<open>pglogical_init_api\<close> fills. A call after BEGIN is one of the following, and a
  transaction is a list of them, written in order until one raises an error.
\<close>

datatype change =
    WRITE_REL Relation
  | WRITE_INSERT "column list"
  | WRITE_UPDATE "column list option" "column list"
  | WRITE_DELETE "column list"

fun pglogical_write_change :: "StringInfo \<Rightarrow> change \<Rightarrow> backend \<Rightarrow> error + StringInfo" where
  "pglogical_write_change out (WRITE_REL rel) b = pglogical_write_rel out rel b"
| "pglogical_write_change out (WRITE_INSERT newtuple) b = pglogical_write_insert out newtuple b"
| "pglogical_write_change out (WRITE_UPDATE oldtuple newtuple) b =
     pglogical_write_update out oldtuple newtuple b"
| "pglogical_write_change out (WRITE_DELETE oldtuple) b = pglogical_write_delete out oldtuple b"

fun pglogical_write_changes :: "StringInfo \<Rightarrow> change list \<Rightarrow> backend \<Rightarrow> error + StringInfo" where
  "pglogical_write_changes out [] b = Inr out"
| "pglogical_write_changes out (c # cs) b =
     (case pglogical_write_change out c b of
        Inl err \<Rightarrow> Inl err
      | Inr o1 \<Rightarrow> pglogical_write_changes o1 cs b)"

text \<open>
  The framing of the records after BEGIN, as the specification gives it, against which
  the writers are checked. \<open>R\<close>, RELATION: the schema name and the relation name, each
  with its length in one byte before it. \<open>I\<close>, \<open>U\<close>, \<open>D\<close>: a row change with a tuple
  block. A tuple block is \<open>T\<close>, the number of live attributes in two bytes, and for each
  live attribute one byte for its kind (\<open>n\<close> null, \<open>u\<close> unchanged TOAST, \<open>b\<close> internal
  binary, \<open>s\<close> send/recv binary, \<open>t\<close> text) followed, for the last three, by the length
  in four bytes and the bytes. What the specification leaves open is taken from the
  writers: a name and a text are sent with their terminating zero byte, which their
  length counts; the length of a name is cut to eight bits; and in an UPDATE the tuple
  block of the old key, if there is one, follows a \<open>K\<close> and that of the new tuple an
  \<open>N\<close>.
\<close>

fun attribute_block :: "column \<Rightarrow> 8 word list" where
  "attribute_block Dropped = []"
| "attribute_block Null = [of_char CHR ''n'']"
| "attribute_block UnchangedToast = [of_char CHR ''u'']"
| "attribute_block TypeNotFound = []"
| "attribute_block (Internal len bs) = of_char CHR ''b'' # be_bytes 4 len @ bs"
| "attribute_block InternalUnsupported = []"
| "attribute_block (SendRecv bs) = of_char CHR ''s'' # be_bytes 4 (int (length bs)) @ bs"
| "attribute_block (Text str) =
     of_char CHR ''t'' # be_bytes 4 (int (length str) + 1) @ cstring str"

definition tuple_block :: "column list \<Rightarrow> 8 word list" where
  "tuple_block tuple =
     of_char CHR ''T'' # be_bytes 2 (int (length (filter (\<lambda>c. c \<noteq> Dropped) tuple)))
       @ concat (map attribute_block tuple)"

definition name_block :: "string \<Rightarrow> 8 word list" where
  "name_block str =
     (of_nat (length str + 1) :: 8 word)
       # take (unat (of_nat (length str + 1) :: 8 word)) (cstring str)"

fun change_record :: "change \<Rightarrow> 8 word list" where
  "change_record (WRITE_REL rel) =
     of_char CHR ''R'' # name_block (case nspname rel of Some nsp \<Rightarrow> nsp | None \<Rightarrow> [])
       @ name_block (relname rel)"
| "change_record (WRITE_INSERT newtuple) = of_char CHR ''I'' # tuple_block newtuple"
| "change_record (WRITE_UPDATE None newtuple) =
     of_char CHR ''U'' # of_char CHR ''N'' # tuple_block newtuple"
| "change_record (WRITE_UPDATE (Some oldtuple) newtuple) =
     of_char CHR ''U'' # of_char CHR ''K'' # tuple_block oldtuple
       @ of_char CHR ''N'' # tuple_block newtuple"
| "change_record (WRITE_DELETE oldtuple) = of_char CHR ''D'' # tuple_block oldtuple"

text \<open>
  The error that keeps a record from being written, if there is one: the first
  attribute, old tuple before new, whose type the cache does not find or whose internal
  format the writer does not support, and for a relation the schema that the cache does
  not find.
\<close>

fun attribute_error :: "column list \<Rightarrow> error option" where
  "attribute_error [] = None"
| "attribute_error (TypeNotFound # cs) = Some (ERROR ''cache lookup failed for type %u'')"
| "attribute_error (InternalUnsupported # cs) = Some (ERROR ''unsupported tuple type'')"
| "attribute_error (c # cs) = attribute_error cs"

fun change_error :: "change \<Rightarrow> error option" where
  "change_error (WRITE_REL rel) =
     (if nspname rel = None then Some (ERROR ''cache lookup failed for namespace %u'') else None)"
| "change_error (WRITE_INSERT newtuple) = attribute_error newtuple"
| "change_error (WRITE_UPDATE None newtuple) = attribute_error newtuple"
| "change_error (WRITE_UPDATE (Some oldtuple) newtuple) =
     (case attribute_error oldtuple of
        Some err \<Rightarrow> Some err
      | None \<Rightarrow> attribute_error newtuple)"
| "change_error (WRITE_DELETE oldtuple) = attribute_error oldtuple"

section \<open>Two-phase commit: after the local prepare\<close>

definition MtmResetTransaction :: "MtmConfig \<Rightarrow> MtmCurrentTrans \<Rightarrow> MtmCurrentTrans" where
  "MtmResetTransaction cfg x =
     x\<lparr>x_snapshot := INVALID_CSN cfg,
       x_xid := InvalidTransactionId,
       x_gtid := (x_gtid x)\<lparr>gtid_xid := InvalidTransactionId\<rparr>,
       x_isDistributed := False,
       x_isPrepared := False,
       x_status := TRANSACTION_STATUS_UNKNOWN\<rparr>"

text \<open>
  \<^verbatim>\<open>ts->nextVoting = Mtm->votingTransactions; ts->cmd = cmd; Mtm->votingTransactions = ts;\<close>
  The semaphore that wakes the sender of the messages is left out.
\<close>

definition MtmSendNotificationMessage ::
  "TransactionId \<Rightarrow> MtmMessageCode \<Rightarrow> MtmState \<Rightarrow> MtmState" where
  "MtmSendNotificationMessage x cmd s =
     (case MtmXid2State s x of
        None \<Rightarrow> s
      | Some ts \<Rightarrow>
          s\<lparr>MtmXid2State := (MtmXid2State s)(x \<mapsto> ts\<lparr>ts_cmd := cmd\<rparr>),
            Mtm_votingTransactions := x # Mtm_votingTransactions s\<rparr>)"

text \<open>\<^verbatim>\<open>#define Max(x, y) ((x) > (y) ? (x) : (y))\<close> of PostgreSQL's \<^verbatim>\<open>c.h\<close>.\<close>

definition Max_macro :: "'a::linorder \<Rightarrow> 'a \<Rightarrow> 'a" where
  "Max_macro x y = (if x > y then x else y)"

text \<open>
  \<^verbatim>\<open>Max(MSEC_TO_USEC(Mtm2PCMinTimeout), (ts->csn - ts->snapshot)*Mtm2PCPrepareRatio/100)\<close>.
  The difference of the two CSNs is unsigned and 64 bits wide, so the product, the
  quotient and the comparison are unsigned, and the sum \<^verbatim>\<open>start + transTimeout\<close> in the
  loop below is taken modulo \<open>2\<^sup>6\<^sup>4\<close> whatever the signedness of \<^verbatim>\<open>time_t\<close> is.
\<close>

definition transTimeout :: "MtmConfig \<Rightarrow> MtmTransState \<Rightarrow> timestamp_t" where
  "transTimeout cfg ts =
     Max_macro (MSEC_TO_USEC (Mtm2PCMinTimeout cfg))
       ((ts_csn ts - ts_snapshot ts) * word_of_int (Mtm2PCPrepareRatio cfg) div 100)"

text \<open>
  Between \<^verbatim>\<open>MtmUnlock()\<close> and \<^verbatim>\<open>MtmLock(LW_SHARED)\<close> the backend sleeps in \<^verbatim>\<open>WaitLatch\<close> and
  the other processes work on the shared state: \<open>others k\<close> is what they do to it during
  the wait number \<open>k\<close>. The count of this backend's own calls to the outside is not theirs
  to change.
\<close>

definition WaitLatch :: "(nat \<Rightarrow> MtmState \<Rightarrow> MtmState) \<Rightarrow> nat \<Rightarrow> MtmState \<Rightarrow> MtmState" where
  "WaitLatch others k s = (others k s)\<lparr>Mtm_ext_calls := Mtm_ext_calls s\<rparr>"

text \<open>
  The function looks its transaction up once and keeps the pointer \<^verbatim>\<open>ts\<close> over the
  waits. What the pointer shows after a wait is the entry as the other processes have
  left it; if they have taken the entry out of the table, the memory it occupied still
  holds what the backend saw last.
\<close>

definition MtmTransState_read :: "MtmState \<Rightarrow> TransactionId \<Rightarrow> MtmTransState \<Rightarrow> MtmTransState" where
  "MtmTransState_read s x seen = (case MtmXid2State s x of Some ts \<Rightarrow> ts | None \<Rightarrow> seen)"

text \<open>
  The loop that waits for the votes; \<open>ts\<close> is what the pointer shows when the condition
  is evaluated. The conjuncts of the condition are evaluated from left to right, so the
  clock is read only when the first four hold. The loop has no bound of its own: \<open>fuel\<close>
  is the number of times its condition may be evaluated, and \<open>None\<close> says that the loop
  is still waiting when the fuel is spent.
\<close>

fun MtmPostPrepareTransaction_wait ::
  "env \<Rightarrow> (nat \<Rightarrow> MtmState \<Rightarrow> MtmState) \<Rightarrow> TransactionId \<Rightarrow> int \<Rightarrow> timestamp_t \<Rightarrow> timestamp_t \<Rightarrow>
   nat \<Rightarrow> nat \<Rightarrow> MtmTransState \<Rightarrow> MtmState \<Rightarrow> (MtmTransState \<times> MtmState) option" where
  "MtmPostPrepareTransaction_wait e others x nConfigChanges start timeout 0 k ts s = None"
| "MtmPostPrepareTransaction_wait e others x nConfigChanges start timeout (Suc fuel) k ts s =
     (if \<not> ts_votingCompleted ts \<and> nConfigChanges = Mtm_nConfigChanges s
         \<and> Mtm_status s = MTM_ONLINE \<and> ts_status ts \<noteq> TRANSACTION_STATUS_ABORTED
      then (case MtmGetSystemTime e s of (now, s1) \<Rightarrow>
              if start + timeout \<ge> now
              then (let s2 = WaitLatch others k s1
                    in MtmPostPrepareTransaction_wait e others x nConfigChanges start timeout
                         fuel (Suc k) (MtmTransState_read s2 x ts) s2)
              else Some (ts, s1))
      else Some (ts, s))"

text \<open>
  The error injection at the end of the function: \<^verbatim>\<open>if (Mtm->inject2PCError == 3)\<close>.
  The outcome of the function is an error or nothing; it comes with the transaction
  descriptor of the backend and the shared state as the function leaves them.
\<close>

definition MtmPostPrepareTransaction_inject ::
  "MtmCurrentTrans \<Rightarrow> MtmState \<Rightarrow> (error + unit) \<times> MtmCurrentTrans \<times> MtmState" where
  "MtmPostPrepareTransaction_inject x s =
     (if Mtm_inject2PCError s = 3
      then (Inl (ERROR ''ERROR INJECTION for transaction %d (%s)''), x,
            s\<lparr>Mtm_inject2PCError := 0\<rparr>)
      else (Inr (), x, s))"

text \<open>
  What follows the loop: the transaction is aborted when it is not aborted yet and the
  votes are incomplete or the configuration has changed, and the backend takes the
  status of the transaction as the result of the vote. \<open>ts\<close> is what the pointer shows
  after the loop. \<^verbatim>\<open>MtmAbortTransaction(ts)\<close> writes through the pointer; for an entry
  that has left the table this changes the count of active transactions only (the
  subtransactions of such an entry are not followed).
\<close>

definition MtmPostPrepareTransaction_vote ::
  "MtmCurrentTrans \<Rightarrow> MtmTransState \<Rightarrow> int \<Rightarrow> MtmState \<Rightarrow>
   (error + unit) \<times> MtmCurrentTrans \<times> MtmState" where
  "MtmPostPrepareTransaction_vote x ts nConfigChanges s =
     (if ts_status ts \<noteq> TRANSACTION_STATUS_ABORTED
         \<and> (\<not> ts_votingCompleted ts \<or> nConfigChanges \<noteq> Mtm_nConfigChanges s)
      then MtmPostPrepareTransaction_inject (x\<lparr>x_status := TRANSACTION_STATUS_ABORTED\<rparr>)
             (case MtmXid2State s (x_xid x) of
                Some ts1 \<Rightarrow> MtmAbortTransaction (x_xid x) s
              | None \<Rightarrow> s\<lparr>Mtm_nActiveTransactions := Mtm_nActiveTransactions s - 1\<rparr>)
      else MtmPostPrepareTransaction_inject (x\<lparr>x_status := ts_status ts\<rparr>) s)"

text \<open>
  \<^verbatim>\<open>MtmPostPrepareTransaction\<close>. \<^verbatim>\<open>Assert(x->gid[0])\<close> guards no pointer and is left out.
\<close>

definition MtmPostPrepareTransaction ::
  "MtmConfig \<Rightarrow> env \<Rightarrow> (nat \<Rightarrow> MtmState \<Rightarrow> MtmState) \<Rightarrow> nat \<Rightarrow> MtmCurrentTrans \<Rightarrow> MtmState \<Rightarrow>
   ((error + unit) \<times> MtmCurrentTrans \<times> MtmState) option" where
  "MtmPostPrepareTransaction cfg e others fuel x s =
     (if \<not> x_isDistributed x then Some (Inr (), x, s)
      else if Mtm_inject2PCError s = 2
      then Some (Inl (ERROR ''ERROR INJECTION for transaction %d (%s)''), x,
                 s\<lparr>Mtm_inject2PCError := 0\<rparr>)
      else
        (case MtmXid2State s (x_xid x) of
           None \<Rightarrow> Some (Inl (ASSERTION ''ts != NULL''), x, s)
         | Some ts \<Rightarrow>
             if \<not> MtmIsCoordinator cfg ts \<or> Mtm_status s = MTM_RECOVERY then
               (let found = (MtmGid2State s (x_gid x) \<noteq> None);
                    ts1 = ts\<lparr>ts_votingCompleted := True\<rparr>;
                    ts2 = (if \<not> found then ts1\<lparr>ts_isEnqueued := False\<rparr> else ts1);
                    s1 = s\<lparr>MtmGid2State := (MtmGid2State s)(x_gid x \<mapsto> x_xid x),
                           MtmXid2State := (MtmXid2State s)(x_xid x \<mapsto> ts2)\<rparr>;
                    s2 = (if Mtm_status s1 \<noteq> MTM_RECOVERY
                          then MtmSendNotificationMessage (x_xid x) MSG_READY s1 else s1);
                    s3 = (if Mtm_status s1 \<noteq> MTM_RECOVERY \<and> MtmUseDtm cfg then s2
                          else s2\<lparr>MtmXid2State := (MtmXid2State s2)(x_xid x :=
                                 map_option (\<lambda>t. t\<lparr>ts_status := TRANSACTION_STATUS_UNKNOWN\<rparr>)
                                   (MtmXid2State s2 (x_xid x)))\<rparr>)
                in Some (MtmPostPrepareTransaction_inject (MtmResetTransaction cfg x) s3))
             else
               (let timeout = transTimeout cfg ts;
                    nConfigChanges = Mtm_nConfigChanges s
                in case MtmGetSystemTime e s of (start, s1) \<Rightarrow>
                     (case MtmPostPrepareTransaction_wait e others (x_xid x) nConfigChanges
                             start timeout fuel 0 ts s1 of
                        None \<Rightarrow> None
                      | Some (ts1, s2) \<Rightarrow>
                          Some (MtmPostPrepareTransaction_vote x ts1 nConfigChanges s2)))))"

section \<open>The end of a transaction\<close>


text \<open>\<^verbatim>\<open>TransactionIdIsValid\<close> of PostgreSQL.\<close>

definition TransactionIdIsValid :: "TransactionId \<Rightarrow> bool" where
  "TransactionIdIsValid xid = (xid \<noteq> InvalidTransactionId)"







section \<open>The beginning of a transaction\<close>

text \<open>
  What \<^verbatim>\<open>MtmBeginTransaction\<close> asks the host engine: the oldest xmin, the XID of the
  current transaction if it has one, whether the transaction is a user's
  (\<^verbatim>\<open>MtmIsUserTransaction\<close> is a conjunction of tests of the kind of the process),
  whether it is in a transaction block, its isolation level, the application name of
  the session, and the order of XIDs.
\<close>

datatype XactIsoLevel =
    XACT_READ_UNCOMMITTED
  | XACT_READ_COMMITTED
  | XACT_REPEATABLE_READ
  | XACT_SERIALIZABLE

record host =
  PgGetOldestXmin :: TransactionId
  GetCurrentTransactionIdIfAny :: TransactionId
  MtmIsUserTransaction :: bool
  IsTransactionBlock :: bool
  XactIsoLevel :: XactIsoLevel
  application_name :: string
  TransactionIdPrecedes :: "TransactionId \<Rightarrow> TransactionId \<Rightarrow> bool"

fun isoLevelStr :: "XactIsoLevel \<Rightarrow> string" where
  "isoLevelStr XACT_READ_UNCOMMITTED = ''read uncommitted''"
| "isoLevelStr XACT_READ_COMMITTED = ''read committed''"
| "isoLevelStr XACT_REPEATABLE_READ = ''repeatable read''"
| "isoLevelStr XACT_SERIALIZABLE = ''serializable''"

text \<open>
  \<^verbatim>\<open>Mtm->nodes[i].oldestSnapshot\<close>; as with \<open>update_node\<close> an index outside the list is not
  among those the code passes, and reads 0 here.
\<close>

definition node_oldestSnapshot :: "MtmState \<Rightarrow> int \<Rightarrow> csn_t" where
  "node_oldestSnapshot s i =
     (if 0 \<le> i \<and> nat i < length (Mtm_nodes s) then oldestSnapshot (Mtm_nodes s ! nat i) else 0)"

definition USECS_PER_SEC :: int where
  "USECS_PER_SEC = 1000000"

text \<open>
  The snapshot below which \<^verbatim>\<open>MtmAdjustOldestXid\<close> forgets transactions: it starts from
  the snapshot of the state of \<open>xid\<close>, which it records as the oldest snapshot of this
  node if that was older, takes the minimum over the enabled nodes, and subtracts the
  vacuum delay. (\<^verbatim>\<open>Assert(oldestSnapshot != INVALID_CSN)\<close> guards no pointer and is left
  out.)
\<close>

definition MtmAdjustOldestXid_snapshot :: "MtmConfig \<Rightarrow> MtmTransState \<Rightarrow> MtmState \<Rightarrow> csn_t \<times> MtmState" where
  "MtmAdjustOldestXid_snapshot cfg ts s =
     (let own = node_oldestSnapshot s (MtmNodeId cfg - 1);
          s1 = (if own < ts_snapshot ts
                then update_node (MtmNodeId cfg - 1) (\<lambda>n. n\<lparr>oldestSnapshot := ts_snapshot ts\<rparr>) s
                else s);
          o1 = (if own < ts_snapshot ts then ts_snapshot ts else own);
          o2 = fold (\<lambda>i m. if \<not> BIT_CHECK (Mtm_disabledNodeMask s1) (int i)
                                \<and> node_oldestSnapshot s1 (int i) < m
                             then node_oldestSnapshot s1 (int i) else m)
                 [0..<nat (Mtm_nAllNodes s1)] o1;
          delay = (word_of_int (MtmVacuumDelay cfg * USECS_PER_SEC) :: csn_t)
      in (if o2 > delay then o2 - delay else 0, s1))"

text \<open>
  The loop over the list of transactions: it runs over the states at the head of the
  list whose CSN is below the snapshot and whose XID precedes \<open>xid\<close>, and removes each
  of them from the table when it reaches the next; the last of them stays and becomes
  the head of the list. The result is that last state's XID, if there is one, and the
  new state.
\<close>

definition MtmAdjustOldestXid_forget ::
  "host \<Rightarrow> TransactionId \<Rightarrow> csn_t \<Rightarrow> MtmState \<Rightarrow> TransactionId option \<times> MtmState" where
  "MtmAdjustOldestXid_forget h xid oldest s =
     (let old = takeWhile (\<lambda>y. case MtmXid2State s y of
                                  Some ts \<Rightarrow> ts_csn ts < oldest
                                              \<and> TransactionIdPrecedes h (ts_xid ts) xid
                                | None \<Rightarrow> False)
                  (Mtm_transList s)
      in if old = [] then (None, s)
         else
           (case MtmXid2State s (last old) of
              None \<Rightarrow> (None, s)
            | Some prev \<Rightarrow>
                (Some (ts_xid prev),
                 s\<lparr>MtmXid2State :=
                      fold (\<lambda>y tab. case MtmXid2State s y of
                                       Some ts \<Rightarrow> tab(ts_xid ts := None)
                                     | None \<Rightarrow> tab)
                        (butlast old) (MtmXid2State s),
                    Mtm_transList := drop (length old - 1) (Mtm_transList s)\<rparr>)))"

definition MtmAdjustOldestXid ::
  "MtmConfig \<Rightarrow> host \<Rightarrow> TransactionId \<Rightarrow> MtmState \<Rightarrow> TransactionId \<times> MtmState" where
  "MtmAdjustOldestXid cfg h xid s =
     (let s0 = s\<lparr>Mtm_gcCount := 0\<rparr> in
      case (case MtmXid2State s0 xid of
              None \<Rightarrow> (None, s0)
            | Some ts \<Rightarrow>
                (case MtmAdjustOldestXid_snapshot cfg ts s0 of (oldest, s1) \<Rightarrow>
                   MtmAdjustOldestXid_forget h xid oldest s1)) of
        (prev, s2) \<Rightarrow>
          if MtmUseDtm cfg then
            (case prev of
               Some p \<Rightarrow> (p, s2\<lparr>Mtm_oldestXid := p\<rparr>)
             | None \<Rightarrow>
                 if TransactionIdPrecedes h (Mtm_oldestXid s2) xid then (Mtm_oldestXid s2, s2)
                 else (xid, s2))
          else (xid, s2))"

text \<open>
  \<^verbatim>\<open>MtmBeginTransaction\<close>. The outcome is the error raised or the messages written to the
  log; it comes with the transaction descriptor and the shared state as the function
  leaves them. A message is its format with the string that fills it in.
\<close>

definition MtmBeginTransaction ::
  "MtmConfig \<Rightarrow> env \<Rightarrow> host \<Rightarrow> MtmCurrentTrans \<Rightarrow> MtmState \<Rightarrow>
   (error + (string \<times> string) list) \<times> MtmCurrentTrans \<times> MtmState" where
  "MtmBeginTransaction cfg e h x s =
     (if x_snapshot x = INVALID_CSN cfg then
        (let xmin = (if Mtm_gcCount s \<ge> MtmGcPeriod cfg then PgGetOldestXmin h
                     else InvalidTransactionId);
             s1 = (if TransactionIdIsValid xmin \<and> Mtm_gcCount s \<ge> MtmGcPeriod cfg
                   then snd (MtmAdjustOldestXid cfg h xmin s) else s);
             x1 = x\<lparr>x_xid := GetCurrentTransactionIdIfAny h,
                    x_isReplicated := False,
                    x_isDistributed := MtmIsUserTransaction h,
                    x_isPrepared := False,
                    x_isTransactionBlock := IsTransactionBlock h\<rparr>
         in if x_isDistributed x1 \<and> Mtm_status s1 \<noteq> MTM_ONLINE
               \<and> application_name h \<noteq> MULTIMASTER_ADMIN cfg
            then (Inl (ERROR ''Multimaster node is not online: current status %s''), x1, s1)
            else
              (let msgs = (if x_isDistributed x1 \<and> XactIsoLevel h \<noteq> XACT_REPEATABLE_READ
                           then [(''Isolation level %s is not supported by multimaster'',
                                  isoLevelStr (XactIsoLevel h))]
                           else [])
               in case MtmAssignCSN e s1 of (csn, s2) \<Rightarrow>
                    (Inr msgs,
                     x1\<lparr>x_containsDML := False,
                        x_snapshot := csn,
                        x_gtid := (x_gtid x1)\<lparr>gtid_xid := InvalidTransactionId\<rparr>,
                        x_gid := [],
                        x_status := TRANSACTION_STATUS_IN_PROGRESS\<rparr>,
                     s2)))
      else (Inr [], x, s))"

section \<open>Frames used in the proofs\<close>

text \<open>
  \<open>trans_frame s s'\<close>: the state \<open>s'\<close> differs from \<open>s\<close> at most in the transaction
  table and the count of active transactions. \<open>hb_kept s s'\<close>: every node whose last
  heartbeat is zero in \<open>s\<close> has it zero in \<open>s'\<close>.
\<close>

definition trans_frame :: "MtmState \<Rightarrow> MtmState \<Rightarrow> bool" where
  "trans_frame s s' =
     (\<exists>h n. s' = s\<lparr>MtmXid2State := h, Mtm_nActiveTransactions := n\<rparr>)"

definition hb_kept :: "MtmState \<Rightarrow> MtmState \<Rightarrow> bool" where
  "hb_kept s s' =
     (\<forall>k. lastHeartbeat (Mtm_nodes s ! k) = 0 \<longrightarrow> lastHeartbeat (Mtm_nodes s' ! k) = 0)"

section \<open>Concrete inputs\<close>

text \<open>
  A three-node cluster in which this node is node 1, all nodes are enabled and no
  transaction is known, with a system clock that always shows 5 microseconds, a
  configuration store that holds nothing and a clique search that finds nothing. The
  worked examples below start from these and change single fields.
\<close>

definition example_env :: env where
  "example_env = \<lparr>gettimeofday = (\<lambda>k. 5), RaftableGet = (\<lambda>k i nowait. None),
     RaftableSet = (\<lambda>k. True), MtmFindMaxClique = (\<lambda>matrix n. (0, 0))\<rparr>"

definition example_state :: MtmState where
  "example_state = \<lparr>Mtm_status = MTM_ONLINE, Mtm_disabledNodeMask = 0,
     Mtm_connectivityMask = 0, Mtm_reconnectMask = 0, Mtm_nodeLockerMask = 0,
     Mtm_walSenderLockerMask = 0, Mtm_nLockers = 0, Mtm_nLiveNodes = 3, Mtm_nAllNodes = 3,
     Mtm_nActiveTransactions = 0, Mtm_nConfigChanges = 0, Mtm_csn = 0, Mtm_lastCsn = 0,
     Mtm_timeShift = 0,
     Mtm_gcCount = 0, Mtm_oldestXid = 3, Mtm_inject2PCError = 0,
     Mtm_nodes = replicate 3 \<lparr>lastHeartbeat = 0, lastStatusChangeTime = 0, oldestSnapshot = 0\<rparr>,
     MtmXid2State = Map.empty, MtmGid2State = Map.empty, Mtm_transList = [],
     Mtm_votingTransactions = [], Mtm_ext_calls = 0\<rparr>"

definition example_config :: MtmConfig where
  "example_config = \<lparr>INVALID_CSN = - 1, MULTIMASTER_ADMIN = ''mtm_admin'', MtmNodeId = 1,
     MtmUseDtm = True, MtmUseRaftable = True, MtmHeartbeatSendTimeout = 1000,
     MtmHeartbeatRecvTimeout = 10000, MtmNodeDisableDelay = 1000, MtmMinRecoveryLag = 100000,
     Mtm2PCMinTimeout = 10000, Mtm2PCPrepareRatio = 1000, MtmGcPeriod = 10000,
     MtmVacuumDelay = 1\<rparr>"

text \<open>
  A transaction with XID 7 coordinated by node 1, prepared with CSN 10 and still in
  doubt, and the current transaction of a backend whose snapshot is 20.
\<close>

definition example_ts :: MtmTransState where
  "example_ts = \<lparr>ts_xid = 7, ts_gtid = \<lparr>gtid_node = 1, gtid_xid = 7\<rparr>, ts_gid = [],
     ts_status = TRANSACTION_STATUS_UNKNOWN, ts_snapshot = 5, ts_csn = 10, ts_isLocal = False,
     ts_isEnqueued = True, ts_votingCompleted = False, ts_nSubxids = 0, ts_cmd = MSG_INVALID\<rparr>"

definition example_MtmTx :: MtmCurrentTrans where
  "example_MtmTx = \<lparr>x_xid = 8, x_gtid = \<lparr>gtid_node = 0, gtid_xid = 0\<rparr>,
     x_isReplicated = False, x_isDistributed = True, x_isPrepared = False,
     x_isTransactionBlock = False, x_containsDML = False,
     x_status = TRANSACTION_STATUS_IN_PROGRESS, x_snapshot = 20, x_csn = 0, x_gid = []\<rparr>"

text \<open>
  A table that holds \<open>ts\<close> under XID 7 during the first \<open>k\<close> rounds of a wait and \<open>ts'\<close>
  from then on.
\<close>

definition example_tbl ::
  "nat \<Rightarrow> MtmTransState \<Rightarrow> MtmTransState \<Rightarrow> nat \<Rightarrow> TransactionId \<rightharpoonup> MtmTransState" where
  "example_tbl k ts ts' i = (if i < k then [7 \<mapsto> ts] else [7 \<mapsto> ts'])"

text \<open>
  The wal-sender in slot 0 of node 1 that serves the recovery of node 3, and two
  states of node 1 in which node 3 is disabled: one before the cluster is locked, one
  with the lock of that wal-sender set.
\<close>

definition example_backend :: backend where
  "example_backend = \<lparr>MtmIsRecoverySession = True, MtmIsFilteredTxn = False,
     MtmReplicationNodeId = 3, MyWalSnd = 0\<rparr>"

definition recovering_state :: MtmState where
  "recovering_state = example_state\<lparr>Mtm_disabledNodeMask := 4, Mtm_nLiveNodes := 2\<rparr>"

definition locked_state :: MtmState where
  "locked_state = recovering_state\<lparr>Mtm_nodeLockerMask := 4, Mtm_walSenderLockerMask := 1,
     Mtm_nLockers := 1\<rparr>"

text \<open>
  A partition seen from node 1 of three: node 1 cannot reach node 3, the store holds
  mask 4 (node 3 unreachable) for node 2 and mask 3 (nodes 1 and 2 unreachable) for
  node 3, and the clique search answers with the clique of nodes 1 and 2, of size 2. In
  \<open>minority_env\<close> the search answers with node 1 alone.
\<close>

definition partition_env :: env where
  "partition_env = \<lparr>gettimeofday = (\<lambda>k. 5),
     RaftableGet = (\<lambda>k i nowait. if i = 2 then Some 4 else if i = 3 then Some 3 else None),
     RaftableSet = (\<lambda>k. True), MtmFindMaxClique = (\<lambda>matrix n. (3, 2))\<rparr>"

definition minority_env :: env where
  "minority_env = partition_env\<lparr>MtmFindMaxClique := (\<lambda>matrix n. (1, 1))\<rparr>"

definition partition_state :: MtmState where
  "partition_state = example_state\<lparr>Mtm_connectivityMask := 4\<rparr>"

text \<open>
  A state in which node 2 has not sent a heartbeat since its status changed and the
  last heartbeat of node 3 was at time 1.
\<close>

definition heartbeat_state :: MtmState where
  "heartbeat_state = example_state\<lparr>Mtm_nodes :=
     [\<lparr>lastHeartbeat = 0, lastStatusChangeTime = 0, oldestSnapshot = 0\<rparr>,
      \<lparr>lastHeartbeat = 0, lastStatusChangeTime = 0, oldestSnapshot = 0\<rparr>,
      \<lparr>lastHeartbeat = 1, lastStatusChangeTime = 0, oldestSnapshot = 0\<rparr>]\<rparr>"

text \<open>
  A cluster of 64 nodes, the most the configuration admits, with a store that holds the
  empty mask for every node and a clique search that answers with the clique of the
  nodes 1 to 33, a quorum of 64.
\<close>

definition wide_state :: MtmState where
  "wide_state = example_state\<lparr>Mtm_nAllNodes := 64, Mtm_nLiveNodes := 64,
     Mtm_nodes := replicate 64 \<lparr>lastHeartbeat = 0, lastStatusChangeTime = 0, oldestSnapshot = 0\<rparr>\<rparr>"

definition wide_env :: env where
  "wide_env = \<lparr>gettimeofday = (\<lambda>k. 5), RaftableGet = (\<lambda>k i nowait. Some 0),
     RaftableSet = (\<lambda>k. True), MtmFindMaxClique = (\<lambda>matrix n. (mask 33, 33))\<rparr>"

text \<open>
  The wal-sender of node 1 that serves node 2 in normal operation, a state whose table
  holds the prepared transaction 7, and the changes of a transaction on the table
  \<open>public.t\<close>: it inserts a row with the text \<open>1\<close>, updates it to the text \<open>2\<close> and a
  null, and deletes it.
\<close>

definition normal_backend :: backend where
  "normal_backend = \<lparr>MtmIsRecoverySession = False, MtmIsFilteredTxn = False,
     MtmReplicationNodeId = 2, MyWalSnd = 0\<rparr>"

definition prepared_state :: MtmState where
  "prepared_state = example_state\<lparr>MtmXid2State := [7 \<mapsto> example_ts]\<rparr>"

definition example_changes :: "change list" where
  "example_changes = [WRITE_REL \<lparr>nspname = Some ''public'', relname = ''t''\<rparr>,
     WRITE_INSERT [Text ''1''],
     WRITE_UPDATE (Some [Text ''1'']) [Text ''2'', Null],
     WRITE_DELETE [Text ''2'']]"


text \<open>
  The backend of transaction 7 after its local prepare, and a clock that advances by
  four seconds from one reading to the next.
\<close>

definition prepared_MtmTx :: MtmCurrentTrans where
  "prepared_MtmTx = example_MtmTx\<lparr>x_xid := 7, x_isPrepared := True, x_snapshot := 5, x_csn := 10\<rparr>"

definition ticking_env :: env where
  "ticking_env = example_env\<lparr>gettimeofday := (\<lambda>k. 4000000 * of_nat k)\<rparr>"

text \<open>
  A host engine in which a user's session \<open>psql\<close> begins a transaction under read
  committed, with XIDs ordered as numbers, and the descriptor of a backend that has no
  transaction yet.
\<close>

definition example_host :: host where
  "example_host = \<lparr>PgGetOldestXmin = 3, GetCurrentTransactionIdIfAny = 8,
     MtmIsUserTransaction = True, IsTransactionBlock = False,
     XactIsoLevel = XACT_READ_COMMITTED, application_name = ''psql'',
     TransactionIdPrecedes = (\<lambda>a b. a < b)\<rparr>"

definition starting_MtmTx :: MtmCurrentTrans where
  "starting_MtmTx = example_MtmTx\<lparr>x_xid := 0, x_isDistributed := False,
     x_status := TRANSACTION_STATUS_UNKNOWN, x_snapshot := - 1\<rparr>"

section \<open>The CSN allocator: properties\<close>

lemma MtmAssignCSN_timeShift:
  "MtmAssignCSN e s = (c, s1) \<Longrightarrow> Mtm_timeShift s1 = Mtm_timeShift s"
  by (auto simp: MtmAssignCSN_def MtmGetCurrentTime_def MtmGetSystemTime_def split: if_splits)






section \<open>Clock synchronisation: properties\<close>

lemma MtmSyncClock_result:
  "global_csn \<le> fst (MtmSyncClock e global_csn s) \<and>
   Mtm_csn (snd (MtmSyncClock e global_csn s)) = fst (MtmSyncClock e global_csn s)"
proof (induction e global_csn s rule: MtmSyncClock.induct)
  case (1 e g s)
  obtain l s1 where a: "MtmAssignCSN e s = (l, s1)" by (cases "MtmAssignCSN e s")
  show ?case
  proof (cases "l < g")
    case True
    with 1 [OF a [symmetric] True] a show ?thesis by simp
  next
    case False
    with a MtmAssignCSN_csn [OF a] show ?thesis by simp
  qed
qed

lemma MtmSyncClock_increases:
  "Mtm_csn s \<noteq> - 1 \<Longrightarrow> Mtm_csn s < fst (MtmSyncClock e global_csn s)"
proof (induction e global_csn s rule: MtmSyncClock.induct)
  case (1 e g s)
  obtain l s1 where a: "MtmAssignCSN e s = (l, s1)" by (cases "MtmAssignCSN e s")
  have gt: "Mtm_csn s < l" using a "1.prems" by (rule MtmAssignCSN_gt)
  show ?case
  proof (cases "l < g")
    case True
    let ?s2 = "s1\<lparr>Mtm_timeShift := Mtm_timeShift s1 + (g - l)\<rparr>"
    have "Mtm_csn ?s2 = l" using MtmAssignCSN_csn [OF a] by simp
    moreover have "l \<noteq> - 1" using True by (rule word64_less_not_max)
    ultimately have "l < fst (MtmSyncClock e g ?s2)"
      using "1.IH" [OF a [symmetric] True] by simp
    then show ?thesis using gt a True by simp
  next
    case False
    then show ?thesis using gt a by simp
  qed
qed

lemma MtmSyncClock_again:
  assumes "MtmSyncClock e c1 s = (r1, s1)" and "c2 \<le> c1" and "r1 \<noteq> - 1"
  shows "MtmSyncClock e c2 s1 = MtmAssignCSN e s1"
proof -
  have r: "c1 \<le> r1" "Mtm_csn s1 = r1"
    using MtmSyncClock_result [of c1 e s] assms(1) by simp_all
  obtain l s2 where a: "MtmAssignCSN e s1 = (l, s2)" by (cases "MtmAssignCSN e s1")
  have "r1 < l" using MtmAssignCSN_gt [OF a] r(2) assms(3) by simp
  then have "\<not> l < c2" using r(1) assms(2) by auto
  then show ?thesis using a by simp
qed

text \<open>
  Claim C8, as the code has it. \<^verbatim>\<open>MtmSyncClock\<close> always returns, its result is at least
  the CSN it was given and is recorded as the last CSN, and unless the last CSN was
  \<open>2^64 - 1\<close> before the call the last CSN has grown. It is not idempotent: every call
  runs \<^verbatim>\<open>MtmAssignCSN\<close> at least once. After a synchronisation to \<open>global_csn\<close> whose
  result is below \<open>2^64 - 1\<close>, a synchronisation to any \<open>c2 \<le> global_csn\<close> is exactly
  one call of \<^verbatim>\<open>MtmAssignCSN\<close>: it leaves the time shift as it is and raises the last
  CSN.
\<close>

theorem MtmSyncClock_ratchet:
  "global_csn \<le> fst (MtmSyncClock e global_csn s) \<and>
   Mtm_csn (snd (MtmSyncClock e global_csn s)) = fst (MtmSyncClock e global_csn s) \<and>
   (Mtm_csn s \<noteq> - 1 \<longrightarrow> Mtm_csn s < Mtm_csn (snd (MtmSyncClock e global_csn s))) \<and>
   (c2 \<le> global_csn \<and> fst (MtmSyncClock e global_csn s) \<noteq> - 1 \<longrightarrow>
      MtmSyncClock e c2 (snd (MtmSyncClock e global_csn s))
        = MtmAssignCSN e (snd (MtmSyncClock e global_csn s)) \<and>
      Mtm_timeShift (snd (MtmSyncClock e c2 (snd (MtmSyncClock e global_csn s))))
        = Mtm_timeShift (snd (MtmSyncClock e global_csn s)) \<and>
      Mtm_csn (snd (MtmSyncClock e global_csn s))
        < Mtm_csn (snd (MtmSyncClock e c2 (snd (MtmSyncClock e global_csn s)))))"
proof -
  obtain r1 s1 where a: "MtmSyncClock e global_csn s = (r1, s1)"
    by (cases "MtmSyncClock e global_csn s")
  have res: "global_csn \<le> r1" "Mtm_csn s1 = r1"
    using MtmSyncClock_result [of global_csn e s] a by simp_all
  have inc: "Mtm_csn s \<noteq> - 1 \<Longrightarrow> Mtm_csn s < r1"
    using MtmSyncClock_increases [of s e global_csn] a by simp
  have again: "MtmSyncClock e c2 s1 = MtmAssignCSN e s1"
    if "c2 \<le> global_csn" and "r1 \<noteq> - 1"
    using a that by (rule MtmSyncClock_again)
  obtain l s2 where b: "MtmAssignCSN e s1 = (l, s2)" by (cases "MtmAssignCSN e s1")
  have shift: "Mtm_timeShift s2 = Mtm_timeShift s1" using b by (rule MtmAssignCSN_timeShift)
  have l: "Mtm_csn s2 = l" using b by (rule MtmAssignCSN_csn)
  have gt: "r1 \<noteq> - 1 \<Longrightarrow> r1 < l" using MtmAssignCSN_gt [OF b] res(2) by simp
  show ?thesis using a res inc again b shift l gt by auto
qed

text \<open>
  The theorem at the example: the clock shows 5, a synchronisation to 9 ends with last
  CSN 9 and time shift 4, and a following synchronisation to 3 leaves the shift at 4.
\<close>

theorem MtmSyncClock_ratchet_witness:
  "Mtm_csn example_state \<noteq> - 1 \<and> (3::csn_t) \<le> 9 \<and>
   fst (MtmSyncClock example_env 9 example_state) \<noteq> - 1 \<and>
   fst (MtmSyncClock example_env 9 example_state) = 9 \<and>
   Mtm_timeShift (snd (MtmSyncClock example_env 9 example_state)) = 4 \<and>
   Mtm_timeShift (snd (MtmSyncClock example_env 3 (snd (MtmSyncClock example_env 9 example_state))))
     = Mtm_timeShift (snd (MtmSyncClock example_env 9 example_state)) \<and>
   Mtm_csn example_state < Mtm_csn (snd (MtmSyncClock example_env 9 example_state))"
proof -
  have v: "fst (MtmSyncClock example_env 9 example_state) = 9"
    "Mtm_timeShift (snd (MtmSyncClock example_env 9 example_state)) = 4"
    by code_simp+
  have h1: "Mtm_csn example_state \<noteq> - 1" by (simp add: example_state_def)
  have h2: "(3::csn_t) \<le> 9" by simp
  have h3: "fst (MtmSyncClock example_env 9 example_state) \<noteq> - 1" unfolding v by simp
  note t = MtmSyncClock_ratchet [of 9 example_env example_state 3]
  from t h2 h3 have c1:
    "Mtm_timeShift (snd (MtmSyncClock example_env 3 (snd (MtmSyncClock example_env 9 example_state))))
       = Mtm_timeShift (snd (MtmSyncClock example_env 9 example_state))"
    by blast
  from t h1 have c2: "Mtm_csn example_state < Mtm_csn (snd (MtmSyncClock example_env 9 example_state))"
    by blast
  show ?thesis using h1 h2 h3 v c1 c2 by blast
qed

text \<open>
  Claim C8 as it is written fails: a second synchronisation to the same CSN, or to a
  smaller one, changes the clock state. From the example, a synchronisation to 9
  leaves the last CSN at 9; a second one to 9 raises it to 10, and so does one to 3.
\<close>

theorem MtmSyncClock_idempotent_counterexample:
  "Mtm_csn (snd (MtmSyncClock example_env 9 example_state)) = 9 \<and>
   Mtm_csn (snd (MtmSyncClock example_env 9 (snd (MtmSyncClock example_env 9 example_state))))
     = 10 \<and>
   Mtm_csn (snd (MtmSyncClock example_env 3 (snd (MtmSyncClock example_env 9 example_state))))
     = 10 \<and>
   snd (MtmSyncClock example_env 9 (snd (MtmSyncClock example_env 9 example_state)))
     \<noteq> snd (MtmSyncClock example_env 9 example_state)"
proof -
  have v: "Mtm_csn (snd (MtmSyncClock example_env 9 example_state)) = 9"
    "Mtm_csn (snd (MtmSyncClock example_env 9 (snd (MtmSyncClock example_env 9 example_state))))
       = 10"
    "Mtm_csn (snd (MtmSyncClock example_env 3 (snd (MtmSyncClock example_env 9 example_state))))
       = 10"
    by code_simp+
  have "snd (MtmSyncClock example_env 9 (snd (MtmSyncClock example_env 9 example_state)))
     \<noteq> snd (MtmSyncClock example_env 9 example_state)"
  proof
    assume "snd (MtmSyncClock example_env 9 (snd (MtmSyncClock example_env 9 example_state)))
      = snd (MtmSyncClock example_env 9 example_state)"
    then have "Mtm_csn (snd (MtmSyncClock example_env 9 (snd (MtmSyncClock example_env 9 example_state))))
      = Mtm_csn (snd (MtmSyncClock example_env 9 example_state))"
      by (simp del: MtmSyncClock.simps)
    then show False unfolding v by simp
  qed
  then show ?thesis using v by (simp del: MtmSyncClock.simps)
qed

section \<open>Visibility: properties\<close>

lemma loop_in_doubt_step:
  assumes "in_doubt (tbl i) x snap"
  shows "MtmXidInMVCCSnapshot_loop tbl pg x snap (Suc n) i d =
   ([MtmUnlock, MtmSleep d, MtmLock LW_SHARED]
      @ fst (MtmXidInMVCCSnapshot_loop tbl pg x snap n (Suc i) (next_delay d)),
    snd (MtmXidInMVCCSnapshot_loop tbl pg x snap n (Suc i) (next_delay d)))"
proof -
  obtain ts where "tbl i x = Some ts" "\<not> ts_csn ts > snap"
    "ts_status ts = TRANSACTION_STATUS_UNKNOWN"
    using assms by (auto simp: in_doubt_def split: option.splits)
  then show ?thesis by (simp add: case_prod_beta)
qed


lemma loop_result_delay:
  "snd (MtmXidInMVCCSnapshot_loop tbl pg x snap n i d) =
   snd (MtmXidInMVCCSnapshot_loop tbl pg x snap n i d')"
proof (induction n arbitrary: i d d')
  case 0
  show ?case by simp
next
  case (Suc n)
  show ?case
  proof (cases "in_doubt (tbl i) x snap")
    case True
    show ?thesis
      unfolding loop_in_doubt_step [of tbl i x snap, OF True]
      using Suc.IH [of "Suc i" "next_delay d" "next_delay d'"] by simp
  next
    case False
    show ?thesis
    proof (cases "tbl i x")
      case None
      then show ?thesis by simp
    next
      case (Some ts)
      then show ?thesis using False by (auto simp: in_doubt_def)
    qed
  qed
qed

lemma loop_skip:
  "(\<And>j. j < k \<Longrightarrow> in_doubt (tbl (i + j)) x snap) \<Longrightarrow>
   snd (MtmXidInMVCCSnapshot_loop tbl pg x snap (k + n) i d) =
   snd (MtmXidInMVCCSnapshot_loop tbl pg x snap n (i + k) d)"
proof (induction k arbitrary: i d)
  case 0
  show ?case by simp
next
  case (Suc k)
  have here: "in_doubt (tbl i) x snap" using Suc.prems [of 0] by simp
  have rest: "\<And>j. j < k \<Longrightarrow> in_doubt (tbl (Suc i + j)) x snap"
    using Suc.prems [of "Suc j" for j] by simp
  have "snd (MtmXidInMVCCSnapshot_loop tbl pg x snap (Suc k + n) i d) =
        snd (MtmXidInMVCCSnapshot_loop tbl pg x snap (k + n) (Suc i) (next_delay d))"
    using loop_in_doubt_step [of tbl i x snap pg "k + n" d, OF here] by simp
  also have "\<dots> = snd (MtmXidInMVCCSnapshot_loop tbl pg x snap (k + n) (Suc i) d)"
    by (rule loop_result_delay)
  also have "\<dots> = snd (MtmXidInMVCCSnapshot_loop tbl pg x snap n (Suc i + k) d)"
    using Suc.IH [of "Suc i" d] rest by simp
  finally show ?case by simp
qed

lemma loop_decides:
  assumes "tbl i x = Some ts"
  shows "(ts_csn ts > snap \<or> ts_status ts = TRANSACTION_STATUS_ABORTED \<longrightarrow>
           snd (MtmXidInMVCCSnapshot_loop tbl pg x snap (Suc n) i d) = Inr True) \<and>
         (ts_status ts = TRANSACTION_STATUS_COMMITTED \<and> ts_csn ts \<le> snap \<longrightarrow>
           snd (MtmXidInMVCCSnapshot_loop tbl pg x snap (Suc n) i d) = Inr False)"
  using assms by (auto simp: case_prod_beta)

text \<open>
  Claim C1. The check runs with the distributed transaction manager in use. Whatever
  number \<open>k\<close> of rounds (below the limit of 100) the backend has waited on the XID while
  it was in doubt, when round \<open>k\<close> finds a state the answer follows from that state:
  invisible (\<^verbatim>\<open>true\<close>) when its CSN is above the snapshot of the current transaction or
  it is aborted, visible (\<^verbatim>\<open>false\<close>) when it is committed with a CSN not above the
  snapshot. With \<open>k = 0\<close> this is the first lookup.
\<close>

theorem MtmXidInMVCCSnapshot_found:
  assumes "MtmUseDtm cfg" and "k < MAX_WAIT_LOOPS"
    and "\<forall>j<k. in_doubt (tbl j) x (x_snapshot MtmTx)"
    and "tbl k x = Some ts"
  shows "(ts_csn ts > x_snapshot MtmTx \<or> ts_status ts = TRANSACTION_STATUS_ABORTED \<longrightarrow>
           snd (MtmXidInMVCCSnapshot cfg tbl pg MtmTx x) = Inr True) \<and>
         (ts_status ts = TRANSACTION_STATUS_COMMITTED \<and> ts_csn ts \<le> x_snapshot MtmTx \<longrightarrow>
           snd (MtmXidInMVCCSnapshot cfg tbl pg MtmTx x) = Inr False)"
proof -
  obtain n where "MAX_WAIT_LOOPS = Suc (k + n)"
    using less_imp_Suc_add [OF assms(2)] by auto
  then have n: "MAX_WAIT_LOOPS = k + Suc n" by simp
  have skip: "snd (MtmXidInMVCCSnapshot_loop tbl pg x (x_snapshot MtmTx) (k + Suc n) 0 MIN_WAIT_TIMEOUT)
      = snd (MtmXidInMVCCSnapshot_loop tbl pg x (x_snapshot MtmTx) (Suc n) (0 + k) MIN_WAIT_TIMEOUT)"
    using assms(3)
      loop_skip [where k = k and tbl = tbl and i = 0 and x = x and snap = "x_snapshot MtmTx"
        and pg = pg and n = "Suc n" and d = MIN_WAIT_TIMEOUT]
    by (simp del: MtmXidInMVCCSnapshot_loop.simps)
  have "snd (MtmXidInMVCCSnapshot cfg tbl pg MtmTx x) =
        snd (MtmXidInMVCCSnapshot_loop tbl pg x (x_snapshot MtmTx) MAX_WAIT_LOOPS 0 MIN_WAIT_TIMEOUT)"
    using assms(1) by (simp add: MtmXidInMVCCSnapshot_def case_prod_beta)
  then have "snd (MtmXidInMVCCSnapshot cfg tbl pg MtmTx x) =
        snd (MtmXidInMVCCSnapshot_loop tbl pg x (x_snapshot MtmTx) (Suc n) k MIN_WAIT_TIMEOUT)"
    unfolding n skip by (simp del: MtmXidInMVCCSnapshot_loop.simps)
  then show ?thesis
    using loop_decides [of tbl k x ts "x_snapshot MtmTx" pg n MIN_WAIT_TIMEOUT, OF assms(4)]
    by (simp del: MtmXidInMVCCSnapshot_loop.simps)
qed

text \<open>
  The theorem at two inputs. A backend with snapshot 20 looks at XID 7, prepared with
  CSN 10: it is in doubt at rounds 0 and 1 and committed at round 2, so the tuple is
  visible. And a state with CSN 30 found at once makes the tuple invisible.
\<close>

theorem MtmXidInMVCCSnapshot_found_witness:
  "MtmUseDtm example_config \<and> 2 < MAX_WAIT_LOOPS \<and>
   in_doubt (example_tbl 2 example_ts (example_ts\<lparr>ts_status := TRANSACTION_STATUS_COMMITTED\<rparr>) 0)
     7 (x_snapshot example_MtmTx) \<and>
   in_doubt (example_tbl 2 example_ts (example_ts\<lparr>ts_status := TRANSACTION_STATUS_COMMITTED\<rparr>) 1)
     7 (x_snapshot example_MtmTx) \<and>
   example_tbl 2 example_ts (example_ts\<lparr>ts_status := TRANSACTION_STATUS_COMMITTED\<rparr>) 2 7
     = Some (example_ts\<lparr>ts_status := TRANSACTION_STATUS_COMMITTED\<rparr>) \<and>
   ts_csn (example_ts\<lparr>ts_status := TRANSACTION_STATUS_COMMITTED\<rparr>) \<le> x_snapshot example_MtmTx \<and>
   snd (MtmXidInMVCCSnapshot example_config
     (example_tbl 2 example_ts (example_ts\<lparr>ts_status := TRANSACTION_STATUS_COMMITTED\<rparr>))
     True example_MtmTx 7) = Inr False \<and>
   example_tbl 0 example_ts (example_ts\<lparr>ts_csn := 30\<rparr>) 0 7 = Some (example_ts\<lparr>ts_csn := 30\<rparr>) \<and>
   ts_csn (example_ts\<lparr>ts_csn := 30\<rparr>) > x_snapshot example_MtmTx \<and>
   snd (MtmXidInMVCCSnapshot example_config (example_tbl 0 example_ts (example_ts\<lparr>ts_csn := 30\<rparr>))
     False example_MtmTx 7) = Inr True"
proof -
  let ?c = "example_ts\<lparr>ts_status := TRANSACTION_STATUS_COMMITTED\<rparr>"
  let ?l = "example_ts\<lparr>ts_csn := 30\<rparr>"
  have h1: "MtmUseDtm example_config" by (simp add: example_config_def)
  have h2: "2 < MAX_WAIT_LOOPS" "0 < MAX_WAIT_LOOPS" by (simp_all add: MAX_WAIT_LOOPS_def)
  have d0: "in_doubt (example_tbl 2 example_ts ?c 0) 7 (x_snapshot example_MtmTx)"
    and d1: "in_doubt (example_tbl 2 example_ts ?c 1) 7 (x_snapshot example_MtmTx)"
    by (simp_all add: in_doubt_def example_tbl_def example_ts_def example_MtmTx_def)
  have h3: "\<forall>j<2. in_doubt (example_tbl 2 example_ts ?c j) 7 (x_snapshot example_MtmTx)"
    by (simp add: in_doubt_def example_tbl_def example_ts_def example_MtmTx_def)
  have h4: "example_tbl 2 example_ts ?c 2 7 = Some ?c" by (simp add: example_tbl_def)
  have h5: "ts_status ?c = TRANSACTION_STATUS_COMMITTED \<and> ts_csn ?c \<le> x_snapshot example_MtmTx"
    by (simp add: example_ts_def example_MtmTx_def)
  have r1: "snd (MtmXidInMVCCSnapshot example_config (example_tbl 2 example_ts ?c) True example_MtmTx 7)
      = Inr False"
    using MtmXidInMVCCSnapshot_found [OF h1 h2(1) h3 h4, of True] h5 by blast
  have g3: "\<forall>j<0. in_doubt (example_tbl 0 example_ts ?l j) 7 (x_snapshot example_MtmTx)" by simp
  have g4: "example_tbl 0 example_ts ?l 0 7 = Some ?l" by (simp add: example_tbl_def)
  have g5: "ts_csn ?l > x_snapshot example_MtmTx" by (simp add: example_ts_def example_MtmTx_def)
  have r2: "snd (MtmXidInMVCCSnapshot example_config (example_tbl 0 example_ts ?l) False example_MtmTx 7)
      = Inr True"
    using MtmXidInMVCCSnapshot_found [OF h1 h2(2) g3 g4, of False] g5 by blast
  show ?thesis using h1 h2 d0 d1 h4 h5 r1 g4 g5 r2 by blast
qed









section \<open>Masks, frames and heartbeats: lemmas\<close>

lemma BIT_CHECK_bit: "BIT_CHECK m b = bit m (nat b)"
  by (simp add: BIT_CHECK_def bit_iff_and_push_bit_not_eq_0)

lemma read_frame:
  "MtmBuildConnectivityMatrix_read cfg e nowait is s = (r, s1) \<Longrightarrow>
   s1 = s\<lparr>Mtm_ext_calls := Mtm_ext_calls s1\<rparr>"
proof (induction "is" arbitrary: s r s1)
  case Nil
  then show ?case by simp
next
  case (Cons i rest)
  show ?case
  proof (cases "int i + 1 \<noteq> MtmNodeId cfg")
    case True
    show ?thesis
    proof (cases "RaftableGet e (Mtm_ext_calls s) (int i + 1) nowait")
      case None
      then show ?thesis using Cons.prems True by auto
    next
      case (Some m)
      let ?s = "s\<lparr>Mtm_ext_calls := Suc (Mtm_ext_calls s)\<rparr>"
      obtain r' s' where rr: "MtmBuildConnectivityMatrix_read cfg e nowait rest ?s = (r', s')"
        by (cases "MtmBuildConnectivityMatrix_read cfg e nowait rest ?s")
      have "s' = ?s\<lparr>Mtm_ext_calls := Mtm_ext_calls s'\<rparr>" using Cons.IH [OF rr] .
      moreover have "s1 = s'" using Cons.prems True Some rr by (auto split: option.splits)
      ultimately show ?thesis by simp
    qed
  next
    case False
    obtain r' s' where rr: "MtmBuildConnectivityMatrix_read cfg e nowait rest s = (r', s')"
      by (cases "MtmBuildConnectivityMatrix_read cfg e nowait rest s")
    have "s' = s\<lparr>Mtm_ext_calls := Mtm_ext_calls s'\<rparr>" using Cons.IH [OF rr] .
    moreover have "s1 = s'" using Cons.prems False rr by (auto split: option.splits)
    ultimately show ?thesis by simp
  qed
qed

lemma build_frame:
  "MtmBuildConnectivityMatrix cfg e nowait s = (r, s1) \<Longrightarrow>
   s1 = s\<lparr>Mtm_ext_calls := Mtm_ext_calls s1\<rparr>"
proof -
  assume a: "MtmBuildConnectivityMatrix cfg e nowait s = (r, s1)"
  obtain r' s' where rr:
    "MtmBuildConnectivityMatrix_read cfg e nowait [0..<nat (Mtm_nAllNodes s)] s = (r', s')"
    by (cases "MtmBuildConnectivityMatrix_read cfg e nowait [0..<nat (Mtm_nAllNodes s)] s")
  have "s1 = s'" using a rr by (auto simp: MtmBuildConnectivityMatrix_def split: option.splits)
  then show ?thesis using read_frame [OF rr] by simp
qed

lemma MtmDisableNode_mask:
  "Mtm_disabledNodeMask (MtmDisableNode cfg e n s) = BIT_SET (Mtm_disabledNodeMask s) (n - 1)"
  by (simp add: MtmDisableNode_def update_node_def MtmGetSystemTime_def Let_def)

lemma word_split: "(w::64 word) = take_bit n w OR push_bit n (drop_bit n w)"
proof (rule bit_word_eqI)
  fix k
  assume "k < LENGTH(64)"
  then show "bit w k = bit (take_bit n w OR push_bit n (drop_bit n w)) k"
    by (cases "k < n") (auto simp: bit_simps)
qed

lemma word_split_low: "(w::64 word) = (w AND 1) OR push_bit 1 (drop_bit 1 w)"
  using word_split [of w 1] by (simp add: take_bit_eq_mask)

lemma push_bit_split_low:
  "push_bit n (bits::64 word) = push_bit n (bits AND 1) OR push_bit (Suc n) (drop_bit 1 bits)"
proof -
  have "push_bit n bits = push_bit n ((bits AND 1) OR push_bit 1 (drop_bit 1 bits))"
    using word_split_low [of bits] by simp
  also have "\<dots> = push_bit n (bits AND 1) OR push_bit n (push_bit 1 (drop_bit 1 bits))"
    by (rule push_bit_or)
  also have "push_bit n (push_bit 1 (drop_bit 1 bits)) = push_bit (Suc n) (drop_bit 1 bits)"
    by (simp add: push_bit_push_bit ac_simps)
  finally show ?thesis .
qed

lemma disable_loop_mask:
  "0 \<le> i \<Longrightarrow>
   Mtm_disabledNodeMask (MtmRefreshClusterStatus_disable cfg e i bits s) =
     Mtm_disabledNodeMask s OR push_bit (nat i) bits"
proof (induction cfg e i bits s rule: MtmRefreshClusterStatus_disable.induct)
  case (1 cfg e i bits s)
  show ?case
  proof (cases "bits = 0")
    case True
    then show ?thesis by simp
  next
    case False
    let ?s = "if bits AND 1 \<noteq> 0 then MtmDisableNode cfg e (i + 1) s else s"
    have ih: "Mtm_disabledNodeMask (MtmRefreshClusterStatus_disable cfg e (i + 1) (drop_bit 1 bits) ?s)
      = Mtm_disabledNodeMask ?s OR push_bit (nat (i + 1)) (drop_bit 1 bits)"
      using "1.IH" [OF False] "1.prems" by simp
    have n: "nat (i + 1) = Suc (nat i)" using "1.prems" by simp
    have low: "bits AND 1 = (if bits AND 1 \<noteq> 0 then 1 else 0)"
      by (simp add: and_one_eq)
    have mid: "Mtm_disabledNodeMask ?s = Mtm_disabledNodeMask s OR push_bit (nat i) (bits AND 1)"
    proof (cases "bits AND 1 \<noteq> 0")
      case True
      then have "bits AND 1 = 1" using low by presburger
      then show ?thesis using True by (simp add: MtmDisableNode_mask BIT_SET_def)
    next
      case False
      then show ?thesis by simp
    qed
    have unf: "MtmRefreshClusterStatus_disable cfg e i bits s
        = MtmRefreshClusterStatus_disable cfg e (i + 1) (drop_bit 1 bits) ?s"
      using False MtmRefreshClusterStatus_disable.simps [of cfg e i bits s] by simp
    show ?thesis
      unfolding unf ih mid n push_bit_split_low [of "nat i" bits]
      by (simp add: or.assoc)
  qed
qed

lemma trans_frame_refl: "trans_frame s s"
proof -
  have "s = s\<lparr>MtmXid2State := MtmXid2State s,
                 Mtm_nActiveTransactions := Mtm_nActiveTransactions s\<rparr>" by simp
  then show ?thesis unfolding trans_frame_def by blast
qed

lemma trans_frame_trans:
  assumes "trans_frame s s1" and "trans_frame s1 s2"
  shows "trans_frame s s2"
proof -
  obtain h n where a: "s1 = s\<lparr>MtmXid2State := h, Mtm_nActiveTransactions := n\<rparr>"
    using assms(1) unfolding trans_frame_def by blast
  obtain h' n' where b: "s2 = s1\<lparr>MtmXid2State := h', Mtm_nActiveTransactions := n'\<rparr>"
    using assms(2) unfolding trans_frame_def by blast
  have "s2 = s\<lparr>MtmXid2State := h', Mtm_nActiveTransactions := n'\<rparr>"
    unfolding b a by simp
  then show ?thesis unfolding trans_frame_def by blast
qed

lemma trans_frame_fields:
  assumes "trans_frame s s'"
  shows "Mtm_disabledNodeMask s' = Mtm_disabledNodeMask s"
    and "Mtm_status s' = Mtm_status s"
    and "Mtm_nodes s' = Mtm_nodes s"
    and "Mtm_nAllNodes s' = Mtm_nAllNodes s"
    and "Mtm_transList s' = Mtm_transList s"
proof -
  obtain h n where a: "s' = s\<lparr>MtmXid2State := h, Mtm_nActiveTransactions := n\<rparr>"
    using assms unfolding trans_frame_def by blast
  show "Mtm_disabledNodeMask s' = Mtm_disabledNodeMask s"
    and "Mtm_status s' = Mtm_status s"
    and "Mtm_nodes s' = Mtm_nodes s"
    and "Mtm_nAllNodes s' = Mtm_nAllNodes s"
    and "Mtm_transList s' = Mtm_transList s"
    unfolding a by simp_all
qed

lemma MtmAdjustSubtransactions_frame: "trans_frame s (MtmAdjustSubtransactions x s)"
proof (cases "MtmXid2State s x")
  case None
  then show ?thesis by (simp add: MtmAdjustSubtransactions_def trans_frame_refl)
next
  case (Some ts)
  have "MtmAdjustSubtransactions x s =
      s\<lparr>MtmXid2State := MtmXid2State (MtmAdjustSubtransactions x s),
        Mtm_nActiveTransactions := Mtm_nActiveTransactions s\<rparr>"
    using Some by (simp add: MtmAdjustSubtransactions_def)
  then show ?thesis unfolding trans_frame_def by blast
qed

lemma MtmAbortTransaction_frame: "trans_frame s (MtmAbortTransaction x s)"
proof (cases "MtmXid2State s x")
  case None
  then show ?thesis by (simp add: MtmAbortTransaction_def trans_frame_refl)
next
  case (Some ts)
  show ?thesis
  proof (cases "ts_status ts \<noteq> TRANSACTION_STATUS_ABORTED")
    case True
    let ?s1 = "s\<lparr>MtmXid2State :=
                 (MtmXid2State s)(x \<mapsto> ts\<lparr>ts_status := TRANSACTION_STATUS_ABORTED\<rparr>)\<rparr>"
    let ?s2 = "MtmAdjustSubtransactions x ?s1"
    have f1: "trans_frame s ?s1"
    proof -
      have "?s1 = s\<lparr>MtmXid2State := MtmXid2State ?s1,
                     Mtm_nActiveTransactions := Mtm_nActiveTransactions s\<rparr>" by simp
      then show ?thesis unfolding trans_frame_def by blast
    qed
    have f2: "trans_frame ?s1 ?s2" by (rule MtmAdjustSubtransactions_frame)
    have f3: "trans_frame ?s2 (?s2\<lparr>Mtm_nActiveTransactions := Mtm_nActiveTransactions ?s2 - 1\<rparr>)"
    proof -
      have "?s2\<lparr>Mtm_nActiveTransactions := Mtm_nActiveTransactions ?s2 - 1\<rparr>
          = ?s2\<lparr>MtmXid2State := MtmXid2State ?s2,
                 Mtm_nActiveTransactions := Mtm_nActiveTransactions ?s2 - 1\<rparr>" by simp
      then show ?thesis unfolding trans_frame_def by blast
    qed
    have "MtmAbortTransaction x s = ?s2\<lparr>Mtm_nActiveTransactions := Mtm_nActiveTransactions ?s2 - 1\<rparr>"
      using Some True by (simp add: MtmAbortTransaction_def Let_def)
    then show ?thesis using trans_frame_trans [OF trans_frame_trans [OF f1 f2] f3] by simp
  next
    case False
    then show ?thesis using Some by (simp add: MtmAbortTransaction_def trans_frame_refl)
  qed
qed

lemma MtmWakeUpBackend_frame: "trans_frame s (MtmWakeUpBackend x s)"
proof (cases "MtmXid2State s x")
  case None
  then show ?thesis by (simp add: MtmWakeUpBackend_def trans_frame_refl)
next
  case (Some ts)
  have "MtmWakeUpBackend x s =
      s\<lparr>MtmXid2State := MtmXid2State (MtmWakeUpBackend x s),
        Mtm_nActiveTransactions := Mtm_nActiveTransactions s\<rparr>"
    using Some by (simp add: MtmWakeUpBackend_def)
  then show ?thesis unfolding trans_frame_def by blast
qed

lemma fold_frame:
  assumes "\<And>x s. trans_frame s (g x s)"
  shows "trans_frame s (fold g xs s)"
proof (induction xs arbitrary: s)
  case Nil
  show ?case by (simp add: trans_frame_refl)
next
  case (Cons x xs)
  show ?case using trans_frame_trans [OF assms [of s x] Cons.IH [of "g x s"]] by simp
qed

lemma MtmRefreshClusterStatus_abort_frame:
  "trans_frame s (MtmRefreshClusterStatus_abort cfg d s)"
  unfolding MtmRefreshClusterStatus_abort_def
proof (rule fold_frame)
  fix x s1
  show "trans_frame s1 (case MtmXid2State s1 x of None \<Rightarrow> s1
     | Some ts \<Rightarrow> if MtmIsCoordinator cfg ts \<and> \<not> ts_votingCompleted ts \<and> d \<and>
                      ts_status ts \<noteq> TRANSACTION_STATUS_ABORTED
                   then MtmWakeUpBackend x (MtmAbortTransaction x s1) else s1)"
    using trans_frame_trans [OF MtmAbortTransaction_frame MtmWakeUpBackend_frame, of s1 x x]
    by (simp add: trans_frame_refl split: option.splits)
qed

lemma MtmOnNodeDisconnect_abort_frame:
  "trans_frame s (MtmOnNodeDisconnect_abort cfg s)"
  unfolding MtmOnNodeDisconnect_abort_def
proof (rule fold_frame)
  fix x s1
  show "trans_frame s1 (case MtmXid2State s1 x of None \<Rightarrow> s1
     | Some ts \<Rightarrow> if MtmIsCoordinator cfg ts \<and> \<not> ts_votingCompleted ts \<and>
                      ts_status ts \<noteq> TRANSACTION_STATUS_ABORTED
                   then MtmWakeUpBackend x (MtmAbortTransaction x s1) else s1)"
    using trans_frame_trans [OF MtmAbortTransaction_frame MtmWakeUpBackend_frame, of s1 x x]
    by (simp add: trans_frame_refl split: option.splits)
qed

lemma MtmCheckQuorum_mask: "Mtm_disabledNodeMask (MtmCheckQuorum s) = Mtm_disabledNodeMask s"
  by (simp add: MtmCheckQuorum_def MtmSwitchClusterMode_def Let_def)

lemma refresh_no_store:
  assumes "MtmBuildConnectivityMatrix cfg e nowait s = (None, s1)"
  shows "MtmRefreshClusterStatus cfg e nowait s = (False, s1)"
    and "Mtm_disabledNodeMask s1 = Mtm_disabledNodeMask s"
    and "Mtm_status s1 = Mtm_status s"
proof -
  show "MtmRefreshClusterStatus cfg e nowait s = (False, s1)"
    using assms by (simp add: MtmRefreshClusterStatus_def)
  have f: "s1 = s\<lparr>Mtm_ext_calls := Mtm_ext_calls s1\<rparr>" using assms by (rule build_frame)
  show "Mtm_disabledNodeMask s1 = Mtm_disabledNodeMask s" by (subst f) simp
  show "Mtm_status s1 = Mtm_status s" by (subst f) simp
qed

lemma refresh_minority:
  assumes "MtmBuildConnectivityMatrix cfg e nowait s = (Some matrix, s1)"
    and "MtmFindMaxClique e matrix (Mtm_nAllNodes s) = (clique, clique_size)"
    and "\<not> clique_size \<ge> Mtm_nAllNodes s div 2 + 1"
  shows "MtmRefreshClusterStatus cfg e nowait s = (True, MtmSwitchClusterMode MTM_IN_MINORITY s1)"
    and "Mtm_disabledNodeMask (MtmSwitchClusterMode MTM_IN_MINORITY s1) = Mtm_disabledNodeMask s"
    and "Mtm_status (MtmSwitchClusterMode MTM_IN_MINORITY s1) = MTM_IN_MINORITY"
proof -
  have f: "s1 = s\<lparr>Mtm_ext_calls := Mtm_ext_calls s1\<rparr>" using assms(1) by (rule build_frame)
  have n: "Mtm_nAllNodes s1 = Mtm_nAllNodes s" by (subst f) simp
  show "MtmRefreshClusterStatus cfg e nowait s = (True, MtmSwitchClusterMode MTM_IN_MINORITY s1)"
    using assms n by (simp add: MtmRefreshClusterStatus_def)
  have "Mtm_disabledNodeMask s1 = Mtm_disabledNodeMask s" by (subst f) simp
  then show "Mtm_disabledNodeMask (MtmSwitchClusterMode MTM_IN_MINORITY s1) = Mtm_disabledNodeMask s"
    by (simp add: MtmSwitchClusterMode_def)
  show "Mtm_status (MtmSwitchClusterMode MTM_IN_MINORITY s1) = MTM_IN_MINORITY"
    by (simp add: MtmSwitchClusterMode_def)
qed

lemma refresh_quorum:
  assumes "MtmBuildConnectivityMatrix cfg e nowait s = (Some matrix, s1)"
    and "MtmFindMaxClique e matrix (Mtm_nAllNodes s) = (clique, clique_size)"
    and "clique_size \<ge> Mtm_nAllNodes s div 2 + 1"
  shows "fst (MtmRefreshClusterStatus cfg e nowait s) = True"
    and "\<exists>own. (own = 0 \<or> own = push_bit (nat (MtmNodeId cfg - 1)) 1) \<and>
          Mtm_disabledNodeMask (snd (MtmRefreshClusterStatus cfg e nowait s)) =
            Mtm_disabledNodeMask s
              OR (NOT clique AND mask (nat (Mtm_nAllNodes s mod 64))
                   AND NOT (Mtm_disabledNodeMask s))
              OR own"
proof -
  have f: "s1 = s\<lparr>Mtm_ext_calls := Mtm_ext_calls s1\<rparr>" using assms(1) by (rule build_frame)
  have n: "Mtm_nAllNodes s1 = Mtm_nAllNodes s" by (subst f) simp
  have m1: "Mtm_disabledNodeMask s1 = Mtm_disabledNodeMask s" by (subst f) simp
  define D where "D = NOT clique AND (push_bit (nat (Mtm_nAllNodes s mod 64)) 1 - 1)
                   AND NOT (Mtm_disabledNodeMask s)"
  define s2 where "s2 = MtmRefreshClusterStatus_disable cfg e 0 D s1"
  define s3 where "s3 = (if D \<noteq> 0 then MtmCheckQuorum s2 else s2)"
  define s4 where "s4 = MtmRefreshClusterStatus_abort cfg (D \<noteq> 0) s3"
  define s5 where "s5 = (if BIT_CHECK (Mtm_disabledNodeMask s4) (MtmNodeId cfg - 1) then
                      (if Mtm_status s4 = MTM_ONLINE then MtmSwitchClusterMode MTM_OFFLINE s4
                       else s4)
                    else if Mtm_status s4 = MTM_OFFLINE then MtmStartRecovery cfg s4
                    else s4)"
  have run: "MtmRefreshClusterStatus cfg e nowait s = (True, s5)"
    using assms n m1
    by (simp add: MtmRefreshClusterStatus_def Let_def D_def s2_def s3_def s4_def s5_def)
  show "fst (MtmRefreshClusterStatus cfg e nowait s) = True" using run by simp
  have m2: "Mtm_disabledNodeMask s2 = Mtm_disabledNodeMask s OR D"
    unfolding s2_def using disable_loop_mask [of 0 cfg e D s1] m1 by simp
  have m3: "Mtm_disabledNodeMask s3 = Mtm_disabledNodeMask s2"
    unfolding s3_def by (simp add: MtmCheckQuorum_mask)
  have m4: "Mtm_disabledNodeMask s4 = Mtm_disabledNodeMask s3"
    unfolding s4_def using trans_frame_fields(1) [OF MtmRefreshClusterStatus_abort_frame] .
  have m5: "\<exists>own. (own = 0 \<or> own = push_bit (nat (MtmNodeId cfg - 1)) 1) \<and>
      Mtm_disabledNodeMask s5 = Mtm_disabledNodeMask s4 OR own"
  proof (cases "\<not> BIT_CHECK (Mtm_disabledNodeMask s4) (MtmNodeId cfg - 1) \<and> Mtm_status s4 = MTM_OFFLINE")
    case True
    then have "Mtm_disabledNodeMask s5 =
        Mtm_disabledNodeMask s4 OR push_bit (nat (MtmNodeId cfg - 1)) 1"
      unfolding s5_def by (simp add: MtmStartRecovery_def MtmSwitchClusterMode_def BIT_SET_def)
    then show ?thesis by blast
  next
    case False
    then have "Mtm_disabledNodeMask s5 = Mtm_disabledNodeMask s4 OR 0"
      unfolding s5_def by (auto simp: MtmSwitchClusterMode_def)
    then show ?thesis by blast
  qed
  then obtain own where own: "own = 0 \<or> own = push_bit (nat (MtmNodeId cfg - 1)) 1"
    and m5': "Mtm_disabledNodeMask s5 = Mtm_disabledNodeMask s4 OR own" by blast
  have Dm: "D = NOT clique AND mask (nat (Mtm_nAllNodes s mod 64))
      AND NOT (Mtm_disabledNodeMask s)"
    unfolding D_def by (simp add: mask_eq_exp_minus_1)
  have "Mtm_disabledNodeMask (snd (MtmRefreshClusterStatus cfg e nowait s)) =
      Mtm_disabledNodeMask s OR D OR own"
    using run m5' m4 m3 m2 by (simp add: or.assoc)
  then show "\<exists>own. (own = 0 \<or> own = push_bit (nat (MtmNodeId cfg - 1)) 1) \<and>
          Mtm_disabledNodeMask (snd (MtmRefreshClusterStatus cfg e nowait s)) =
            Mtm_disabledNodeMask s
              OR (NOT clique AND mask (nat (Mtm_nAllNodes s mod 64))
                   AND NOT (Mtm_disabledNodeMask s))
              OR own"
    using own unfolding Dm by blast
qed

lemma bit_new_disabled:
  "bit (NOT c AND mask n AND NOT (old::64 word)) k \<longleftrightarrow>
     k < 64 \<and> \<not> bit c k \<and> k < n \<and> \<not> bit old k"
  by (auto simp: bit_simps)


lemma MtmRefreshClusterStatus_built:
  assumes "0 \<le> Mtm_nAllNodes s" and "Mtm_nAllNodes s \<le> 64" and "0 < MtmNodeId cfg"
    and "MtmBuildConnectivityMatrix cfg e nowait s = (Some matrix, s1)"
    and "MtmFindMaxClique e matrix (Mtm_nAllNodes s) = (clique, clique_size)"
  shows
    "(clique_size \<ge> Mtm_nAllNodes s div 2 + 1 \<longrightarrow>
        (Mtm_nAllNodes s < 64 \<longrightarrow>
           (\<forall>i. 0 \<le> i \<and> i < Mtm_nAllNodes s \<and> \<not> BIT_CHECK clique i \<longrightarrow>
              BIT_CHECK (Mtm_disabledNodeMask (snd (MtmRefreshClusterStatus cfg e nowait s))) i)) \<and>
        (Mtm_nAllNodes s = 64 \<longrightarrow>
           (\<forall>i. 0 \<le> i \<and> \<not> BIT_CHECK (Mtm_disabledNodeMask s) i \<and> i \<noteq> MtmNodeId cfg - 1 \<longrightarrow>
              \<not> BIT_CHECK (Mtm_disabledNodeMask (snd (MtmRefreshClusterStatus cfg e nowait s))) i)) \<and>
        (\<forall>i. 0 \<le> i \<and> BIT_CHECK clique i \<and> \<not> BIT_CHECK (Mtm_disabledNodeMask s) i \<and>
             i \<noteq> MtmNodeId cfg - 1 \<longrightarrow>
           \<not> BIT_CHECK (Mtm_disabledNodeMask (snd (MtmRefreshClusterStatus cfg e nowait s))) i)) \<and>
     (\<not> clique_size \<ge> Mtm_nAllNodes s div 2 + 1 \<longrightarrow>
        Mtm_disabledNodeMask (snd (MtmRefreshClusterStatus cfg e nowait s)) = Mtm_disabledNodeMask s \<and>
        Mtm_status (snd (MtmRefreshClusterStatus cfg e nowait s)) = MTM_IN_MINORITY) \<and>
     (\<forall>i. BIT_CHECK (Mtm_disabledNodeMask s) i \<longrightarrow>
        BIT_CHECK (Mtm_disabledNodeMask (snd (MtmRefreshClusterStatus cfg e nowait s))) i)"
proof (cases "clique_size \<ge> Mtm_nAllNodes s div 2 + 1")
  case True
  obtain own where own: "own = 0 \<or> own = push_bit (nat (MtmNodeId cfg - 1)) 1"
    and m: "Mtm_disabledNodeMask (snd (MtmRefreshClusterStatus cfg e nowait s)) =
            Mtm_disabledNodeMask s
              OR (NOT clique AND mask (nat (Mtm_nAllNodes s mod 64))
                   AND NOT (Mtm_disabledNodeMask s))
              OR own"
    using refresh_quorum(2) [OF assms(4,5) True] by blast
  have ownbit: "bit own k \<Longrightarrow> k = nat (MtmNodeId cfg - 1)" for k
    using own by (auto simp: bit_simps)
  have out: "BIT_CHECK (Mtm_disabledNodeMask (snd (MtmRefreshClusterStatus cfg e nowait s))) i"
    if "Mtm_nAllNodes s < 64" "0 \<le> i" "i < Mtm_nAllNodes s" "\<not> BIT_CHECK clique i" for i
  proof -
    have nm: "Mtm_nAllNodes s mod 64 = Mtm_nAllNodes s" using assms(1) that(1) by simp
    have "nat i < 64" "nat i < nat (Mtm_nAllNodes s)" using that by simp_all
    then show ?thesis using that(4)
      unfolding m nm BIT_CHECK_bit by (simp add: bit_or_iff bit_new_disabled)
  qed
  have all: "\<not> BIT_CHECK (Mtm_disabledNodeMask (snd (MtmRefreshClusterStatus cfg e nowait s))) i"
    if "Mtm_nAllNodes s = 64" "0 \<le> i" "\<not> BIT_CHECK (Mtm_disabledNodeMask s) i"
      "i \<noteq> MtmNodeId cfg - 1" for i
  proof -
    have "nat i \<noteq> nat (MtmNodeId cfg - 1)" using that(2,4) assms(3) by simp
    then have "\<not> bit own (nat i)" using ownbit by blast
    then show ?thesis using that(3)
      unfolding m that(1) BIT_CHECK_bit by (simp add: bit_or_iff)
  qed
  have inn: "\<not> BIT_CHECK (Mtm_disabledNodeMask (snd (MtmRefreshClusterStatus cfg e nowait s))) i"
    if "0 \<le> i" "BIT_CHECK clique i" "\<not> BIT_CHECK (Mtm_disabledNodeMask s) i"
      "i \<noteq> MtmNodeId cfg - 1" for i
  proof -
    have "nat i \<noteq> nat (MtmNodeId cfg - 1)" using that(1,4) assms(3) by simp
    then have "\<not> bit own (nat i)" using ownbit by blast
    then show ?thesis using that(2,3)
      unfolding m BIT_CHECK_bit by (simp add: bit_or_iff bit_new_disabled)
  qed
  have keep: "BIT_CHECK (Mtm_disabledNodeMask (snd (MtmRefreshClusterStatus cfg e nowait s))) i"
    if "BIT_CHECK (Mtm_disabledNodeMask s) i" for i
    using that unfolding m BIT_CHECK_bit by (simp add: bit_or_iff)
  show ?thesis using True out all inn keep by blast
next
  case False
  show ?thesis using False refresh_minority [OF assms(4,5) False] by simp
qed

lemma hb_kept_refl: "hb_kept s s"
  by (simp add: hb_kept_def)

lemma hb_kept_trans: "hb_kept s s1 \<Longrightarrow> hb_kept s1 s2 \<Longrightarrow> hb_kept s s2"
  by (simp add: hb_kept_def)

lemma hb_kept_nodes: "Mtm_nodes s' = Mtm_nodes s \<Longrightarrow> hb_kept s s'"
  by (simp add: hb_kept_def)

lemma MtmDisableNode_nodes:
  "Mtm_nodes (MtmDisableNode cfg e n s) ! k =
     (if 0 \<le> n - 1 \<and> nat (n - 1) < length (Mtm_nodes s) \<and> k = nat (n - 1)
      then (Mtm_nodes s ! k)\<lparr>lastStatusChangeTime := gettimeofday e (Mtm_ext_calls s),
                              lastHeartbeat := 0\<rparr>
      else Mtm_nodes s ! k)"
  by (simp add: MtmDisableNode_def update_node_def MtmGetSystemTime_def Let_def)

lemma MtmEnableNode_nodes:
  "Mtm_nodes (MtmEnableNode cfg e n s) ! k =
     (if 0 \<le> n - 1 \<and> nat (n - 1) < length (Mtm_nodes s) \<and> k = nat (n - 1)
      then (Mtm_nodes s ! k)\<lparr>lastStatusChangeTime := gettimeofday e (Mtm_ext_calls s),
                              lastHeartbeat := 0\<rparr>
      else Mtm_nodes s ! k)"
  by (simp add: MtmEnableNode_def update_node_def MtmGetSystemTime_def Let_def)

lemma MtmDisableNode_hb: "hb_kept s (MtmDisableNode cfg e n s)"
  by (simp add: hb_kept_def MtmDisableNode_nodes)

lemma disable_loop_hb: "hb_kept s (MtmRefreshClusterStatus_disable cfg e i bits s)"
proof (induction cfg e i bits s rule: MtmRefreshClusterStatus_disable.induct)
  case (1 cfg e i bits s)
  show ?case
  proof (cases "bits = 0")
    case True
    then show ?thesis by (simp add: hb_kept_refl)
  next
    case False
    let ?s = "if bits AND 1 \<noteq> 0 then MtmDisableNode cfg e (i + 1) s else s"
    have a: "hb_kept s ?s" by (simp add: MtmDisableNode_hb hb_kept_refl)
    have b: "hb_kept ?s (MtmRefreshClusterStatus_disable cfg e (i + 1) (drop_bit 1 bits) ?s)"
      using "1.IH" [OF False] .
    have unf: "MtmRefreshClusterStatus_disable cfg e i bits s
        = MtmRefreshClusterStatus_disable cfg e (i + 1) (drop_bit 1 bits) ?s"
      using False MtmRefreshClusterStatus_disable.simps [of cfg e i bits s] by simp
    show ?thesis unfolding unf using hb_kept_trans [OF a b] .
  qed
qed

lemma MtmCheckQuorum_nodes: "Mtm_nodes (MtmCheckQuorum s) = Mtm_nodes s"
  by (simp add: MtmCheckQuorum_def MtmSwitchClusterMode_def Let_def)

lemma MtmRefreshClusterStatus_hb: "hb_kept s (snd (MtmRefreshClusterStatus cfg e nowait s))"
proof -
  obtain r s1 where b: "MtmBuildConnectivityMatrix cfg e nowait s = (r, s1)"
    by (cases "MtmBuildConnectivityMatrix cfg e nowait s")
  have f: "s1 = s\<lparr>Mtm_ext_calls := Mtm_ext_calls s1\<rparr>" using b by (rule build_frame)
  have "Mtm_nodes s1 = Mtm_nodes s" by (subst f) simp
  then have h1: "hb_kept s s1" by (rule hb_kept_nodes)
  show ?thesis
  proof (cases r)
    case None
    then show ?thesis using b h1 by (simp add: MtmRefreshClusterStatus_def)
  next
    case (Some matrix)
    obtain clique clique_size where c:
      "MtmFindMaxClique e matrix (Mtm_nAllNodes s1) = (clique, clique_size)"
      by (cases "MtmFindMaxClique e matrix (Mtm_nAllNodes s1)")
    show ?thesis
    proof (cases "clique_size \<ge> Mtm_nAllNodes s1 div 2 + 1")
      case False
      have "hb_kept s1 (MtmSwitchClusterMode MTM_IN_MINORITY s1)"
        by (rule hb_kept_nodes) (simp add: MtmSwitchClusterMode_def)
      then show ?thesis using b Some c False hb_kept_trans [OF h1]
        by (simp add: MtmRefreshClusterStatus_def)
    next
      case True
      define D where "D = NOT clique AND (push_bit (nat (Mtm_nAllNodes s1 mod 64)) 1 - 1)
                   AND NOT (Mtm_disabledNodeMask s1)"
      define s2 where "s2 = MtmRefreshClusterStatus_disable cfg e 0 D s1"
      define s3 where "s3 = (if D \<noteq> 0 then MtmCheckQuorum s2 else s2)"
      define s4 where "s4 = MtmRefreshClusterStatus_abort cfg (D \<noteq> 0) s3"
      define s5 where "s5 = (if BIT_CHECK (Mtm_disabledNodeMask s4) (MtmNodeId cfg - 1) then
                      (if Mtm_status s4 = MTM_ONLINE then MtmSwitchClusterMode MTM_OFFLINE s4
                       else s4)
                    else if Mtm_status s4 = MTM_OFFLINE then MtmStartRecovery cfg s4
                    else s4)"
      have run: "MtmRefreshClusterStatus cfg e nowait s = (True, s5)"
        using b Some c True
        by (simp add: MtmRefreshClusterStatus_def Let_def D_def s2_def s3_def s4_def s5_def)
      have h2: "hb_kept s1 s2" unfolding s2_def by (rule disable_loop_hb)
      have h3: "hb_kept s2 s3" unfolding s3_def
        by (rule hb_kept_nodes) (simp add: MtmCheckQuorum_nodes)
      have h4: "hb_kept s3 s4" unfolding s4_def
        by (rule hb_kept_nodes) (rule trans_frame_fields(3) [OF MtmRefreshClusterStatus_abort_frame])
      have h5: "hb_kept s4 s5" unfolding s5_def
        by (rule hb_kept_nodes) (simp add: MtmSwitchClusterMode_def MtmStartRecovery_def)
      show ?thesis
        using run hb_kept_trans [OF h1 hb_kept_trans [OF h2 hb_kept_trans [OF h3 hb_kept_trans [OF h4 h5]]]]
        by simp
    qed
  qed
qed

lemma MtmOnNodeDisconnect_hb: "hb_kept s (MtmOnNodeDisconnect cfg e nodeId s)"
proof (cases "BIT_CHECK (Mtm_disabledNodeMask s) (nodeId - 1)")
  case True
  then show ?thesis by (simp add: MtmOnNodeDisconnect_def hb_kept_refl)
next
  case False
  define now where "now = gettimeofday e (Mtm_ext_calls s)"
  define s1 where "s1 = s\<lparr>Mtm_ext_calls := Suc (Mtm_ext_calls s)\<rparr>"
  have t: "MtmGetSystemTime e s = (now, s1)" by (simp add: MtmGetSystemTime_def now_def s1_def)
  have h1: "hb_kept s s1" by (rule hb_kept_nodes) (simp add: s1_def)
  show ?thesis
  proof (cases "lastStatusChangeTime (Mtm_nodes s1 ! nat (nodeId - 1))
                + MSEC_TO_USEC (MtmNodeDisableDelay cfg) > now")
    case True
    then show ?thesis using False t h1 by (simp add: MtmOnNodeDisconnect_def)
  next
    case debounce: False
    define s2 where "s2 = s1\<lparr>Mtm_connectivityMask := BIT_SET (Mtm_connectivityMask s1) (nodeId - 1)\<rparr>"
    define s3 where "s3 = s2\<lparr>Mtm_reconnectMask := BIT_SET (Mtm_reconnectMask s2) (nodeId - 1)\<rparr>"
    define s4 where "s4 = s3\<lparr>Mtm_ext_calls := Suc (Mtm_ext_calls s3)\<rparr>"
    define r where "r = (if \<not> RaftableSet e (Mtm_ext_calls s3) then
                   (if Mtm_status s4 = MTM_ONLINE then MtmSwitchClusterMode MTM_IN_MINORITY s4
                    else s4)
                 else if \<not> MtmUseRaftable cfg then
                   (if \<not> BIT_CHECK (Mtm_disabledNodeMask s4) (nodeId - 1) then
                      MtmOnNodeDisconnect_abort cfg
                        (MtmCheckQuorum (MtmDisableNode cfg e nodeId s4))
                    else s4)
                 else snd (MtmRefreshClusterStatus cfg e False s4))"
    have run: "MtmOnNodeDisconnect cfg e nodeId s = r"
      using False t debounce
      by (simp add: MtmOnNodeDisconnect_def Let_def r_def s2_def s3_def s4_def)
    have h4: "hb_kept s1 s4" by (rule hb_kept_nodes) (simp add: s4_def s3_def s2_def)
    have a: "hb_kept s4 (MtmSwitchClusterMode MTM_IN_MINORITY s4)"
      by (rule hb_kept_nodes) (simp add: MtmSwitchClusterMode_def)
    have b1: "hb_kept s4 (MtmDisableNode cfg e nodeId s4)" by (rule MtmDisableNode_hb)
    have b2: "hb_kept (MtmDisableNode cfg e nodeId s4) (MtmCheckQuorum (MtmDisableNode cfg e nodeId s4))"
      by (rule hb_kept_nodes) (rule MtmCheckQuorum_nodes)
    have b3: "hb_kept (MtmCheckQuorum (MtmDisableNode cfg e nodeId s4))
        (MtmOnNodeDisconnect_abort cfg (MtmCheckQuorum (MtmDisableNode cfg e nodeId s4)))"
      by (rule hb_kept_nodes) (rule trans_frame_fields(3) [OF MtmOnNodeDisconnect_abort_frame])
    have b: "hb_kept s4 (MtmOnNodeDisconnect_abort cfg (MtmCheckQuorum (MtmDisableNode cfg e nodeId s4)))"
      using hb_kept_trans [OF b1 hb_kept_trans [OF b2 b3]] .
    have c: "hb_kept s4 (snd (MtmRefreshClusterStatus cfg e False s4))"
      by (rule MtmRefreshClusterStatus_hb)
    have "hb_kept s4 r" unfolding r_def using a b c by (simp add: hb_kept_refl)
    then show ?thesis unfolding run using hb_kept_trans [OF h1 hb_kept_trans [OF h4]] by blast
  qed
qed

lemma MtmWatchdog_node_step:
  assumes "lastHeartbeat (Mtm_nodes s ! k) = 0" and "int k + 1 \<notin> set calls"
    and "MtmWatchdog_node cfg e now i (a, s, calls) = (a', s', calls')"
  shows "lastHeartbeat (Mtm_nodes s' ! k) = 0 \<and> int k + 1 \<notin> set calls'"
proof (cases "int i + 1 \<noteq> MtmNodeId cfg \<and> \<not> BIT_CHECK (Mtm_disabledNodeMask s) (int i) \<and>
    lastHeartbeat (Mtm_nodes s ! i) \<noteq> 0 \<and>
    now > lastHeartbeat (Mtm_nodes s ! i) + MSEC_TO_USEC (MtmHeartbeatRecvTimeout cfg)")
  case True
  then have r: "s' = MtmOnNodeDisconnect cfg e (int i + 1) s" "calls' = calls @ [int i + 1]"
    using assms(3) by (simp_all add: MtmWatchdog_node_def)
  have "i \<noteq> k" using True assms(1) by auto
  moreover have "lastHeartbeat (Mtm_nodes s' ! k) = 0"
    using MtmOnNodeDisconnect_hb [of s cfg e "int i + 1"] assms(1) r(1) by (simp add: hb_kept_def)
  ultimately show ?thesis using assms(2) r(2) by simp
next
  case False
  then have "s' = s" "calls' = calls"
    using assms(3) by (auto simp: MtmWatchdog_node_def split: if_splits)
  then show ?thesis using assms(1,2) by simp
qed

lemma MtmWatchdog_fold:
  "lastHeartbeat (Mtm_nodes s ! k) = 0 \<Longrightarrow> int k + 1 \<notin> set calls \<Longrightarrow>
   int k + 1 \<notin> set (snd (snd (fold (MtmWatchdog_node cfg e now) js (a, s, calls))))"
proof (induction js arbitrary: a s calls)
  case Nil
  then show ?case by simp
next
  case (Cons j js)
  obtain a' s' calls' where st: "MtmWatchdog_node cfg e now j (a, s, calls) = (a', s', calls')"
    by (cases "MtmWatchdog_node cfg e now j (a, s, calls)")
  have "lastHeartbeat (Mtm_nodes s' ! k) = 0 \<and> int k + 1 \<notin> set calls'"
    using MtmWatchdog_node_step [OF Cons.prems st] .
  then show ?case using Cons.IH [of s' calls' a'] st by simp
qed


lemma BIT_CHECK_CLEAR [simp]: "\<not> BIT_CHECK (BIT_CLEAR m b) b"
  by (simp add: BIT_CHECK_def BIT_CLEAR_def and.assoc)

lemma MtmEnableNode_fields:
  "Mtm_disabledNodeMask (MtmEnableNode cfg e n s) = BIT_CLEAR (Mtm_disabledNodeMask s) (n - 1)"
  "Mtm_nodeLockerMask (MtmEnableNode cfg e n s) = Mtm_nodeLockerMask s"
  "Mtm_walSenderLockerMask (MtmEnableNode cfg e n s) = Mtm_walSenderLockerMask s"
  "Mtm_nLockers (MtmEnableNode cfg e n s) = Mtm_nLockers s"
  "Mtm_nConfigChanges (MtmEnableNode cfg e n s) = Mtm_nConfigChanges s"
  "Mtm_status (MtmEnableNode cfg e n s) = Mtm_status s"
  by (simp_all add: MtmEnableNode_def update_node_def MtmGetSystemTime_def Let_def)


section \<open>Recovery: properties\<close>

text \<open>
  Claim C4. The node \<open>nodeId\<close> is recovering: it is disabled and the wal-sender's
  session is a recovery session. Then \<^verbatim>\<open>MtmRecoveryCaughtUp\<close> returns without an error;
  it answers true, and the node's bit is cleared from the disabled mask, exactly when
  the slot position equals the WAL insert position and there is no active transaction.
  In that case the node's locker bit is clear afterwards (and if it was set, the
  wal-sender's bit is cleared with it and the count of lockers drops by one) and the
  count of configuration changes has grown by one. Otherwise the disabled mask and the
  count of configuration changes are as before, and the state is either unchanged or,
  when the node holds no lock yet and the slot is within \<^verbatim>\<open>MtmMinRecoveryLag\<close> of the WAL
  position, changed in the two locker masks and the count of lockers only.
\<close>

theorem MtmRecoveryCaughtUp_enables:
  assumes "BIT_CHECK (Mtm_disabledNodeMask s) (nodeId - 1)" and "MtmIsRecoverySession b"
  shows "\<exists>caughtUp s'.
     MtmRecoveryCaughtUp cfg e walLSN nodeId slotLSN b s = Inr (caughtUp, b, s') \<and>
     (caughtUp \<longleftrightarrow> slotLSN = walLSN \<and> Mtm_nActiveTransactions s = 0) \<and>
     (\<not> BIT_CHECK (Mtm_disabledNodeMask s') (nodeId - 1) \<longleftrightarrow>
        slotLSN = walLSN \<and> Mtm_nActiveTransactions s = 0) \<and>
     (caughtUp \<longrightarrow>
        \<not> BIT_CHECK (Mtm_nodeLockerMask s') (nodeId - 1) \<and>
        (BIT_CHECK (Mtm_nodeLockerMask s) (nodeId - 1) \<longrightarrow>
           \<not> BIT_CHECK (Mtm_walSenderLockerMask s') (MyWalSnd b) \<and>
           Mtm_nLockers s' = Mtm_nLockers s - 1) \<and>
        Mtm_nConfigChanges s' = Mtm_nConfigChanges s + 1) \<and>
     (\<not> caughtUp \<longrightarrow>
        Mtm_disabledNodeMask s' = Mtm_disabledNodeMask s \<and>
        Mtm_nConfigChanges s' = Mtm_nConfigChanges s \<and>
        s' = (if \<not> BIT_CHECK (Mtm_nodeLockerMask s) (nodeId - 1) \<and>
                 slotLSN + word_of_int (MtmMinRecoveryLag cfg) > walLSN
              then s\<lparr>Mtm_nodeLockerMask := BIT_SET (Mtm_nodeLockerMask s) (nodeId - 1),
                     Mtm_walSenderLockerMask := BIT_SET (Mtm_walSenderLockerMask s) (MyWalSnd b),
                     Mtm_nLockers := Mtm_nLockers s + 1\<rparr>
              else s))"
proof -
  have rec: "MtmIsRecoveredNode nodeId b s = Inr (True, b)"
    using assms by (simp add: MtmIsRecoveredNode_def)
  show ?thesis
  proof (cases "slotLSN = walLSN \<and> Mtm_nActiveTransactions s = 0")
    case True
    then show ?thesis
      using rec assms(1)
      by (auto simp: MtmRecoveryCaughtUp_def MtmEnableNode_fields Let_def)
  next
    case False
    then show ?thesis
      using rec assms(1)
      by (auto simp: MtmRecoveryCaughtUp_def)
  qed
qed

text \<open>
  The theorem at the examples: node 3 with its lock set is caught up at position 1000
  of 1000 and enabled; without the lock, at position 900 of 1000 it is not enabled and
  the lock is set.
\<close>

theorem MtmRecoveryCaughtUp_enables_witness:
  "BIT_CHECK (Mtm_disabledNodeMask locked_state) (3 - 1) \<and>
   BIT_CHECK (Mtm_disabledNodeMask recovering_state) (3 - 1) \<and>
   MtmIsRecoverySession example_backend \<and>
   Mtm_nActiveTransactions locked_state = 0 \<and>
   (\<exists>s'. MtmRecoveryCaughtUp example_config example_env 1000 3 1000 example_backend locked_state
           = Inr (True, example_backend, s') \<and>
         \<not> BIT_CHECK (Mtm_disabledNodeMask s') (3 - 1) \<and>
         \<not> BIT_CHECK (Mtm_nodeLockerMask s') (3 - 1) \<and>
         \<not> BIT_CHECK (Mtm_walSenderLockerMask s') (MyWalSnd example_backend) \<and>
         Mtm_nLockers s' = 0 \<and> Mtm_nConfigChanges s' = 1) \<and>
   (\<exists>s'. MtmRecoveryCaughtUp example_config example_env 1000 3 900 example_backend recovering_state
           = Inr (False, example_backend, s') \<and>
         BIT_CHECK (Mtm_disabledNodeMask s') (3 - 1) \<and>
         Mtm_nodeLockerMask s' = 4 \<and> Mtm_walSenderLockerMask s' = 1 \<and> Mtm_nLockers s' = 1)"
proof -
  have h1: "BIT_CHECK (Mtm_disabledNodeMask locked_state) (3 - 1)"
    and h1': "BIT_CHECK (Mtm_disabledNodeMask recovering_state) (3 - 1)"
    by (simp_all add: locked_state_def recovering_state_def example_state_def BIT_CHECK_def)
  have h2: "MtmIsRecoverySession example_backend" by (simp add: example_backend_def)
  have v: "Mtm_nActiveTransactions locked_state = 0" "Mtm_nConfigChanges locked_state = 0"
    "Mtm_nLockers locked_state = 1" "BIT_CHECK (Mtm_nodeLockerMask locked_state) (3 - 1)"
    by (simp_all add: locked_state_def recovering_state_def example_state_def BIT_CHECK_def)
  obtain c s' where a:
    "MtmRecoveryCaughtUp example_config example_env 1000 3 1000 example_backend locked_state
       = Inr (c, example_backend, s')"
    "c \<longleftrightarrow> (1000::XLogRecPtr) = 1000 \<and> Mtm_nActiveTransactions locked_state = 0"
    "c \<longrightarrow> \<not> BIT_CHECK (Mtm_nodeLockerMask s') (3 - 1) \<and>
        (BIT_CHECK (Mtm_nodeLockerMask locked_state) (3 - 1) \<longrightarrow>
           \<not> BIT_CHECK (Mtm_walSenderLockerMask s') (MyWalSnd example_backend) \<and>
           Mtm_nLockers s' = Mtm_nLockers locked_state - 1) \<and>
        Mtm_nConfigChanges s' = Mtm_nConfigChanges locked_state + 1"
    "\<not> BIT_CHECK (Mtm_disabledNodeMask s') (3 - 1) \<longleftrightarrow>
        (1000::XLogRecPtr) = 1000 \<and> Mtm_nActiveTransactions locked_state = 0"
    using MtmRecoveryCaughtUp_enables [OF h1 h2, where cfg = example_config and e = example_env
        and walLSN = 1000 and slotLSN = 1000]
    by blast
  have c: "c" using a(2) v(1) by simp
  have up: "\<exists>s'. MtmRecoveryCaughtUp example_config example_env 1000 3 1000 example_backend
             locked_state = Inr (True, example_backend, s') \<and>
         \<not> BIT_CHECK (Mtm_disabledNodeMask s') (3 - 1) \<and>
         \<not> BIT_CHECK (Mtm_nodeLockerMask s') (3 - 1) \<and>
         \<not> BIT_CHECK (Mtm_walSenderLockerMask s') (MyWalSnd example_backend) \<and>
         Mtm_nLockers s' = 0 \<and> Mtm_nConfigChanges s' = 1"
    using a c v by auto
  have w: "\<not> BIT_CHECK (Mtm_nodeLockerMask recovering_state) (3 - 1)"
    "(900::XLogRecPtr) + word_of_int (MtmMinRecoveryLag example_config) > 1000"
    "(900::XLogRecPtr) \<noteq> 1000"
    by (simp_all add: recovering_state_def example_state_def example_config_def BIT_CHECK_def)
  obtain c2 s2 where b:
    "MtmRecoveryCaughtUp example_config example_env 1000 3 900 example_backend recovering_state
       = Inr (c2, example_backend, s2)"
    "c2 \<longleftrightarrow> (900::XLogRecPtr) = 1000 \<and> Mtm_nActiveTransactions recovering_state = 0"
    "\<not> c2 \<longrightarrow> Mtm_disabledNodeMask s2 = Mtm_disabledNodeMask recovering_state \<and>
        Mtm_nConfigChanges s2 = Mtm_nConfigChanges recovering_state \<and>
        s2 = (if \<not> BIT_CHECK (Mtm_nodeLockerMask recovering_state) (3 - 1) \<and>
                 900 + word_of_int (MtmMinRecoveryLag example_config) > (1000::XLogRecPtr)
              then recovering_state\<lparr>Mtm_nodeLockerMask :=
                       BIT_SET (Mtm_nodeLockerMask recovering_state) (3 - 1),
                     Mtm_walSenderLockerMask :=
                       BIT_SET (Mtm_walSenderLockerMask recovering_state) (MyWalSnd example_backend),
                     Mtm_nLockers := Mtm_nLockers recovering_state + 1\<rparr>
              else recovering_state)"
    using MtmRecoveryCaughtUp_enables [OF h1' h2, where cfg = example_config and e = example_env
        and walLSN = 1000 and slotLSN = 900]
    by blast
  have nc: "\<not> c2" using b(2) w(3) by simp
  have s2: "s2 = recovering_state\<lparr>Mtm_nodeLockerMask :=
                       BIT_SET (Mtm_nodeLockerMask recovering_state) (3 - 1),
                     Mtm_walSenderLockerMask :=
                       BIT_SET (Mtm_walSenderLockerMask recovering_state) (MyWalSnd example_backend),
                     Mtm_nLockers := Mtm_nLockers recovering_state + 1\<rparr>"
    using b(3) nc w(1,2) by simp
  have down: "\<exists>s'. MtmRecoveryCaughtUp example_config example_env 1000 3 900 example_backend
           recovering_state = Inr (False, example_backend, s') \<and>
         BIT_CHECK (Mtm_disabledNodeMask s') (3 - 1) \<and>
         Mtm_nodeLockerMask s' = 4 \<and> Mtm_walSenderLockerMask s' = 1 \<and> Mtm_nLockers s' = 1"
    using b(1) nc h1' unfolding s2
    by (simp add: recovering_state_def example_state_def example_backend_def BIT_SET_def)
  show ?thesis using h1 h1' h2 v(1) up down by blast
qed

section \<open>Cluster status: properties\<close>

text \<open>
  Claim C3, as the code has it. The cluster has at most 64 nodes and this node's number
  is positive. If the configuration store does not give all masks the refresh returns
  false and leaves the disabled mask and the status as they are. Otherwise, with
  \<open>clique\<close> and \<open>clique_size\<close> what the clique search returns: if \<open>clique_size\<close> is at
  least \<open>N div 2 + 1\<close> and the cluster has fewer than 64 nodes, every node \<open>i + 1 \<le> N\<close>
  outside the clique is disabled afterwards; in a cluster of 64 nodes, for which the
  shift by the number of nodes is undefined in C, no node is newly disabled; in both
  cases every clique member that was not disabled before is still not disabled (with
  the exception of this node itself, which \<^verbatim>\<open>MtmStartRecovery\<close> disables when its status
  is offline). If \<open>clique_size\<close> is smaller, the disabled mask is unchanged and the
  status is \<^verbatim>\<open>MTM_IN_MINORITY\<close>. In every case a node disabled before is disabled
  afterwards.
\<close>

theorem MtmRefreshClusterStatus_clique:
  assumes "0 \<le> Mtm_nAllNodes s" and "Mtm_nAllNodes s \<le> 64" and "0 < MtmNodeId cfg"
  shows
    "(\<forall>s1. MtmBuildConnectivityMatrix cfg e nowait s = (None, s1) \<longrightarrow>
        MtmRefreshClusterStatus cfg e nowait s = (False, s1) \<and>
        Mtm_disabledNodeMask s1 = Mtm_disabledNodeMask s \<and> Mtm_status s1 = Mtm_status s) \<and>
     (\<forall>matrix s1 clique clique_size.
        MtmBuildConnectivityMatrix cfg e nowait s = (Some matrix, s1) \<and>
        MtmFindMaxClique e matrix (Mtm_nAllNodes s) = (clique, clique_size) \<longrightarrow>
        fst (MtmRefreshClusterStatus cfg e nowait s) = True \<and>
        (clique_size \<ge> Mtm_nAllNodes s div 2 + 1 \<longrightarrow>
           (Mtm_nAllNodes s < 64 \<longrightarrow>
              (\<forall>i. 0 \<le> i \<and> i < Mtm_nAllNodes s \<and> \<not> BIT_CHECK clique i \<longrightarrow>
                 BIT_CHECK (Mtm_disabledNodeMask (snd (MtmRefreshClusterStatus cfg e nowait s))) i)) \<and>
           (Mtm_nAllNodes s = 64 \<longrightarrow>
              (\<forall>i. 0 \<le> i \<and> \<not> BIT_CHECK (Mtm_disabledNodeMask s) i \<and> i \<noteq> MtmNodeId cfg - 1 \<longrightarrow>
                 \<not> BIT_CHECK (Mtm_disabledNodeMask (snd (MtmRefreshClusterStatus cfg e nowait s))) i)) \<and>
           (\<forall>i. 0 \<le> i \<and> BIT_CHECK clique i \<and> \<not> BIT_CHECK (Mtm_disabledNodeMask s) i \<and>
                i \<noteq> MtmNodeId cfg - 1 \<longrightarrow>
              \<not> BIT_CHECK (Mtm_disabledNodeMask (snd (MtmRefreshClusterStatus cfg e nowait s))) i)) \<and>
        (\<not> clique_size \<ge> Mtm_nAllNodes s div 2 + 1 \<longrightarrow>
           Mtm_disabledNodeMask (snd (MtmRefreshClusterStatus cfg e nowait s))
             = Mtm_disabledNodeMask s \<and>
           Mtm_status (snd (MtmRefreshClusterStatus cfg e nowait s)) = MTM_IN_MINORITY) \<and>
        (\<forall>i. BIT_CHECK (Mtm_disabledNodeMask s) i \<longrightarrow>
           BIT_CHECK (Mtm_disabledNodeMask (snd (MtmRefreshClusterStatus cfg e nowait s))) i))"
proof -
  have none: "\<forall>s1. MtmBuildConnectivityMatrix cfg e nowait s = (None, s1) \<longrightarrow>
        MtmRefreshClusterStatus cfg e nowait s = (False, s1) \<and>
        Mtm_disabledNodeMask s1 = Mtm_disabledNodeMask s \<and> Mtm_status s1 = Mtm_status s"
  proof (intro allI impI)
    fix s1
    assume a: "MtmBuildConnectivityMatrix cfg e nowait s = (None, s1)"
    show "MtmRefreshClusterStatus cfg e nowait s = (False, s1) \<and>
        Mtm_disabledNodeMask s1 = Mtm_disabledNodeMask s \<and> Mtm_status s1 = Mtm_status s"
      using refresh_no_store [OF a] by simp
  qed
  have some: "\<forall>matrix s1 clique clique_size.
        MtmBuildConnectivityMatrix cfg e nowait s = (Some matrix, s1) \<and>
        MtmFindMaxClique e matrix (Mtm_nAllNodes s) = (clique, clique_size) \<longrightarrow>
        fst (MtmRefreshClusterStatus cfg e nowait s) = True \<and>
        (clique_size \<ge> Mtm_nAllNodes s div 2 + 1 \<longrightarrow>
           (Mtm_nAllNodes s < 64 \<longrightarrow>
              (\<forall>i. 0 \<le> i \<and> i < Mtm_nAllNodes s \<and> \<not> BIT_CHECK clique i \<longrightarrow>
                 BIT_CHECK (Mtm_disabledNodeMask (snd (MtmRefreshClusterStatus cfg e nowait s))) i)) \<and>
           (Mtm_nAllNodes s = 64 \<longrightarrow>
              (\<forall>i. 0 \<le> i \<and> \<not> BIT_CHECK (Mtm_disabledNodeMask s) i \<and> i \<noteq> MtmNodeId cfg - 1 \<longrightarrow>
                 \<not> BIT_CHECK (Mtm_disabledNodeMask (snd (MtmRefreshClusterStatus cfg e nowait s))) i)) \<and>
           (\<forall>i. 0 \<le> i \<and> BIT_CHECK clique i \<and> \<not> BIT_CHECK (Mtm_disabledNodeMask s) i \<and>
                i \<noteq> MtmNodeId cfg - 1 \<longrightarrow>
              \<not> BIT_CHECK (Mtm_disabledNodeMask (snd (MtmRefreshClusterStatus cfg e nowait s))) i)) \<and>
        (\<not> clique_size \<ge> Mtm_nAllNodes s div 2 + 1 \<longrightarrow>
           Mtm_disabledNodeMask (snd (MtmRefreshClusterStatus cfg e nowait s))
             = Mtm_disabledNodeMask s \<and>
           Mtm_status (snd (MtmRefreshClusterStatus cfg e nowait s)) = MTM_IN_MINORITY) \<and>
        (\<forall>i. BIT_CHECK (Mtm_disabledNodeMask s) i \<longrightarrow>
           BIT_CHECK (Mtm_disabledNodeMask (snd (MtmRefreshClusterStatus cfg e nowait s))) i)"
  proof (intro allI impI)
    fix matrix s1 clique clique_size
    assume a: "MtmBuildConnectivityMatrix cfg e nowait s = (Some matrix, s1) \<and>
        MtmFindMaxClique e matrix (Mtm_nAllNodes s) = (clique, clique_size)"
    then have b: "MtmBuildConnectivityMatrix cfg e nowait s = (Some matrix, s1)"
      and c: "MtmFindMaxClique e matrix (Mtm_nAllNodes s) = (clique, clique_size)"
      by simp_all
    have t: "fst (MtmRefreshClusterStatus cfg e nowait s) = True"
    proof (cases "clique_size \<ge> Mtm_nAllNodes s div 2 + 1")
      case True
      show ?thesis using refresh_quorum(1) [OF b c True] .
    next
      case False
      show ?thesis using refresh_minority(1) [OF b c False] by simp
    qed
    show "fst (MtmRefreshClusterStatus cfg e nowait s) = True \<and>
        (clique_size \<ge> Mtm_nAllNodes s div 2 + 1 \<longrightarrow>
           (Mtm_nAllNodes s < 64 \<longrightarrow>
              (\<forall>i. 0 \<le> i \<and> i < Mtm_nAllNodes s \<and> \<not> BIT_CHECK clique i \<longrightarrow>
                 BIT_CHECK (Mtm_disabledNodeMask (snd (MtmRefreshClusterStatus cfg e nowait s))) i)) \<and>
           (Mtm_nAllNodes s = 64 \<longrightarrow>
              (\<forall>i. 0 \<le> i \<and> \<not> BIT_CHECK (Mtm_disabledNodeMask s) i \<and> i \<noteq> MtmNodeId cfg - 1 \<longrightarrow>
                 \<not> BIT_CHECK (Mtm_disabledNodeMask (snd (MtmRefreshClusterStatus cfg e nowait s))) i)) \<and>
           (\<forall>i. 0 \<le> i \<and> BIT_CHECK clique i \<and> \<not> BIT_CHECK (Mtm_disabledNodeMask s) i \<and>
                i \<noteq> MtmNodeId cfg - 1 \<longrightarrow>
              \<not> BIT_CHECK (Mtm_disabledNodeMask (snd (MtmRefreshClusterStatus cfg e nowait s))) i)) \<and>
        (\<not> clique_size \<ge> Mtm_nAllNodes s div 2 + 1 \<longrightarrow>
           Mtm_disabledNodeMask (snd (MtmRefreshClusterStatus cfg e nowait s))
             = Mtm_disabledNodeMask s \<and>
           Mtm_status (snd (MtmRefreshClusterStatus cfg e nowait s)) = MTM_IN_MINORITY) \<and>
        (\<forall>i. BIT_CHECK (Mtm_disabledNodeMask s) i \<longrightarrow>
           BIT_CHECK (Mtm_disabledNodeMask (snd (MtmRefreshClusterStatus cfg e nowait s))) i)"
      using t MtmRefreshClusterStatus_built [OF assms b c] by blast
  qed
  show ?thesis using none some by (rule conjI)
qed

text \<open>
  The theorem at the partition example: nodes 1 and 2 form a clique of size 2, which is
  a quorum of 3, so node 3 (bit 2) is disabled and node 2 (bit 1) is not. When the
  search finds node 1 alone, the mask stays and the status is \<^verbatim>\<open>MTM_IN_MINORITY\<close>.
\<close>

theorem MtmRefreshClusterStatus_clique_witness:
  "0 \<le> Mtm_nAllNodes partition_state \<and> Mtm_nAllNodes partition_state \<le> 64 \<and>
   0 < MtmNodeId example_config \<and> Mtm_nAllNodes partition_state < 64 \<and>
   fst (MtmBuildConnectivityMatrix example_config partition_env False partition_state)
     = Some [4, 4, 3] \<and>
   MtmFindMaxClique partition_env [4, 4, 3] (Mtm_nAllNodes partition_state) = (3, 2) \<and>
   (2::int) \<ge> Mtm_nAllNodes partition_state div 2 + 1 \<and>
   \<not> BIT_CHECK 3 2 \<and>
   BIT_CHECK (Mtm_disabledNodeMask
     (snd (MtmRefreshClusterStatus example_config partition_env False partition_state))) 2 \<and>
   BIT_CHECK 3 1 \<and> \<not> BIT_CHECK (Mtm_disabledNodeMask partition_state) 1 \<and>
   \<not> BIT_CHECK (Mtm_disabledNodeMask
     (snd (MtmRefreshClusterStatus example_config partition_env False partition_state))) 1 \<and>
   fst (MtmBuildConnectivityMatrix example_config minority_env False partition_state)
     = Some [4, 4, 3] \<and>
   MtmFindMaxClique minority_env [4, 4, 3] (Mtm_nAllNodes partition_state) = (1, 1) \<and>
   \<not> (1::int) \<ge> Mtm_nAllNodes partition_state div 2 + 1 \<and>
   Mtm_disabledNodeMask
     (snd (MtmRefreshClusterStatus example_config minority_env False partition_state))
     = Mtm_disabledNodeMask partition_state \<and>
   Mtm_status (snd (MtmRefreshClusterStatus example_config minority_env False partition_state))
     = MTM_IN_MINORITY"
proof -
  have n: "0 \<le> Mtm_nAllNodes partition_state" "Mtm_nAllNodes partition_state \<le> 64"
    "Mtm_nAllNodes partition_state = 3" "Mtm_nAllNodes partition_state < 64"
    by (simp_all add: partition_state_def example_state_def)
  have i: "0 < MtmNodeId example_config" by (simp add: example_config_def)
  have m1: "fst (MtmBuildConnectivityMatrix example_config partition_env False partition_state)
     = Some [4, 4, 3]" by code_simp
  have m2: "fst (MtmBuildConnectivityMatrix example_config minority_env False partition_state)
     = Some [4, 4, 3]" by code_simp
  obtain s1 where b1: "MtmBuildConnectivityMatrix example_config partition_env False partition_state
     = (Some [4, 4, 3], s1)"
    using m1 by (cases "MtmBuildConnectivityMatrix example_config partition_env False partition_state") simp
  obtain s2 where b2: "MtmBuildConnectivityMatrix example_config minority_env False partition_state
     = (Some [4, 4, 3], s2)"
    using m2 by (cases "MtmBuildConnectivityMatrix example_config minority_env False partition_state") simp
  have c1: "MtmFindMaxClique partition_env [4, 4, 3] (Mtm_nAllNodes partition_state) = (3, 2)"
    by (simp add: partition_env_def)
  have c2: "MtmFindMaxClique minority_env [4, 4, 3] (Mtm_nAllNodes partition_state) = (1, 1)"
    by (simp add: minority_env_def partition_env_def)
  have q1: "(2::int) \<ge> Mtm_nAllNodes partition_state div 2 + 1" unfolding n(3) by simp
  have q2: "\<not> (1::int) \<ge> Mtm_nAllNodes partition_state div 2 + 1" unfolding n(3) by simp
  have bits: "\<not> BIT_CHECK 3 2" "BIT_CHECK 3 1" "\<not> BIT_CHECK (Mtm_disabledNodeMask partition_state) 1"
    by (simp_all add: BIT_CHECK_def partition_state_def example_state_def)
  have r: "(0::int) \<le> 2 \<and> 2 < Mtm_nAllNodes partition_state" "(1::int) \<noteq> MtmNodeId example_config - 1"
    unfolding n(3) by (simp_all add: example_config_def)
  note t1 = MtmRefreshClusterStatus_clique [OF n(1,2) i, of partition_env False]
  note t2 = MtmRefreshClusterStatus_clique [OF n(1,2) i, of minority_env False]
  from t1 b1 c1 q1 bits(1) r(1) n(4) have out: "BIT_CHECK (Mtm_disabledNodeMask
     (snd (MtmRefreshClusterStatus example_config partition_env False partition_state))) 2"
    by blast
  from t1 b1 c1 q1 bits(2,3) r(2) have inn: "\<not> BIT_CHECK (Mtm_disabledNodeMask
     (snd (MtmRefreshClusterStatus example_config partition_env False partition_state))) 1"
    by (metis zero_le_one)
  from t2 b2 c2 q2 have mino: "Mtm_disabledNodeMask
     (snd (MtmRefreshClusterStatus example_config minority_env False partition_state))
     = Mtm_disabledNodeMask partition_state \<and>
     Mtm_status (snd (MtmRefreshClusterStatus example_config minority_env False partition_state))
     = MTM_IN_MINORITY"
    by blast
  show ?thesis using n(1,2,4) i m1 m2 c1 c2 q1 q2 bits out inn mino by blast
qed

lemma read_all:
  assumes "\<And>k i nw. RaftableGet e k i nw \<noteq> None"
  shows "\<exists>ms s1. MtmBuildConnectivityMatrix_read cfg e nowait ns s = (Some ms, s1)"
proof (induction ns arbitrary: s)
  case Nil
  then show ?case by simp
next
  case (Cons i ns)
  show ?case
  proof (cases "int i + 1 \<noteq> MtmNodeId cfg")
    case True
    obtain m where m: "RaftableGet e (Mtm_ext_calls s) (int i + 1) nowait = Some m"
      using assms [of "Mtm_ext_calls s" "int i + 1" nowait] by auto
    obtain ms s1 where "MtmBuildConnectivityMatrix_read cfg e nowait ns
        (s\<lparr>Mtm_ext_calls := Suc (Mtm_ext_calls s)\<rparr>) = (Some ms, s1)"
      using Cons.IH by blast
    then show ?thesis using True m by simp
  next
    case False
    obtain ms s1 where "MtmBuildConnectivityMatrix_read cfg e nowait ns s = (Some ms, s1)"
      using Cons.IH by blast
    then show ?thesis using False by simp
  qed
qed

lemma build_all:
  assumes "\<And>k i nw. RaftableGet e k i nw \<noteq> None"
  shows "\<exists>matrix s1. MtmBuildConnectivityMatrix cfg e nowait s = (Some matrix, s1)"
proof -
  obtain ms s1 where "MtmBuildConnectivityMatrix_read cfg e nowait [0..<nat (Mtm_nAllNodes s)] s
      = (Some ms, s1)"
    using read_all [OF assms] by blast
  then show ?thesis by (simp add: MtmBuildConnectivityMatrix_def)
qed

lemma refresh_64:
  assumes "Mtm_nAllNodes s = 64"
    and "MtmBuildConnectivityMatrix cfg e nowait s = (Some matrix, s1)"
    and "MtmFindMaxClique e matrix (Mtm_nAllNodes s) = (clique, clique_size)"
    and "clique_size \<ge> Mtm_nAllNodes s div 2 + 1"
  shows "\<exists>own. (own = 0 \<or> own = push_bit (nat (MtmNodeId cfg - 1)) 1) \<and>
          Mtm_disabledNodeMask (snd (MtmRefreshClusterStatus cfg e nowait s)) =
            Mtm_disabledNodeMask s OR own"
  using refresh_quorum(2) [OF assms(2,3,4)] unfolding assms(1) by simp

text \<open>
  Claim C3 fails for a cluster of 64 nodes. The clique of the nodes 1 to 33 has a
  quorum, node 64 (bit 63) is outside it, and yet node 64 is not disabled afterwards:
  the mask of all nodes, \<^verbatim>\<open>((nodemask_t)1 << 64) - 1\<close>, is 0 and not all ones, so that no
  node is found to be newly disabled.
\<close>

theorem MtmRefreshClusterStatus_64_counterexample:
  "Mtm_nAllNodes wide_state = 64 \<and>
   (\<exists>matrix s1. MtmBuildConnectivityMatrix example_config wide_env False wide_state
                   = (Some matrix, s1) \<and>
      MtmFindMaxClique wide_env matrix (Mtm_nAllNodes wide_state) = (mask 33, 33)) \<and>
   (33::int) \<ge> Mtm_nAllNodes wide_state div 2 + 1 \<and>
   \<not> BIT_CHECK (mask 33) 63 \<and>
   \<not> BIT_CHECK (Mtm_disabledNodeMask
       (snd (MtmRefreshClusterStatus example_config wide_env False wide_state))) 63"
proof -
  have n: "Mtm_nAllNodes wide_state = 64" by (simp add: wide_state_def)
  obtain matrix s1 where b: "MtmBuildConnectivityMatrix example_config wide_env False wide_state
      = (Some matrix, s1)"
    using build_all [of wide_env example_config False wide_state] by (auto simp: wide_env_def)
  have c: "MtmFindMaxClique wide_env matrix (Mtm_nAllNodes wide_state) = (mask 33, 33)"
    by (simp add: wide_env_def)
  have q: "(33::int) \<ge> Mtm_nAllNodes wide_state div 2 + 1" unfolding n by simp
  have o: "\<not> BIT_CHECK (mask 33) 63" unfolding BIT_CHECK_bit by (simp add: bit_simps)
  obtain own where own: "own = 0 \<or> own = push_bit (nat (MtmNodeId example_config - 1)) 1"
    and m: "Mtm_disabledNodeMask
       (snd (MtmRefreshClusterStatus example_config wide_env False wide_state))
       = Mtm_disabledNodeMask wide_state OR own"
    using refresh_64 [OF n b c q] by blast
  have "\<not> bit own 63" using own by (auto simp: bit_simps example_config_def)
  moreover have "Mtm_disabledNodeMask wide_state = 0"
    by (simp add: wide_state_def example_state_def)
  ultimately have r: "\<not> BIT_CHECK (Mtm_disabledNodeMask
       (snd (MtmRefreshClusterStatus example_config wide_env False wide_state))) 63"
    unfolding m BIT_CHECK_bit by (simp add: bit_or_iff)
  show ?thesis using n b c q o r by blast
qed

section \<open>The watchdog: properties\<close>

text \<open>
  Claim C10. A node whose last heartbeat is zero when the watchdog starts is not among
  the nodes the watchdog disconnects, whatever it does to other nodes on the way. And
  \<^verbatim>\<open>MtmDisableNode\<close> and \<^verbatim>\<open>MtmEnableNode\<close> leave the last heartbeat of their node at zero,
  so a watchdog that runs next, before a heartbeat of the node is recorded, does not
  disconnect that node.
\<close>

theorem MtmWatchdog_defused:
  "(lastHeartbeat (Mtm_nodes s ! k) = 0 \<longrightarrow>
      int k + 1 \<notin> set (snd (snd (MtmWatchdog cfg e now s)))) \<and>
   (0 < n \<and> nat n \<le> length (Mtm_nodes s) \<longrightarrow>
      lastHeartbeat (Mtm_nodes (MtmDisableNode cfg e n s) ! nat (n - 1)) = 0 \<and>
      lastHeartbeat (Mtm_nodes (MtmEnableNode cfg e n s) ! nat (n - 1)) = 0 \<and>
      n \<notin> set (snd (snd (MtmWatchdog cfg e' now (MtmDisableNode cfg e n s)))) \<and>
      n \<notin> set (snd (snd (MtmWatchdog cfg e' now (MtmEnableNode cfg e n s)))))"
proof -
  have w: "lastHeartbeat (Mtm_nodes t ! j) = 0 \<Longrightarrow>
      int j + 1 \<notin> set (snd (snd (MtmWatchdog cfg e2 now t)))" for t j e2
    unfolding MtmWatchdog_def by (rule MtmWatchdog_fold) simp_all
  have d: "lastHeartbeat (Mtm_nodes (MtmDisableNode cfg e n s) ! nat (n - 1)) = 0"
    and en: "lastHeartbeat (Mtm_nodes (MtmEnableNode cfg e n s) ! nat (n - 1)) = 0"
    if "0 < n" "nat n \<le> length (Mtm_nodes s)"
  proof -
    have r: "0 \<le> n - 1 \<and> nat (n - 1) < length (Mtm_nodes s)" using that by linarith
    show "lastHeartbeat (Mtm_nodes (MtmDisableNode cfg e n s) ! nat (n - 1)) = 0"
      unfolding MtmDisableNode_nodes using r by simp
    show "lastHeartbeat (Mtm_nodes (MtmEnableNode cfg e n s) ! nat (n - 1)) = 0"
      unfolding MtmEnableNode_nodes using r by simp
  qed
  have n1: "int (nat (n - 1)) + 1 = n" if "0 < n" using that by simp
  show ?thesis
    using w [of s k e] w [of "MtmDisableNode cfg e n s" "nat (n - 1)" e']
      w [of "MtmEnableNode cfg e n s" "nat (n - 1)" e'] d en n1
    by auto
qed

text \<open>
  The theorem at the example: at time 99999999 the watchdog disconnects node 3, whose
  last heartbeat was at time 1, and not node 2, whose last heartbeat is zero; and once
  node 3 has been enabled or disabled the watchdog does not disconnect it either.
\<close>

theorem MtmWatchdog_defused_witness:
  "lastHeartbeat (Mtm_nodes heartbeat_state ! 1) = 0 \<and>
   snd (snd (MtmWatchdog example_config example_env 99999999 heartbeat_state)) = [3] \<and>
   2 \<notin> set (snd (snd (MtmWatchdog example_config example_env 99999999 heartbeat_state))) \<and>
   (0::int) < 3 \<and> nat 3 \<le> length (Mtm_nodes heartbeat_state) \<and>
   lastHeartbeat (Mtm_nodes (MtmEnableNode example_config example_env 3 heartbeat_state) ! 2) = 0 \<and>
   3 \<notin> set (snd (snd (MtmWatchdog example_config example_env 99999999
                 (MtmEnableNode example_config example_env 3 heartbeat_state)))) \<and>
   3 \<notin> set (snd (snd (MtmWatchdog example_config example_env 99999999
                 (MtmDisableNode example_config example_env 3 heartbeat_state))))"
proof -
  have h1: "lastHeartbeat (Mtm_nodes heartbeat_state ! 1) = 0"
    by (simp add: heartbeat_state_def)
  have h2: "(0::int) < 3 \<and> nat 3 \<le> length (Mtm_nodes heartbeat_state)"
    by (simp add: heartbeat_state_def)
  have calls: "snd (snd (MtmWatchdog example_config example_env 99999999 heartbeat_state)) = [3]"
    by code_simp
  note t = MtmWatchdog_defused [of heartbeat_state 1 example_config example_env 99999999 3 example_env]
  have k: "int 1 + 1 = 2" "nat (3 - 1) = 2" by simp_all
  from t h1 have a: "2 \<notin> set (snd (snd (MtmWatchdog example_config example_env 99999999 heartbeat_state)))"
    unfolding k by blast
  from t h2 have b:
    "lastHeartbeat (Mtm_nodes (MtmEnableNode example_config example_env 3 heartbeat_state) ! 2) = 0"
    "3 \<notin> set (snd (snd (MtmWatchdog example_config example_env 99999999
                 (MtmEnableNode example_config example_env 3 heartbeat_state))))"
    "3 \<notin> set (snd (snd (MtmWatchdog example_config example_env 99999999
                 (MtmDisableNode example_config example_env 3 heartbeat_state))))"
    unfolding k by blast+
  show ?thesis using h1 h2 calls a b by blast
qed

section \<open>The replication stream: properties\<close>

lemma write_change_filtered:
  "MtmIsFilteredTxn b \<Longrightarrow> pglogical_write_change out c b = Inr out"
  by (cases c)
    (simp_all add: pglogical_write_rel_def pglogical_write_insert_def pglogical_write_update_def
      pglogical_write_delete_def)

lemma write_changes_filtered:
  "MtmIsFilteredTxn b \<Longrightarrow> pglogical_write_changes out cs b = Inr out"
  by (induction cs) (simp_all add: write_change_filtered)

lemma write_columns_layout:
  "pglogical_write_columns out cs =
     (case attribute_error cs of
        Some err \<Rightarrow> Inl err
      | None \<Rightarrow> Inr (out @ concat (map attribute_block cs)))"
  by (induction out cs rule: pglogical_write_columns.induct)
    (simp_all add: pq_sendbyte_def pq_sendint_def pq_sendbytes_def split: option.splits)

lemma write_tuple_layout:
  "pglogical_write_tuple out tuple =
     (case attribute_error tuple of
        Some err \<Rightarrow> Inl err
      | None \<Rightarrow> Inr (out @ tuple_block tuple))"
  by (simp add: pglogical_write_tuple_def write_columns_layout tuple_block_def pq_sendbyte_def
      pq_sendint_def Let_def split: option.splits)

lemma write_change_layout:
  assumes "\<not> MtmIsFilteredTxn b"
  shows "pglogical_write_change out c b =
     (case change_error c of
        Some err \<Rightarrow> Inl err
      | None \<Rightarrow> Inr (out @ change_record c))"
proof (cases c)
  case (WRITE_REL rel)
  then show ?thesis using assms
    by (simp add: pglogical_write_rel_def name_block_def pq_sendbyte_def pq_sendbytes_def Let_def
        split: option.splits)
next
  case (WRITE_INSERT newtuple)
  then show ?thesis using assms
    by (simp add: pglogical_write_insert_def write_tuple_layout pq_sendbyte_def
        split: option.splits)
next
  case (WRITE_UPDATE oldtuple newtuple)
  then show ?thesis using assms
    by (cases oldtuple)
      (simp_all add: pglogical_write_update_def write_tuple_layout pq_sendbyte_def Let_def
        split: option.splits)
next
  case (WRITE_DELETE oldtuple)
  then show ?thesis using assms
    by (simp add: pglogical_write_delete_def write_tuple_layout pq_sendbyte_def
        split: option.splits)
qed

lemma write_changes_layout:
  assumes "\<not> MtmIsFilteredTxn b"
  shows "list_all (\<lambda>c. change_error c = None) cs \<Longrightarrow>
     pglogical_write_changes out cs b = Inr (out @ concat (map change_record cs))"
proof (induction cs arbitrary: out)
  case Nil
  then show ?case by simp
next
  case (Cons c cs)
  then have c: "change_error c = None" and cs: "list_all (\<lambda>c. change_error c = None) cs"
    by simp_all
  have "pglogical_write_change out c b = Inr (out @ change_record c)"
    using write_change_layout [OF assms, of out c] c by simp
  then show ?case using Cons.IH [OF cs, of "out @ change_record c"] by simp
qed

text \<open>
  Claim C7. The sender of the replication stream writes no BEGIN record for a transaction
  whose snapshot CSN is invalid when the receiving node is not being recovered: the output
  buffer is left as it was and the transaction is marked as filtered, after which every
  relation, insert, update and delete record of it leaves the buffer unchanged as well.
  When the CSN is valid the BEGIN record is emitted (tag \<open>B\<close>, the node id, the XID and the
  CSN), and so it is for a receiver in recovery, then with an invalid XID in place of the
  real one. In a transaction that is not filtered every change is emitted: the writer
  appends the whole record of the change to the buffer, tag, names and tuple blocks as
  the framing has them, and nothing else, unless a catalogue lookup fails or an
  attribute has a format the writer does not support, in which case it raises that
  error; and a list of changes without such an error is written record after record.
\<close>

theorem pglogical_write_begin_filter:
  "(\<not> BIT_CHECK (Mtm_disabledNodeMask s) (MtmReplicationNodeId b - 1) \<and>
    MtmTransactionSnapshot cfg s txn_xid = INVALID_CSN cfg \<longrightarrow>
      pglogical_write_begin cfg txn_xid b s out
        = Inr (out, b\<lparr>MtmIsRecoverySession := False, MtmIsFilteredTxn := True\<rparr>) \<and>
      (\<forall>cs. pglogical_write_changes out cs
               (b\<lparr>MtmIsRecoverySession := False, MtmIsFilteredTxn := True\<rparr>) = Inr out)) \<and>
   (\<not> BIT_CHECK (Mtm_disabledNodeMask s) (MtmReplicationNodeId b - 1) \<and>
    MtmTransactionSnapshot cfg s txn_xid \<noteq> INVALID_CSN cfg \<longrightarrow>
      pglogical_write_begin cfg txn_xid b s out
        = Inr (out @ of_char CHR ''B'' # be_bytes 4 (MtmNodeId cfg) @ be_bytes 4 (uint txn_xid)
                 @ be_bytes 8 (uint (MtmTransactionSnapshot cfg s txn_xid)),
               b\<lparr>MtmIsRecoverySession := False, MtmIsFilteredTxn := False\<rparr>)) \<and>
   (BIT_CHECK (Mtm_disabledNodeMask s) (MtmReplicationNodeId b - 1) \<and> MtmIsRecoverySession b \<longrightarrow>
      pglogical_write_begin cfg txn_xid b s out
        = Inr (out @ of_char CHR ''B'' # be_bytes 4 (MtmNodeId cfg)
                 @ be_bytes 4 (uint InvalidTransactionId)
                 @ be_bytes 8 (uint (MtmTransactionSnapshot cfg s txn_xid)),
               b\<lparr>MtmIsFilteredTxn := False\<rparr>)) \<and>
   (\<forall>b' c o1. \<not> MtmIsFilteredTxn b' \<longrightarrow>
      pglogical_write_change o1 c b' =
        (case change_error c of
           Some err \<Rightarrow> Inl err
         | None \<Rightarrow> Inr (o1 @ change_record c))) \<and>
   (\<forall>b' cs o1. \<not> MtmIsFilteredTxn b' \<and> list_all (\<lambda>c. change_error c = None) cs \<longrightarrow>
      pglogical_write_changes o1 cs b' = Inr (o1 @ concat (map change_record cs)))"
proof -
  have a: "pglogical_write_begin cfg txn_xid b s out
        = Inr (out, b\<lparr>MtmIsRecoverySession := False, MtmIsFilteredTxn := True\<rparr>)"
    if "\<not> BIT_CHECK (Mtm_disabledNodeMask s) (MtmReplicationNodeId b - 1)"
      "MtmTransactionSnapshot cfg s txn_xid = INVALID_CSN cfg"
    using that by (simp add: pglogical_write_begin_def MtmIsRecoveredNode_def)
  have b: "pglogical_write_changes out cs
               (b\<lparr>MtmIsRecoverySession := False, MtmIsFilteredTxn := True\<rparr>) = Inr out" for cs
    by (rule write_changes_filtered) simp
  have c: "pglogical_write_begin cfg txn_xid b s out
        = Inr (out @ of_char CHR ''B'' # be_bytes 4 (MtmNodeId cfg) @ be_bytes 4 (uint txn_xid)
                 @ be_bytes 8 (uint (MtmTransactionSnapshot cfg s txn_xid)),
               b\<lparr>MtmIsRecoverySession := False, MtmIsFilteredTxn := False\<rparr>)"
    if "\<not> BIT_CHECK (Mtm_disabledNodeMask s) (MtmReplicationNodeId b - 1)"
      "MtmTransactionSnapshot cfg s txn_xid \<noteq> INVALID_CSN cfg"
    using that
    by (simp add: pglogical_write_begin_def MtmIsRecoveredNode_def Let_def pq_sendbyte_def
        pq_sendint_def pq_sendint64_def)
  have d: "pglogical_write_begin cfg txn_xid b s out
        = Inr (out @ of_char CHR ''B'' # be_bytes 4 (MtmNodeId cfg)
                 @ be_bytes 4 (uint InvalidTransactionId)
                 @ be_bytes 8 (uint (MtmTransactionSnapshot cfg s txn_xid)),
               b\<lparr>MtmIsFilteredTxn := False\<rparr>)"
    if "BIT_CHECK (Mtm_disabledNodeMask s) (MtmReplicationNodeId b - 1)" "MtmIsRecoverySession b"
    using that
    by (simp add: pglogical_write_begin_def MtmIsRecoveredNode_def Let_def pq_sendbyte_def
        pq_sendint_def pq_sendint64_def)
  have e: "pglogical_write_change o1 c b' =
        (case change_error c of
           Some err \<Rightarrow> Inl err
         | None \<Rightarrow> Inr (o1 @ change_record c))"
    if "\<not> MtmIsFilteredTxn b'" for b' c o1
    using that by (rule write_change_layout)
  have f: "pglogical_write_changes o1 cs b' = Inr (o1 @ concat (map change_record cs))"
    if "\<not> MtmIsFilteredTxn b' \<and> list_all (\<lambda>c. change_error c = None) cs" for b' cs o1
    using that write_changes_layout [of b' cs o1] by blast
  show ?thesis
    apply (intro conjI impI allI)
    subgoal using a by blast
    subgoal using b by blast
    subgoal using c by blast
    subgoal using d by blast
    subgoal using e by blast
    subgoal using f by blast
    done
qed

text \<open>
  The theorem at the example. Transaction 9 is not in the table of node 1, so its CSN
  is invalid: nothing is written for its BEGIN nor for its changes. Transaction 7 has
  the snapshot 5: its BEGIN is 17 bytes, and its four changes are written as the
  records R, I, U (old key and new tuple) and D. An UPDATE with an attribute of a type
  that the cache does not find raises the error.
\<close>

theorem pglogical_write_begin_filter_witness:
  "\<not> BIT_CHECK (Mtm_disabledNodeMask prepared_state) (MtmReplicationNodeId normal_backend - 1) \<and>
   MtmTransactionSnapshot example_config prepared_state 9 = INVALID_CSN example_config \<and>
   pglogical_write_begin example_config 9 normal_backend prepared_state []
     = Inr ([], normal_backend\<lparr>MtmIsRecoverySession := False, MtmIsFilteredTxn := True\<rparr>) \<and>
   pglogical_write_changes [] example_changes
     (normal_backend\<lparr>MtmIsRecoverySession := False, MtmIsFilteredTxn := True\<rparr>) = Inr [] \<and>
   MtmTransactionSnapshot example_config prepared_state 7 \<noteq> INVALID_CSN example_config \<and>
   pglogical_write_begin example_config 7 normal_backend prepared_state []
     = Inr ([66, 0, 0, 0, 1, 0, 0, 0, 7, 0, 0, 0, 0, 0, 0, 0, 5],
            normal_backend\<lparr>MtmIsRecoverySession := False, MtmIsFilteredTxn := False\<rparr>) \<and>
   \<not> MtmIsFilteredTxn (normal_backend\<lparr>MtmIsRecoverySession := False, MtmIsFilteredTxn := False\<rparr>) \<and>
   list_all (\<lambda>c. change_error c = None) example_changes \<and>
   pglogical_write_changes [] example_changes
       (normal_backend\<lparr>MtmIsRecoverySession := False, MtmIsFilteredTxn := False\<rparr>)
     = Inr [82, 7, 112, 117, 98, 108, 105, 99, 0, 2, 116, 0,
            73, 84, 0, 1, 116, 0, 0, 0, 2, 49, 0,
            85, 75, 84, 0, 1, 116, 0, 0, 0, 2, 49, 0,
                78, 84, 0, 2, 116, 0, 0, 0, 2, 50, 0, 110,
            68, 84, 0, 1, 116, 0, 0, 0, 2, 50, 0] \<and>
   pglogical_write_change [] (WRITE_UPDATE None [Text ''2'', TypeNotFound])
       (normal_backend\<lparr>MtmIsRecoverySession := False, MtmIsFilteredTxn := False\<rparr>)
     = Inl (ERROR ''cache lookup failed for type %u'')"
proof -
  let ?b = "normal_backend\<lparr>MtmIsRecoverySession := False, MtmIsFilteredTxn := False\<rparr>"
  have h1: "\<not> BIT_CHECK (Mtm_disabledNodeMask prepared_state)
      (MtmReplicationNodeId normal_backend - 1)"
    by (simp add: prepared_state_def example_state_def normal_backend_def BIT_CHECK_def)
  have h2: "MtmTransactionSnapshot example_config prepared_state 9 = INVALID_CSN example_config"
    by (simp add: MtmTransactionSnapshot_def prepared_state_def example_state_def)
  have h3: "MtmTransactionSnapshot example_config prepared_state 7 \<noteq> INVALID_CSN example_config"
    "MtmTransactionSnapshot example_config prepared_state 7 = 5"
    by (simp_all add: MtmTransactionSnapshot_def prepared_state_def example_state_def
        example_ts_def example_config_def)
  have h4: "\<not> MtmIsFilteredTxn ?b" by simp
  have h5: "list_all (\<lambda>c. change_error c = None) example_changes"
    by (simp add: example_changes_def)
  note t = pglogical_write_begin_filter [of prepared_state normal_backend example_config _ "[]"]
  note t1 = t [THEN conjunct1]
  note t2 = t [THEN conjunct2, THEN conjunct1]
  note t4 = t [THEN conjunct2, THEN conjunct2, THEN conjunct2, THEN conjunct1]
  note t5 = t [THEN conjunct2, THEN conjunct2, THEN conjunct2, THEN conjunct2]
  from t1 [of 9] h1 h2 have f1:
    "pglogical_write_begin example_config 9 normal_backend prepared_state []
     = Inr ([], normal_backend\<lparr>MtmIsRecoverySession := False, MtmIsFilteredTxn := True\<rparr>)"
    and f2: "pglogical_write_changes [] example_changes
     (normal_backend\<lparr>MtmIsRecoverySession := False, MtmIsFilteredTxn := True\<rparr>) = Inr []"
    by blast+
  from t2 [of 7] h1 h3(1) have e1:
    "pglogical_write_begin example_config 7 normal_backend prepared_state []
        = Inr ([] @ of_char CHR ''B'' # be_bytes 4 (MtmNodeId example_config) @ be_bytes 4 (uint (7::TransactionId))
                 @ be_bytes 8 (uint (MtmTransactionSnapshot example_config prepared_state 7)),
               ?b)"
    by blast
  have bytes: "[] @ of_char CHR ''B'' # be_bytes 4 (MtmNodeId example_config) @ be_bytes 4 (uint (7::TransactionId))
                 @ be_bytes 8 (uint (5::csn_t))
      = [66, 0, 0, 0, 1, 0, 0, 0, 7, 0, 0, 0, 0, 0, 0, 0, 5]"
    by code_simp
  have e2: "pglogical_write_changes [] example_changes ?b
      = Inr ([] @ concat (map change_record example_changes))"
    using t5 h4 h5 by blast
  have bytes2: "[] @ concat (map change_record example_changes)
     = [82, 7, 112, 117, 98, 108, 105, 99, 0, 2, 116, 0,
            73, 84, 0, 1, 116, 0, 0, 0, 2, 49, 0,
            85, 75, 84, 0, 1, 116, 0, 0, 0, 2, 49, 0,
                78, 84, 0, 2, 116, 0, 0, 0, 2, 50, 0, 110,
            68, 84, 0, 1, 116, 0, 0, 0, 2, 50, 0]"
    by code_simp
  have e3: "pglogical_write_change [] (WRITE_UPDATE None [Text ''2'', TypeNotFound]) ?b
     = (case change_error (WRITE_UPDATE None [Text ''2'', TypeNotFound]) of
           Some err \<Rightarrow> Inl err
         | None \<Rightarrow> Inr ([] @ change_record (WRITE_UPDATE None [Text ''2'', TypeNotFound])))"
    using t4 h4 by blast
  have e3': "pglogical_write_change [] (WRITE_UPDATE None [Text ''2'', TypeNotFound]) ?b
     = Inl (ERROR ''cache lookup failed for type %u'')"
    unfolding e3 by simp
  show ?thesis
    by (intro conjI h1 h2 f1 f2 h3(1) e1 [unfolded h3(2) bytes] h4 h5 e2 [unfolded bytes2] e3')
qed

section \<open>Two-phase commit: properties\<close>

lemma WaitLatch_calls: "Mtm_ext_calls (WaitLatch others k s) = Mtm_ext_calls s"
  by (simp add: WaitLatch_def)

lemma adjust_fold_entry:
  "h x = Some t \<Longrightarrow> ts_status t = a \<Longrightarrow>
   \<exists>t'. fold (\<lambda>y h. case h y of None \<Rightarrow> h
                       | Some sts \<Rightarrow> h(y \<mapsto> sts\<lparr>ts_status := a, ts_csn := c\<rparr>)) ys h x = Some t'
        \<and> ts_status t' = a \<and> ts_votingCompleted t' = ts_votingCompleted t"
proof (induction ys arbitrary: h t)
  case Nil
  then show ?case by simp
next
  case (Cons y ys)
  let ?f = "\<lambda>y h. case h y of None \<Rightarrow> h
                  | Some sts \<Rightarrow> h(y \<mapsto> sts\<lparr>ts_status := a, ts_csn := c\<rparr>)"
  show ?case
  proof (cases "h y")
    case None
    then have step: "fold ?f (y # ys) h = fold ?f ys h" by simp
    from Cons.IH [of h t] Cons.prems show ?thesis unfolding step by blast
  next
    case (Some sts)
    let ?h = "h(y \<mapsto> sts\<lparr>ts_status := a, ts_csn := c\<rparr>)"
    have step: "fold ?f (y # ys) h = fold ?f ys ?h" using Some by simp
    have "\<exists>t1. ?h x = Some t1 \<and> ts_status t1 = a \<and> ts_votingCompleted t1 = ts_votingCompleted t"
      using Cons.prems Some by (cases "y = x") auto
    then obtain t1 where t1: "?h x = Some t1" "ts_status t1 = a"
      "ts_votingCompleted t1 = ts_votingCompleted t" by blast
    from Cons.IH [of ?h t1] t1(1,2) obtain t' where
      "fold ?f ys ?h x = Some t'" "ts_status t' = a" "ts_votingCompleted t' = ts_votingCompleted t1"
      by blast
    then show ?thesis unfolding step t1(3) by blast
  qed
qed

lemma MtmAbortTransaction_entry:
  assumes "MtmXid2State s x = Some ts"
  shows "\<exists>ts'. MtmXid2State (MtmAbortTransaction x s) x = Some ts'
           \<and> ts_status ts' = TRANSACTION_STATUS_ABORTED
           \<and> ts_votingCompleted ts' = ts_votingCompleted ts"
proof (cases "ts_status ts = TRANSACTION_STATUS_ABORTED")
  case True
  then show ?thesis using assms by (simp add: MtmAbortTransaction_def)
next
  case False
  let ?t = "ts\<lparr>ts_status := TRANSACTION_STATUS_ABORTED\<rparr>"
  let ?h = "(MtmXid2State s)(x \<mapsto> ?t)"
  let ?s1 = "s\<lparr>MtmXid2State := ?h\<rparr>"
  let ?f = "\<lambda>y h. case h y of None \<Rightarrow> h
                  | Some sts \<Rightarrow> h(y \<mapsto> sts\<lparr>ts_status := ts_status ?t, ts_csn := ts_csn ?t\<rparr>)"
  let ?ys = "list_successors (Mtm_transList ?s1) x (nat (ts_nSubxids ?t))"
  have hx: "?h x = Some ?t" by simp
  from adjust_fold_entry [where h = ?h and x = x and t = ?t and a = "ts_status ?t"
      and c = "ts_csn ?t" and ys = ?ys] hx
  obtain t' where t': "fold ?f ?ys ?h x = Some t'" "ts_status t' = ts_status ?t"
    "ts_votingCompleted t' = ts_votingCompleted ?t" by blast
  have adj: "MtmXid2State (MtmAdjustSubtransactions x ?s1) = fold ?f ?ys ?h"
    by (simp add: MtmAdjustSubtransactions_def)
  have "MtmXid2State (MtmAbortTransaction x s) = MtmXid2State (MtmAdjustSubtransactions x ?s1)"
    using assms False by (simp add: MtmAbortTransaction_def Let_def)
  then have "MtmXid2State (MtmAbortTransaction x s) x = Some t'"
    unfolding adj using t'(1) by simp
  then show ?thesis using t'(2,3) by simp
qed

lemma wait_returns:
  "start + timeout < gettimeofday e (Mtm_ext_calls s + j) \<Longrightarrow>
     \<exists>r. MtmPostPrepareTransaction_wait e others x n start timeout (Suc j) k ts s = Some r"
proof (induction j arbitrary: k ts s)
  case 0
  then show ?case
    by (auto simp: MtmGetSystemTime_def not_le)
next
  case (Suc j)
  let ?s1 = "s\<lparr>Mtm_ext_calls := Suc (Mtm_ext_calls s)\<rparr>"
  let ?w = "WaitLatch others k ?s1"
  have e2: "start + timeout < gettimeofday e (Mtm_ext_calls ?w + j)"
    using Suc.prems by (simp add: WaitLatch_calls)
  from Suc.IH [OF e2, of "Suc k" "MtmTransState_read ?w x ts"] obtain r where
    r: "MtmPostPrepareTransaction_wait e others x n start timeout (Suc j) (Suc k)
          (MtmTransState_read ?w x ts) ?w = Some r"
    by auto
  show ?case
    using r
    by (subst MtmPostPrepareTransaction_wait.simps(2))
      (auto simp: MtmGetSystemTime_def Let_def simp del: MtmPostPrepareTransaction_wait.simps(2))
qed

lemma read_idem: "MtmTransState_read s x (MtmTransState_read s x ts) = MtmTransState_read s x ts"
  by (simp add: MtmTransState_read_def split: option.splits)

lemma wait_read:
  "MtmPostPrepareTransaction_wait e others x n start timeout fuel k ts s = Some (ts', s') \<Longrightarrow>
   MtmTransState_read s x ts = ts \<Longrightarrow> MtmTransState_read s' x ts' = ts'"
proof (induction fuel arbitrary: k ts s)
  case 0
  then show ?case by simp
next
  case (Suc fuel)
  let ?s1 = "s\<lparr>Mtm_ext_calls := Suc (Mtm_ext_calls s)\<rparr>"
  let ?w = "WaitLatch others k ?s1"
  have r1: "MtmTransState_read ?s1 x ts = ts"
    using Suc.prems(2) by (simp add: MtmTransState_read_def)
  note ih = Suc.IH [of "Suc k" "MtmTransState_read ?w x ts" ?w, OF _ read_idem]
  show ?case
    using Suc.prems ih r1
    by (auto simp: MtmGetSystemTime_def Let_def split: if_splits)
qed

lemma wait_quiet:
  assumes q: "\<And>k s'. others k s' = s'"
    and ts: "MtmXid2State s x = Some ts" "\<not> ts_votingCompleted ts"
      "ts_status ts \<noteq> TRANSACTION_STATUS_ABORTED"
    and on: "Mtm_status s = MTM_ONLINE" "Mtm_nConfigChanges s = n"
  shows "(\<forall>i<j. gettimeofday e (Mtm_ext_calls s + i) \<le> start + timeout) \<Longrightarrow>
     MtmPostPrepareTransaction_wait e others x n start timeout j k ts s = None"
  using ts(1) on
proof (induction j arbitrary: k s)
  case 0
  then show ?case by simp
next
  case (Suc j)
  let ?s1 = "s\<lparr>Mtm_ext_calls := Suc (Mtm_ext_calls s)\<rparr>"
  have w: "WaitLatch others k ?s1 = ?s1" by (simp add: WaitLatch_def q)
  have rd: "MtmTransState_read ?s1 x ts = ts"
    using Suc.prems(2) by (simp add: MtmTransState_read_def)
  have a: "\<forall>i<j. gettimeofday e (Mtm_ext_calls ?s1 + i) \<le> start + timeout"
  proof (intro allI impI)
    fix i assume "i < j"
    then have "Suc i < Suc j" by simp
    with Suc.prems(1) have "gettimeofday e (Mtm_ext_calls s + Suc i) \<le> start + timeout" by blast
    then show "gettimeofday e (Mtm_ext_calls ?s1 + i) \<le> start + timeout" by simp
  qed
  have b: "gettimeofday e (Mtm_ext_calls s) \<le> start + timeout"
    using Suc.prems(1) by (metis add.right_neutral zero_less_Suc)
  have ih: "MtmPostPrepareTransaction_wait e others x n start timeout j (Suc k) ts ?s1 = None"
    using Suc.IH [OF a, of "Suc k"] Suc.prems(2-) by simp
  show ?case using Suc.prems(2-) b ih w rd ts(2,3) by (simp add: MtmGetSystemTime_def)
qed

lemma unat_word_of_int_64:
  assumes "0 \<le> i" "i < 2 ^ 64"
  shows "unat (word_of_int i :: 64 word) = nat i"
proof -
  have "(word_of_int i :: 64 word) = word_of_nat (nat i)" using assms by simp
  moreover have "nat i < 2 ^ 64" using assms by (simp add: nat_less_iff)
  ultimately show ?thesis by (simp add: unat_of_nat)
qed

lemma Max_macro_unat: "unat (Max_macro (a::64 word) b) = max (unat a) (unat b)"
  by (simp add: Max_macro_def word_less_nat_alt max_def)

lemma transTimeout_nat:
  fixes c s :: "64 word"
  assumes "0 \<le> m" "m * 1000 < 2 ^ 31" "0 \<le> r" "r < 2 ^ 31" "s \<le> c"
    "(unat c - unat s) * nat r < 2 ^ 64"
  shows "unat (Max_macro (MSEC_TO_USEC m) ((c - s) * word_of_int r div 100))
    = max (nat m * 1000) ((unat c - unat s) * nat r div 100)"
proof -
  have m1: "m * 1000 < 2 ^ 64" using assms(2) by simp
  have "unat (word_of_int (m * 1000) :: 64 word) = nat (m * 1000)"
    using assms(1) m1 by (intro unat_word_of_int_64) simp_all
  then have a: "unat (MSEC_TO_USEC m) = nat m * 1000"
    using assms(1) by (simp add: MSEC_TO_USEC_def nat_mult_distrib)
  have d: "unat (c - s) = unat c - unat s" using assms(5) by (simp add: unat_sub)
  have r: "unat (word_of_int r :: 64 word) = nat r"
    using assms(3,4) by (intro unat_word_of_int_64) simp_all
  have "unat (c - s) * unat (word_of_int r :: 64 word) < 2 ^ LENGTH(64)"
    using assms(6) d r by simp
  then have "unat ((c - s) * word_of_int r) = unat (c - s) * unat (word_of_int r :: 64 word)"
    by (rule iffD1 [OF unat_mult_lem])
  then have p: "unat ((c - s) * word_of_int r) = (unat c - unat s) * nat r"
    unfolding d r .
  have q: "unat ((c - s) * word_of_int r div 100) = (unat c - unat s) * nat r div 100"
    using p by (simp add: unat_div)
  show ?thesis unfolding Max_macro_unat a q ..
qed

lemma inject_parts:
  "fst (snd (MtmPostPrepareTransaction_inject x s)) = x"
  "MtmXid2State (snd (snd (MtmPostPrepareTransaction_inject x s))) = MtmXid2State s"
  by (simp_all add: MtmPostPrepareTransaction_inject_def)

lemma vote_result:
  assumes "MtmTransState_read s (x_xid x) ts = ts" and "\<not> ts_votingCompleted ts"
  shows "fst (snd (MtmPostPrepareTransaction_vote x ts n s))
           = x\<lparr>x_status := TRANSACTION_STATUS_ABORTED\<rparr>"
    and "MtmXid2State (snd (snd (MtmPostPrepareTransaction_vote x ts n s))) (x_xid x) = Some t
           \<Longrightarrow> ts_status t = TRANSACTION_STATUS_ABORTED"
proof -
  show "fst (snd (MtmPostPrepareTransaction_vote x ts n s))
           = x\<lparr>x_status := TRANSACTION_STATUS_ABORTED\<rparr>"
    using assms(2) by (simp add: MtmPostPrepareTransaction_vote_def inject_parts)
  assume t: "MtmXid2State (snd (snd (MtmPostPrepareTransaction_vote x ts n s))) (x_xid x) = Some t"
  show "ts_status t = TRANSACTION_STATUS_ABORTED"
  proof (cases "MtmXid2State s (x_xid x)")
    case None
    then show ?thesis using t assms(2)
      by (simp add: MtmPostPrepareTransaction_vote_def inject_parts split: if_splits)
  next
    case (Some ts1)
    then have eq: "ts1 = ts" using assms(1) by (simp add: MtmTransState_read_def)
    show ?thesis
    proof (cases "ts_status ts = TRANSACTION_STATUS_ABORTED")
      case True
      then show ?thesis using t Some eq
        by (simp add: MtmPostPrepareTransaction_vote_def inject_parts)
    next
      case False
      from MtmAbortTransaction_entry [OF Some] obtain ts' where
        "MtmXid2State (MtmAbortTransaction (x_xid x) s) (x_xid x) = Some ts'"
        "ts_status ts' = TRANSACTION_STATUS_ABORTED" by blast
      then show ?thesis using t Some False assms(2)
        by (simp add: MtmPostPrepareTransaction_vote_def inject_parts)
    qed
  qed
qed

text \<open>
  Claim C5. The backend is the coordinator of its distributed transaction, whose state
  \<open>ts\<close> the table holds, and the node is not in recovery. The time it waits for the
  votes is \<open>transTimeout\<close>: in microseconds, the greater of the minimal timeout of the
  configuration, which is given in milliseconds, and a hundredth of the prepare ratio
  times the difference between the CSN and the snapshot of \<open>ts\<close>, the CSN assigned at
  prepare and the snapshot of the begin, as long as none of these products overflows.
  The deadline is that time after the clock reading \<open>start\<close> that the function takes
  first. While no vote arrives and nothing else changes, the function waits as long as
  the clock readings are not past the deadline. With the first reading past the
  deadline, at the latest, the function returns, whatever the other processes do. And
  whenever it returns with the votes incomplete, the transaction is aborted: the status
  it gives the backend is aborted, and so is the status of the state in the table.
\<close>

theorem MtmPostPrepareTransaction_deadline:
  assumes d: "x_isDistributed x" and inj: "Mtm_inject2PCError s \<noteq> 2"
    and ts: "MtmXid2State s (x_xid x) = Some ts"
    and co: "MtmIsCoordinator cfg ts" "Mtm_status s \<noteq> MTM_RECOVERY"
  shows
   "(0 \<le> Mtm2PCMinTimeout cfg \<and> Mtm2PCMinTimeout cfg * 1000 < 2 ^ 31
      \<and> 0 \<le> Mtm2PCPrepareRatio cfg \<and> Mtm2PCPrepareRatio cfg < 2 ^ 31
      \<and> ts_snapshot ts \<le> ts_csn ts
      \<and> (unat (ts_csn ts) - unat (ts_snapshot ts)) * nat (Mtm2PCPrepareRatio cfg) < 2 ^ 64 \<longrightarrow>
       unat (transTimeout cfg ts)
         = max (nat (Mtm2PCMinTimeout cfg) * 1000)
             ((unat (ts_csn ts) - unat (ts_snapshot ts)) * nat (Mtm2PCPrepareRatio cfg) div 100)) \<and>
    (\<forall>j. (\<forall>k s'. others k s' = s') \<and> \<not> ts_votingCompleted ts \<and> Mtm_status s = MTM_ONLINE
         \<and> ts_status ts \<noteq> TRANSACTION_STATUS_ABORTED
         \<and> (\<forall>i<j. gettimeofday e (Suc (Mtm_ext_calls s) + i)
                    \<le> gettimeofday e (Mtm_ext_calls s) + transTimeout cfg ts) \<longrightarrow>
         MtmPostPrepareTransaction cfg e others j x s = None) \<and>
    (\<forall>j. gettimeofday e (Mtm_ext_calls s) + transTimeout cfg ts
           < gettimeofday e (Suc (Mtm_ext_calls s) + j) \<longrightarrow>
         (\<exists>r. MtmPostPrepareTransaction cfg e others (Suc j) x s = Some r)) \<and>
    (\<forall>fuel r. MtmPostPrepareTransaction cfg e others fuel x s = Some r \<longrightarrow>
         (\<exists>ts' s'.
            MtmPostPrepareTransaction_wait e others (x_xid x) (Mtm_nConfigChanges s)
                (gettimeofday e (Mtm_ext_calls s)) (transTimeout cfg ts) fuel 0 ts
                (s\<lparr>Mtm_ext_calls := Suc (Mtm_ext_calls s)\<rparr>) = Some (ts', s') \<and>
            (\<not> ts_votingCompleted ts' \<longrightarrow>
               fst (snd r) = x\<lparr>x_status := TRANSACTION_STATUS_ABORTED\<rparr> \<and>
               (\<forall>t. MtmXid2State (snd (snd r)) (x_xid x) = Some t \<longrightarrow>
                  ts_status t = TRANSACTION_STATUS_ABORTED))))"
proof -
  let ?xid = "x_xid x"
  let ?s1 = "s\<lparr>Mtm_ext_calls := Suc (Mtm_ext_calls s)\<rparr>"
  let ?start = "gettimeofday e (Mtm_ext_calls s)"
  let ?T = "transTimeout cfg ts"
  let ?n = "Mtm_nConfigChanges s"
  let ?W = "\<lambda>fuel. MtmPostPrepareTransaction_wait e others ?xid ?n ?start ?T fuel 0 ts ?s1"
  have run: "MtmPostPrepareTransaction cfg e others fuel x s =
      (case ?W fuel of
         None \<Rightarrow> None
       | Some (ts1, s2) \<Rightarrow> Some (MtmPostPrepareTransaction_vote x ts1 ?n s2))" for fuel
    using d inj ts co
    by (simp add: MtmPostPrepareTransaction_def MtmGetSystemTime_def Let_def)
  have rd: "MtmTransState_read ?s1 ?xid ts = ts"
    using ts by (simp add: MtmTransState_read_def)
  have formula: "unat (transTimeout cfg ts)
         = max (nat (Mtm2PCMinTimeout cfg) * 1000)
             ((unat (ts_csn ts) - unat (ts_snapshot ts)) * nat (Mtm2PCPrepareRatio cfg) div 100)"
    if "0 \<le> Mtm2PCMinTimeout cfg \<and> Mtm2PCMinTimeout cfg * 1000 < 2 ^ 31
      \<and> 0 \<le> Mtm2PCPrepareRatio cfg \<and> Mtm2PCPrepareRatio cfg < 2 ^ 31
      \<and> ts_snapshot ts \<le> ts_csn ts
      \<and> (unat (ts_csn ts) - unat (ts_snapshot ts)) * nat (Mtm2PCPrepareRatio cfg) < 2 ^ 64"
    unfolding transTimeout_def using that by (intro transTimeout_nat) simp_all
  have waits: "MtmPostPrepareTransaction cfg e others j x s = None"
    if h: "(\<forall>k s'. others k s' = s') \<and> \<not> ts_votingCompleted ts \<and> Mtm_status s = MTM_ONLINE
         \<and> ts_status ts \<noteq> TRANSACTION_STATUS_ABORTED
         \<and> (\<forall>i<j. gettimeofday e (Suc (Mtm_ext_calls s) + i) \<le> ?start + ?T)" for j
  proof -
    have q': "others k s' = s'" for k s' using h by blast
    have v: "\<not> ts_votingCompleted ts" and na: "ts_status ts \<noteq> TRANSACTION_STATUS_ABORTED"
      using h by blast+
    have t1: "MtmXid2State ?s1 ?xid = Some ts" using ts by simp
    have o1: "Mtm_status ?s1 = MTM_ONLINE" using h by simp
    have n1: "Mtm_nConfigChanges ?s1 = ?n" by simp
    have early1: "\<forall>i<j. gettimeofday e (Mtm_ext_calls ?s1 + i) \<le> ?start + ?T"
      using h by simp
    have "?W j = None"
      by (rule wait_quiet [where others = others and x = ?xid and s = ?s1,
            OF q' t1 v na o1 n1 early1])
    then show ?thesis unfolding run by simp
  qed
  have returns: "\<exists>r. MtmPostPrepareTransaction cfg e others (Suc j) x s = Some r"
    if late: "?start + ?T < gettimeofday e (Suc (Mtm_ext_calls s) + j)" for j
  proof -
    have late1: "?start + ?T < gettimeofday e (Mtm_ext_calls ?s1 + j)" using late by simp
    from wait_returns [where others = others and x = ?xid and n = ?n and k = 0 and s = ?s1
        and j = j and e = e and start = ?start and timeout = ?T and ts = ts, OF late1]
    obtain w where w: "?W (Suc j) = Some w" by blast
    obtain a b where ab: "w = (a, b)" by (cases w)
    have "MtmPostPrepareTransaction cfg e others (Suc j) x s
        = Some (MtmPostPrepareTransaction_vote x a ?n b)"
      unfolding run w ab by simp
    then show ?thesis by blast
  qed
  have result: "\<exists>ts' s'. ?W fuel = Some (ts', s') \<and>
            (\<not> ts_votingCompleted ts' \<longrightarrow>
               fst (snd r) = x\<lparr>x_status := TRANSACTION_STATUS_ABORTED\<rparr> \<and>
               (\<forall>t. MtmXid2State (snd (snd r)) ?xid = Some t \<longrightarrow>
                  ts_status t = TRANSACTION_STATUS_ABORTED))"
    if r: "MtmPostPrepareTransaction cfg e others fuel x s = Some r" for fuel r
  proof -
    from r obtain ts' s' where w: "?W fuel = Some (ts', s')"
      unfolding run by (cases "?W fuel") auto
    have inv: "MtmTransState_read s' ?xid ts' = ts'"
      using wait_read [OF w rd] .
    have rv: "r = MtmPostPrepareTransaction_vote x ts' ?n s'"
      using r w unfolding run by simp
    have "fst (snd r) = x\<lparr>x_status := TRANSACTION_STATUS_ABORTED\<rparr> \<and>
               (\<forall>t. MtmXid2State (snd (snd r)) ?xid = Some t \<longrightarrow>
                  ts_status t = TRANSACTION_STATUS_ABORTED)"
      if nv: "\<not> ts_votingCompleted ts'"
      unfolding rv using vote_result [OF inv nv, of ?n] by blast
    then show ?thesis using w by blast
  qed
  show ?thesis
    apply (intro conjI allI impI)
    subgoal using formula by blast
    subgoal for j using waits [of j] by blast
    subgoal for j using returns [of j] by blast
    subgoal for fuel r using result [of fuel r] by blast
    done
qed

text \<open>
  The theorem at the example. Transaction 7 has the snapshot 5 and the CSN 10, so with a
  prepare ratio of 1000 its own share is 50 microseconds and the timeout is the minimal
  one, 10000 milliseconds. The clock shows 0 at the start and advances by four seconds
  from reading to reading, so the third reading is the first past the deadline. Nobody
  votes: after two evaluations of the loop condition the backend is still waiting, at
  the third it returns, and the transaction is aborted. When the votes are complete
  after the first wait, the backend returns at the second evaluation with the status of
  the transaction as it is.
\<close>

theorem MtmPostPrepareTransaction_deadline_witness:
  "x_isDistributed prepared_MtmTx \<and> Mtm_inject2PCError prepared_state \<noteq> 2 \<and>
   MtmXid2State prepared_state (x_xid prepared_MtmTx) = Some example_ts \<and>
   MtmIsCoordinator example_config example_ts \<and> Mtm_status prepared_state \<noteq> MTM_RECOVERY \<and>
   unat (transTimeout example_config example_ts) = 10000000 \<and>
   MtmPostPrepareTransaction example_config ticking_env (\<lambda>k s. s) 2 prepared_MtmTx prepared_state
     = None \<and>
   (\<exists>r. MtmPostPrepareTransaction example_config ticking_env (\<lambda>k s. s) 3 prepared_MtmTx
           prepared_state = Some r \<and>
        fst r = Inr () \<and>
        fst (snd r) = prepared_MtmTx\<lparr>x_status := TRANSACTION_STATUS_ABORTED\<rparr> \<and>
        map_option ts_status (MtmXid2State (snd (snd r)) 7) = Some TRANSACTION_STATUS_ABORTED \<and>
        map_option ts_votingCompleted (MtmXid2State (snd (snd r)) 7) = Some False) \<and>
   map_option (\<lambda>r. (fst r, fst (snd r), map_option ts_status (MtmXid2State (snd (snd r)) 7)))
     (MtmPostPrepareTransaction example_config ticking_env (\<lambda>k. MtmWakeUpBackend 7) 2
        prepared_MtmTx prepared_state)
     = Some (Inr (), prepared_MtmTx\<lparr>x_status := TRANSACTION_STATUS_UNKNOWN\<rparr>,
             Some TRANSACTION_STATUS_UNKNOWN)"
proof -
  have h: "x_isDistributed prepared_MtmTx" "Mtm_inject2PCError prepared_state \<noteq> 2"
    "MtmXid2State prepared_state (x_xid prepared_MtmTx) = Some example_ts"
    "MtmIsCoordinator example_config example_ts" "Mtm_status prepared_state \<noteq> MTM_RECOVERY"
    by (simp_all add: prepared_MtmTx_def example_MtmTx_def prepared_state_def example_state_def
        MtmIsCoordinator_def example_config_def example_ts_def)
  note t = MtmPostPrepareTransaction_deadline [where x = prepared_MtmTx and s = prepared_state
      and ts = example_ts and cfg = example_config and others = "\<lambda>k s. s" and e = ticking_env,
      OF h]
  note t1 = t [THEN conjunct1]
  note t2 = t [THEN conjunct2, THEN conjunct1]
  note t3 = t [THEN conjunct2, THEN conjunct2, THEN conjunct1]
  have c: "0 \<le> Mtm2PCMinTimeout example_config \<and> Mtm2PCMinTimeout example_config * 1000 < 2 ^ 31
      \<and> 0 \<le> Mtm2PCPrepareRatio example_config \<and> Mtm2PCPrepareRatio example_config < 2 ^ 31
      \<and> ts_snapshot example_ts \<le> ts_csn example_ts
      \<and> (unat (ts_csn example_ts) - unat (ts_snapshot example_ts))
           * nat (Mtm2PCPrepareRatio example_config) < 2 ^ 64"
    by (simp add: example_config_def example_ts_def)
  have f: "unat (transTimeout example_config example_ts) = 10000000"
    using t1 [THEN mp, OF c] by (simp add: example_config_def example_ts_def)
  have T: "transTimeout example_config example_ts = 10000000"
    by code_simp
  have c0: "Mtm_ext_calls prepared_state = 0"
    by (simp add: prepared_state_def example_state_def)
  have early: "gettimeofday ticking_env (Suc 0 + i) \<le> gettimeofday ticking_env 0 + 10000000"
    if "i < 2" for i
  proof -
    from that have "i = 0 \<or> i = 1" by auto
    then show ?thesis by (auto simp: ticking_env_def example_env_def)
  qed
  have q: "(\<forall>k s'. (\<lambda>k s. s) k s' = (s'::MtmState)) \<and> \<not> ts_votingCompleted example_ts
      \<and> Mtm_status prepared_state = MTM_ONLINE
      \<and> ts_status example_ts \<noteq> TRANSACTION_STATUS_ABORTED
      \<and> (\<forall>i<2. gettimeofday ticking_env (Suc (Mtm_ext_calls prepared_state) + i)
                    \<le> gettimeofday ticking_env (Mtm_ext_calls prepared_state)
                        + transTimeout example_config example_ts)"
    unfolding T c0 using early
    by (simp add: example_ts_def prepared_state_def example_state_def)
  have n: "MtmPostPrepareTransaction example_config ticking_env (\<lambda>k s. s) 2
      prepared_MtmTx prepared_state = None"
    by (rule t2 [THEN spec, THEN mp, OF q])
  have l: "gettimeofday ticking_env (Mtm_ext_calls prepared_state)
        + transTimeout example_config example_ts
      < gettimeofday ticking_env (Suc (Mtm_ext_calls prepared_state) + 2)"
    unfolding T c0 by (simp add: ticking_env_def example_env_def)
  have "\<exists>r. MtmPostPrepareTransaction example_config ticking_env (\<lambda>k s. s) (Suc 2)
      prepared_MtmTx prepared_state = Some r"
    by (rule t3 [THEN spec, THEN mp, OF l])
  then obtain r where r: "MtmPostPrepareTransaction example_config ticking_env (\<lambda>k s. s) 3
      prepared_MtmTx prepared_state = Some r"
    by auto
  have v: "map_option (\<lambda>r. (fst r, fst (snd r),
              map_option ts_status (MtmXid2State (snd (snd r)) 7),
              map_option ts_votingCompleted (MtmXid2State (snd (snd r)) 7)))
         (MtmPostPrepareTransaction example_config ticking_env (\<lambda>k s. s) 3
            prepared_MtmTx prepared_state)
       = Some (Inr (), prepared_MtmTx\<lparr>x_status := TRANSACTION_STATUS_ABORTED\<rparr>,
               Some TRANSACTION_STATUS_ABORTED, Some False)"
    by code_simp
  have "fst r = Inr () \<and>
        fst (snd r) = prepared_MtmTx\<lparr>x_status := TRANSACTION_STATUS_ABORTED\<rparr> \<and>
        map_option ts_status (MtmXid2State (snd (snd r)) 7) = Some TRANSACTION_STATUS_ABORTED \<and>
        map_option ts_votingCompleted (MtmXid2State (snd (snd r)) 7) = Some False"
    using v unfolding r by simp
  with r have ex: "\<exists>r. MtmPostPrepareTransaction example_config ticking_env (\<lambda>k s. s) 3
           prepared_MtmTx prepared_state = Some r \<and>
        fst r = Inr () \<and>
        fst (snd r) = prepared_MtmTx\<lparr>x_status := TRANSACTION_STATUS_ABORTED\<rparr> \<and>
        map_option ts_status (MtmXid2State (snd (snd r)) 7) = Some TRANSACTION_STATUS_ABORTED \<and>
        map_option ts_votingCompleted (MtmXid2State (snd (snd r)) 7) = Some False"
    by (intro exI [of _ r] conjI) simp_all
  have vote: "map_option (\<lambda>r. (fst r, fst (snd r), map_option ts_status (MtmXid2State (snd (snd r)) 7)))
     (MtmPostPrepareTransaction example_config ticking_env (\<lambda>k. MtmWakeUpBackend 7) 2
        prepared_MtmTx prepared_state)
     = Some (Inr (), prepared_MtmTx\<lparr>x_status := TRANSACTION_STATUS_UNKNOWN\<rparr>,
             Some TRANSACTION_STATUS_UNKNOWN)"
    by code_simp
  show ?thesis by (intro conjI h f n ex vote)
qed

section \<open>The in-doubt wait and the reader: properties\<close>












section \<open>The beginning of a transaction: properties\<close>

lemma update_node_status: "Mtm_status (update_node i f s) = Mtm_status s"
  by (simp add: update_node_def)

lemma MtmAdjustOldestXid_status:
  "Mtm_status (snd (MtmAdjustOldestXid cfg h xid s)) = Mtm_status s"
proof -
  have sn: "Mtm_status (snd (MtmAdjustOldestXid_snapshot cfg ts s')) = Mtm_status s'" for ts s'
    by (simp add: MtmAdjustOldestXid_snapshot_def Let_def update_node_status)
  have fg: "Mtm_status (snd (MtmAdjustOldestXid_forget h xid oldest s')) = Mtm_status s'"
    for oldest s'
    by (simp add: MtmAdjustOldestXid_forget_def Let_def split: option.splits)
  have inner: "Mtm_status (snd (case MtmXid2State s' xid of
              None \<Rightarrow> (None, s')
            | Some ts \<Rightarrow>
                (case MtmAdjustOldestXid_snapshot cfg ts s' of (oldest, s1) \<Rightarrow>
                   MtmAdjustOldestXid_forget h xid oldest s1))) = Mtm_status s'" for s'
    by (simp add: case_prod_beta fg sn split: option.splits)
  obtain prev s2 where p: "(case MtmXid2State (s\<lparr>Mtm_gcCount := 0\<rparr>) xid of
              None \<Rightarrow> (None, s\<lparr>Mtm_gcCount := 0\<rparr>)
            | Some ts \<Rightarrow>
                (case MtmAdjustOldestXid_snapshot cfg ts (s\<lparr>Mtm_gcCount := 0\<rparr>) of (oldest, s1) \<Rightarrow>
                   MtmAdjustOldestXid_forget h xid oldest s1)) = (prev, s2)"
    by (metis surj_pair)
  have "Mtm_status s2 = Mtm_status s"
    using inner [of "s\<lparr>Mtm_gcCount := 0\<rparr>"] unfolding p by simp
  then show ?thesis
    unfolding MtmAdjustOldestXid_def Let_def p
    by (simp split: option.splits)
qed

lemma MtmAssignCSN_snd_csn: "Mtm_csn (snd (MtmAssignCSN e s)) = fst (MtmAssignCSN e s)"
  using MtmAssignCSN_csn [of e s "fst (MtmAssignCSN e s)" "snd (MtmAssignCSN e s)"] by simp

text \<open>
  Claim C9, as the code has it. A transaction begins when its descriptor has no
  snapshot. \<^verbatim>\<open>MtmBeginTransaction\<close> raises an error in one case only: the transaction
  would be distributed, the node is not online, and the session is not the
  administrator's. An isolation level other than repeatable read is no reason for an
  error: for a transaction that would be distributed the function writes the message
  \<^verbatim>\<open>Isolation level %s is not supported by multimaster\<close> to the log, and the transaction
  begins like any other: it is marked as distributed and in progress and gets the CSN
  that the function assigns as its snapshot.
\<close>

theorem MtmBeginTransaction_isolation:
  assumes "x_snapshot x = INVALID_CSN cfg"
  shows
   "(isl (fst (MtmBeginTransaction cfg e h x s)) \<longleftrightarrow>
       MtmIsUserTransaction h \<and> Mtm_status s \<noteq> MTM_ONLINE
       \<and> application_name h \<noteq> MULTIMASTER_ADMIN cfg) \<and>
    (isl (fst (MtmBeginTransaction cfg e h x s)) \<longrightarrow>
       fst (MtmBeginTransaction cfg e h x s)
         = Inl (ERROR ''Multimaster node is not online: current status %s'')) \<and>
    (\<not> isl (fst (MtmBeginTransaction cfg e h x s)) \<longrightarrow>
       fst (MtmBeginTransaction cfg e h x s)
         = Inr (if MtmIsUserTransaction h \<and> XactIsoLevel h \<noteq> XACT_REPEATABLE_READ
                then [(''Isolation level %s is not supported by multimaster'',
                       isoLevelStr (XactIsoLevel h))]
                else []) \<and>
       x_isDistributed (fst (snd (MtmBeginTransaction cfg e h x s))) = MtmIsUserTransaction h \<and>
       x_status (fst (snd (MtmBeginTransaction cfg e h x s))) = TRANSACTION_STATUS_IN_PROGRESS \<and>
       x_snapshot (fst (snd (MtmBeginTransaction cfg e h x s)))
         = Mtm_csn (snd (snd (MtmBeginTransaction cfg e h x s))))"
proof -
  define xmin where "xmin = (if Mtm_gcCount s \<ge> MtmGcPeriod cfg then PgGetOldestXmin h
                     else InvalidTransactionId)"
  define s1 where "s1 = (if TransactionIdIsValid xmin \<and> Mtm_gcCount s \<ge> MtmGcPeriod cfg
                   then snd (MtmAdjustOldestXid cfg h xmin s) else s)"
  define x1 where "x1 = x\<lparr>x_xid := GetCurrentTransactionIdIfAny h,
                    x_isReplicated := False,
                    x_isDistributed := MtmIsUserTransaction h,
                    x_isPrepared := False,
                    x_isTransactionBlock := IsTransactionBlock h\<rparr>"
  define rej where "rej = (MtmIsUserTransaction h \<and> Mtm_status s \<noteq> MTM_ONLINE
       \<and> application_name h \<noteq> MULTIMASTER_ADMIN cfg)"
  define msgs where "msgs = (if MtmIsUserTransaction h \<and> XactIsoLevel h \<noteq> XACT_REPEATABLE_READ
                then [(''Isolation level %s is not supported by multimaster'',
                       isoLevelStr (XactIsoLevel h))]
                else [])"
  have st: "Mtm_status s1 = Mtm_status s"
    unfolding s1_def by (simp add: MtmAdjustOldestXid_status)
  have run: "MtmBeginTransaction cfg e h x s =
      (if rej then (Inl (ERROR ''Multimaster node is not online: current status %s''), x1, s1)
       else (Inr msgs,
             x1\<lparr>x_containsDML := False,
                x_snapshot := fst (MtmAssignCSN e s1),
                x_gtid := (x_gtid x1)\<lparr>gtid_xid := InvalidTransactionId\<rparr>,
                x_gid := [],
                x_status := TRANSACTION_STATUS_IN_PROGRESS\<rparr>,
             snd (MtmAssignCSN e s1)))"
    using assms st
    unfolding MtmBeginTransaction_def Let_def xmin_def [symmetric] s1_def [symmetric]
      x1_def [symmetric]
    by (simp add: rej_def msgs_def x1_def case_prod_beta)
  show ?thesis
    unfolding run rej_def [symmetric] msgs_def [symmetric]
    by (simp add: x1_def MtmAssignCSN_snd_csn)
qed

text \<open>
  The theorem at the example: a user's transaction begins under read committed on an
  online node. There is no error, the log gets the message, and the transaction is in
  progress with the snapshot 5, the CSN assigned. Under repeatable read the begin is
  not rejected on an online node either, and it is rejected on an offline node.
\<close>

theorem MtmBeginTransaction_isolation_witness:
  "x_snapshot starting_MtmTx = INVALID_CSN example_config \<and>
   \<not> isl (fst (MtmBeginTransaction example_config example_env example_host starting_MtmTx
               example_state)) \<and>
   fst (MtmBeginTransaction example_config example_env example_host starting_MtmTx example_state)
     = Inr [(''Isolation level %s is not supported by multimaster'', ''read committed'')] \<and>
   x_status (fst (snd (MtmBeginTransaction example_config example_env example_host starting_MtmTx
      example_state))) = TRANSACTION_STATUS_IN_PROGRESS \<and>
   x_snapshot (fst (snd (MtmBeginTransaction example_config example_env example_host starting_MtmTx
      example_state))) = 5 \<and>
   \<not> isl (fst (MtmBeginTransaction example_config example_env
               (example_host\<lparr>XactIsoLevel := XACT_REPEATABLE_READ\<rparr>) starting_MtmTx
               recovering_state)) \<and>
   isl (fst (MtmBeginTransaction example_config example_env
               (example_host\<lparr>XactIsoLevel := XACT_REPEATABLE_READ\<rparr>) starting_MtmTx
               (example_state\<lparr>Mtm_status := MTM_OFFLINE\<rparr>)))"
proof -
  have h: "x_snapshot starting_MtmTx = INVALID_CSN example_config"
    by (simp add: starting_MtmTx_def example_config_def)
  note t = MtmBeginTransaction_isolation [OF h, of example_env example_host example_state]
  note u = MtmBeginTransaction_isolation [OF h, of example_env
      "example_host\<lparr>XactIsoLevel := XACT_REPEATABLE_READ\<rparr>" recovering_state]
  note v = MtmBeginTransaction_isolation [OF h, of example_env
      "example_host\<lparr>XactIsoLevel := XACT_REPEATABLE_READ\<rparr>"
      "example_state\<lparr>Mtm_status := MTM_OFFLINE\<rparr>"]
  have on: "Mtm_status example_state = MTM_ONLINE" "Mtm_status recovering_state = MTM_ONLINE"
    by (simp_all add: example_state_def recovering_state_def)
  have hs: "MtmIsUserTransaction example_host" "XactIsoLevel example_host = XACT_READ_COMMITTED"
    "application_name example_host \<noteq> MULTIMASTER_ADMIN example_config"
    by (simp_all add: example_host_def example_config_def)
  have n1: "\<not> isl (fst (MtmBeginTransaction example_config example_env example_host starting_MtmTx
               example_state))"
    using t [THEN conjunct1] on(1) by simp
  have r1: "fst (MtmBeginTransaction example_config example_env example_host starting_MtmTx
      example_state)
     = Inr [(''Isolation level %s is not supported by multimaster'', ''read committed'')]"
    and r2: "x_status (fst (snd (MtmBeginTransaction example_config example_env example_host
      starting_MtmTx example_state))) = TRANSACTION_STATUS_IN_PROGRESS"
    and r3: "x_snapshot (fst (snd (MtmBeginTransaction example_config example_env example_host
      starting_MtmTx example_state)))
      = Mtm_csn (snd (snd (MtmBeginTransaction example_config example_env example_host
      starting_MtmTx example_state)))"
    using t [THEN conjunct2, THEN conjunct2] n1 hs by simp_all
  have c: "Mtm_csn (snd (snd (MtmBeginTransaction example_config example_env example_host
      starting_MtmTx example_state))) = 5"
    by code_simp
  have n2: "\<not> isl (fst (MtmBeginTransaction example_config example_env
               (example_host\<lparr>XactIsoLevel := XACT_REPEATABLE_READ\<rparr>) starting_MtmTx
               recovering_state))"
    using u [THEN conjunct1] on(2) by simp
  have n3: "isl (fst (MtmBeginTransaction example_config example_env
               (example_host\<lparr>XactIsoLevel := XACT_REPEATABLE_READ\<rparr>) starting_MtmTx
               (example_state\<lparr>Mtm_status := MTM_OFFLINE\<rparr>)))"
    using v [THEN conjunct1] hs by simp
  show ?thesis by (intro conjI h n1 r1 r2 r3 [unfolded c] n2 n3)
qed

text \<open>
  Claim C9 as it is written fails: a user's transaction that begins under read
  committed on an online node is not rejected. \<^verbatim>\<open>MtmBeginTransaction\<close> returns without an
  error, with the transaction distributed and in progress.
\<close>

theorem MtmBeginTransaction_isolation_counterexample:
  "XactIsoLevel example_host \<noteq> XACT_REPEATABLE_READ \<and> MtmIsUserTransaction example_host \<and>
   x_snapshot starting_MtmTx = INVALID_CSN example_config \<and>
   \<not> isl (fst (MtmBeginTransaction example_config example_env example_host starting_MtmTx
               example_state)) \<and>
   x_isDistributed (fst (snd (MtmBeginTransaction example_config example_env example_host
      starting_MtmTx example_state))) \<and>
   x_status (fst (snd (MtmBeginTransaction example_config example_env example_host starting_MtmTx
      example_state))) = TRANSACTION_STATUS_IN_PROGRESS"
  by code_simp

end
